theory Spec2Isabelle
  imports Main "HOL-Library.Word"
begin

unbundle bit_operations_syntax

section \<open>Errors and the byte reader\<close>

text \<open>
  The three ways a call of the C++ code can fail to return a value.
  \<^item> \<open>Exception\<close>: a C++ \<open>Exception\<close> was thrown (\<open>Reader::readObj\<close> on a short
    read, \<open>getuint\<close> on a width above 16); callers may catch it.
  \<^item> \<open>Abort\<close>: the code called \<open>abort()\<close>; the process ends.
  \<^item> \<open>Undefined\<close>: the C++ standard gives the operation no meaning (index outside
    an array, \<open>top()\<close> of an empty stack, shift of an \<open>int\<close> by 32 or more,
    division by zero).
\<close>

datatype error = Exception | Abort | Undefined

text \<open>Sequencing of calls that may fail: the first error ends the computation.\<close>

definition bindE :: "error + 'a \<Rightarrow> ('a \<Rightarrow> error + 'b) \<Rightarrow> error + 'b" where
  "bindE x f = (case x of Inl e \<Rightarrow> Inl e | Inr v \<Rightarrow> f v)"

text \<open>
  \<open>Reader\<close> (libpstack/util.h) is an abstract class; \<open>read\<close> is pure virtual.
  A reader is modelled by the bytes it can deliver: \<open>io a = None\<close> where the byte
  at offset \<open>a\<close> cannot be read.  \<open>readObj\<close> throws when fewer bytes than asked
  for come back.
\<close>

type_synonym Reader = "64 word \<Rightarrow> 8 word option"

fun readObj :: "Reader \<Rightarrow> 64 word \<Rightarrow> nat \<Rightarrow> error + 8 word list" where
  "readObj io offset 0 = Inr []"
| "readObj io offset (Suc count) =
     (case io offset of
        None \<Rightarrow> Inl Exception
      | Some b \<Rightarrow>
          (case readObj io (offset + 1) count of
             Inl e \<Rightarrow> Inl e
           | Inr bs \<Rightarrow> Inr (b # bs)))"

section \<open>DWARFReader (dwarf.h, dwarf.cc)\<close>

record DWARFReader =
  off :: "64 word"
  rend :: "64 word"
  io :: Reader
  addrLen :: nat
  rversion :: int

definition getOffset :: "DWARFReader \<Rightarrow> 64 word" where
  "getOffset r = off r"

definition getLimit :: "DWARFReader \<Rightarrow> 64 word" where
  "getLimit r = rend r"

definition setOffset :: "DWARFReader \<Rightarrow> 64 word \<Rightarrow> DWARFReader" where
  "setOffset r off' = r\<lparr>off := off'\<rparr>"

definition empty_r :: "DWARFReader \<Rightarrow> bool" where
  "empty_r r = (off r = rend r)"

definition skip :: "DWARFReader \<Rightarrow> 64 word \<Rightarrow> DWARFReader" where
  "skip r amount = r\<lparr>off := off r + amount\<rparr>"

text \<open>
  The constructor \<open>DWARFReader(io, version, off, size)\<close>; \<open>ELF_BITS\<close> is 64
  (libpstack/elf.h), so \<open>addrLen\<close> starts as 8.
\<close>

definition mkDWARFReader :: "Reader \<Rightarrow> int \<Rightarrow> 64 word \<Rightarrow> 64 word \<Rightarrow> DWARFReader" where
  "mkDWARFReader io' version' off' size' =
     \<lparr>off = off', rend = off' + size', io = io', addrLen = 8, rversion = version'\<rparr>"

text \<open>\<open>rc = rc << 8 | p[-i]\<close> for \<open>i = 1 .. len\<close>: the bytes from the last to the first.\<close>

definition le_value :: "64 word \<Rightarrow> 8 word list \<Rightarrow> 64 word" where
  "le_value rc0 bytes = fold (\<lambda>b rc. push_bit 8 rc OR ucast b) (rev bytes) rc0"

definition getuint :: "DWARFReader \<Rightarrow> nat \<Rightarrow> error + (64 word \<times> DWARFReader)" where
  "getuint r len =
     (if len > 16 then Inl Exception
      else case readObj (io r) (off r) len of
             Inl e \<Rightarrow> Inl e
           | Inr bytes \<Rightarrow> Inr (le_value 0 bytes, r\<lparr>off := off r + of_nat len\<rparr>))"

text \<open>
  \<open>getint\<close>: the same with \<open>rc\<close> starting as \<open>-1\<close> when the last byte has its top
  bit set (\<open>p[-1]\<close>, which lies outside \<open>bytes\<close> when \<open>len\<close> is 0).  \<open>rc << 8\<close> of a
  negative \<open>rc\<close> is the two's complement value, as in \<open>getuleb128shift\<close> below.
\<close>

definition getint :: "DWARFReader \<Rightarrow> nat \<Rightarrow> error + (64 word \<times> DWARFReader)" where
  "getint r len =
     (if len > 16 then Inl Exception
      else case readObj (io r) (off r) len of
             Inl e \<Rightarrow> Inl e
           | Inr bytes \<Rightarrow>
               if bytes = [] then Inl Undefined
               else Inr (le_value (if last bytes AND 0x80 \<noteq> 0 then - 1 else 0) bytes,
                         r\<lparr>off := off r + of_nat len\<rparr>))"

definition getu32 :: "DWARFReader \<Rightarrow> error + (32 word \<times> DWARFReader)" where
  "getu32 r =
     (case readObj (io r) (off r) 4 of
        Inr [q0, q1, q2, q3] \<Rightarrow>
          Inr (ucast q0 OR push_bit 8 (ucast q1) OR push_bit 16 (ucast q2) OR push_bit 24 (ucast q3),
               r\<lparr>off := off r + 4\<rparr>)
      | Inr _ \<Rightarrow> Inl Exception
      | Inl e \<Rightarrow> Inl e)"

definition getu16 :: "DWARFReader \<Rightarrow> error + (16 word \<times> DWARFReader)" where
  "getu16 r =
     (case readObj (io r) (off r) 2 of
        Inr [q0, q1] \<Rightarrow> Inr (ucast q0 OR push_bit 8 (ucast q1), r\<lparr>off := off r + 2\<rparr>)
      | Inr _ \<Rightarrow> Inl Exception
      | Inl e \<Rightarrow> Inl e)"

definition getu8 :: "DWARFReader \<Rightarrow> error + (8 word \<times> DWARFReader)" where
  "getu8 r =
     (case io r (off r) of
        None \<Rightarrow> Inl Exception
      | Some q \<Rightarrow> Inr (q, r\<lparr>off := off r + 1\<rparr>))"

text \<open>\<open>gets8\<close> returns the same byte as an \<open>int8_t\<close>; callers read it with \<open>sint\<close>.\<close>

definition gets8 :: "DWARFReader \<Rightarrow> error + (8 word \<times> DWARFReader)" where
  "gets8 r =
     (case io r (off r) of
        None \<Rightarrow> Inl Exception
      | Some q \<Rightarrow> Inr (q, r\<lparr>off := off r + 1\<rparr>))"

text \<open>
  \<open>getstring\<close>: the loop reads a byte, advances, stops at NUL, appends the byte, and
  calls \<open>abort()\<close> when the counter \<open>len\<close> (the number of bytes appended before this
  one) is above 2000.
\<close>

function getstring_loop ::
  "DWARFReader \<Rightarrow> nat \<Rightarrow> 8 word list \<Rightarrow> error + (8 word list \<times> DWARFReader)" where
  "getstring_loop r len s =
     (case io r (off r) of
        None \<Rightarrow> Inl Exception
      | Some c \<Rightarrow>
          (let r' = r\<lparr>off := off r + 1\<rparr> in
           if c = 0 then Inr (s, r')
           else if len > 2000 then Inl Abort
           else getstring_loop r' (len + 1) (s @ [c])))"
  by pat_completeness auto
termination
  by (relation "measure (\<lambda>(r, len, s). 2001 - len)") auto

declare getstring_loop.simps [simp del]

definition getstring :: "DWARFReader \<Rightarrow> error + (8 word list \<times> DWARFReader)" where
  "getstring r = getstring_loop r 0 []"

text \<open>
  \<open>getuleb128shift\<close>.  \<open>(byte & 0x7f) << *shift\<close> is computed in \<open>int\<close> (the
  operand is promoted), so in 32 bits: a shift count of 32 or more is undefined, and a
  result above \<open>INT_MAX\<close> is the two's complement value (the C++20 rule, and what GCC
  and Clang compute under the older ones).  \<open>result |= ...\<close> then converts the
  \<open>int\<close> to \<open>uintmax_t\<close>, which extends the sign.
  The result is (value, shift, isSigned, reader).
\<close>

function getuleb128shift_loop ::
  "DWARFReader \<Rightarrow> 64 word \<Rightarrow> nat \<Rightarrow> error + (64 word \<times> nat \<times> bool \<times> DWARFReader)" where
  "getuleb128shift_loop r result shift =
     (case io r (off r) of
        None \<Rightarrow> Inl Exception
      | Some byte \<Rightarrow>
          (if shift \<ge> 32 then Inl Undefined
           else
             (let r' = r\<lparr>off := off r + 1\<rparr>;
                  result' = result OR scast (push_bit shift (ucast (byte AND 0x7f) :: 32 word));
                  shift' = shift + 7
              in if byte AND 0x80 = 0 then Inr (result', shift', byte AND 0x40 \<noteq> 0, r')
                 else getuleb128shift_loop r' result' shift')))"
  by pat_completeness auto
termination
  by (relation "measure (\<lambda>(r, result, shift). 32 - shift)") auto

declare getuleb128shift_loop.simps [simp del]

definition getuleb128shift ::
  "DWARFReader \<Rightarrow> error + (64 word \<times> nat \<times> bool \<times> DWARFReader)" where
  "getuleb128shift r = getuleb128shift_loop r 0 0"

definition getuleb128 :: "DWARFReader \<Rightarrow> error + (64 word \<times> DWARFReader)" where
  "getuleb128 r =
     (case getuleb128shift r of
        Inl e \<Rightarrow> Inl e
      | Inr (result, shift, isSigned, r') \<Rightarrow> Inr (result, r'))"

text \<open>\<open>getsleb128\<close>: \<open>result |= - ((uintmax_t)1 << shift)\<close> when the last byte has bit 6 set.\<close>

definition getsleb128 :: "DWARFReader \<Rightarrow> error + (64 word \<times> DWARFReader)" where
  "getsleb128 r =
     (case getuleb128shift r of
        Inl e \<Rightarrow> Inl e
      | Inr (result, shift, isSigned, r') \<Rightarrow>
          Inr (if isSigned then result OR - push_bit shift 1 else result, r'))"

text \<open>
  \<open>getlength\<close>: \<open>size_t length = getu32()\<close>; at or above \<open>0xfffffff0\<close> the value
  \<open>0xffffffff\<close> reads eight more bytes and any other value returns 0.
\<close>

definition getlength :: "DWARFReader \<Rightarrow> error + (64 word \<times> DWARFReader)" where
  "getlength r =
     (case getu32 r of
        Inl e \<Rightarrow> Inl e
      | Inr (l, r1) \<Rightarrow>
          (let length = (ucast l :: 64 word) in
           if length \<ge> 0xfffffff0 then
             (if length = 0xffffffff then getuint r1 8 else Inr (0, r1))
           else Inr (length, r1)))"


text \<open>
  Modelled from the spec: \<open>MemReader::read\<close> is declared in libpstack/util.h and its
  body is not among the sources.  The spec's Reader is "a byte-addressable
  random-access interface": a reader over a buffer delivers the buffer's bytes and
  nothing beyond them.
\<close>

definition MemReader :: "8 word list \<Rightarrow> Reader" where
  "MemReader data = (\<lambda>a. if unat a < length data then Some (data ! unat a) else None)"

section \<open>The line-number program (DwarfLineInfo::build)\<close>

text \<open>
  \<open>DwarfLineState\<close>.  \<open>file\<close> points into \<open>li->files\<close>; the model keeps the index.
  \<open>is_stmt\<close>, \<open>basic_block\<close> and \<open>end_sequence\<close> are one-bit fields.
\<close>

record DwarfLineState =
  addr :: "64 word"
  file' :: "64 word"
  line :: "32 word"
  column :: "32 word"
  is_stmt :: bool
  basic_block :: bool
  end_sequence :: bool

text \<open>
  The values \<open>build\<close> reads from the header of the line program and uses while it
  runs the opcodes: the locals \<open>min_insn_length\<close>, \<open>line_base\<close>, \<open>line_range\<close>
  (each an \<open>int\<close> initialised from one byte, kept here as that byte), the members
  \<open>default_is_stmt\<close>, \<open>opcode_base\<close> and \<open>opcode_lengths\<close>, and \<open>unit->addrlen\<close>.
\<close>

record DwarfLineHeader =
  min_insn_length :: "8 word"
  default_is_stmt :: "8 word"
  line_base :: "8 word"
  line_range :: "8 word"
  opcode_base :: "8 word"
  opcode_lengths :: "8 word list"
  unit_addrlen :: "8 word"

text \<open>
  \<open>DwarfLineState::reset\<close>.  Storing the \<open>int\<close> \<open>default_is_stmt\<close> into the one-bit
  field keeps its lowest bit.
\<close>

definition reset :: "DwarfLineHeader \<Rightarrow> DwarfLineState" where
  "reset li =
     \<lparr>addr = 0, file' = 1, line = 1, column = 0,
      is_stmt = bit (default_is_stmt li) 0, basic_block = False, end_sequence = False\<rparr>"

definition dwarfStateAddRow :: "DwarfLineState list \<Rightarrow> DwarfLineState \<Rightarrow> DwarfLineState list" where
  "dwarfStateAddRow matrix state = matrix @ [state]"

text \<open>
  Modelled from the spec: dwarf/line_s.h and dwarf/line_e.h, which give the opcodes
  their numbers, are not among the sources.  The numbers are those of the DWARF
  standard, whose opcode names the spec and the code use.
\<close>

definition DW_LNS_copy :: "32 word" where "DW_LNS_copy = 1"
definition DW_LNS_advance_pc :: "32 word" where "DW_LNS_advance_pc = 2"
definition DW_LNS_advance_line :: "32 word" where "DW_LNS_advance_line = 3"
definition DW_LNS_set_file :: "32 word" where "DW_LNS_set_file = 4"
definition DW_LNS_set_column :: "32 word" where "DW_LNS_set_column = 5"
definition DW_LNS_negate_stmt :: "32 word" where "DW_LNS_negate_stmt = 6"
definition DW_LNS_set_basic_block :: "32 word" where "DW_LNS_set_basic_block = 7"
definition DW_LNS_const_add_pc :: "32 word" where "DW_LNS_const_add_pc = 8"
definition DW_LNS_fixed_advance_pc :: "32 word" where "DW_LNS_fixed_advance_pc = 9"

definition DW_LNE_end_sequence :: "8 word" where "DW_LNE_end_sequence = 1"
definition DW_LNE_set_address :: "8 word" where "DW_LNE_set_address = 2"
definition DW_LNE_set_discriminator :: "8 word" where "DW_LNE_set_discriminator = 4"

text \<open>
  One turn of the loop \<open>while (r.getOffset() < end)\<close> of \<open>build\<close>: one opcode with
  its operands.  The machine is (reader, state, matrix).

  Arithmetic as the C++ has it: \<open>c\<close> is \<open>unsigned\<close>, so \<open>c / line_range\<close> and
  \<open>c % line_range + line_base\<close> are computed in 32 bits without sign and stored in
  \<open>int\<close>s; \<open>addrIncr * min_insn_length\<close> is an \<open>int\<close>, widened with its sign when
  added to \<open>state.addr\<close>; \<open>state.line\<close> is \<open>unsigned\<close> and wraps.  Division by a
  \<open>line_range\<close> of 0 is undefined.
\<close>

definition special_opcode ::
  "DwarfLineHeader \<Rightarrow> 32 word \<Rightarrow> DWARFReader \<times> DwarfLineState \<times> DwarfLineState list
     \<Rightarrow> error + (DWARFReader \<times> DwarfLineState \<times> DwarfLineState list)" where
  "special_opcode li c0 m =
     (case m of (r, state, matrix) \<Rightarrow>
        (let c = c0 - ucast (opcode_base li) in
         if line_range li = 0 then Inl Undefined
         else
           (let addrIncr = c div ucast (line_range li);
                lineIncr = c mod ucast (line_range li) + scast (line_base li);
                state1 = state\<lparr>addr := addr state + scast (addrIncr * ucast (min_insn_length li)),
                               line := line state + lineIncr\<rparr>
            in Inr (r, state1\<lparr>basic_block := False\<rparr>, dwarfStateAddRow matrix state1))))"

definition extended_opcode ::
  "DwarfLineHeader \<Rightarrow> DWARFReader \<times> DwarfLineState \<times> DwarfLineState list
     \<Rightarrow> error + (DWARFReader \<times> DwarfLineState \<times> DwarfLineState list)" where
  "extended_opcode li m =
     (case m of (r, state, matrix) \<Rightarrow>
        (case getuleb128 r of
           Inl e \<Rightarrow> Inl e
         | Inr (len, r1) \<Rightarrow>
             (case getu8 r1 of
                Inl e \<Rightarrow> Inl e
              | Inr (code, r2) \<Rightarrow>
                  if code = DW_LNE_end_sequence then
                    (let state1 = state\<lparr>end_sequence := True\<rparr>
                     in Inr (r2, reset li, dwarfStateAddRow matrix state1))
                  else if code = DW_LNE_set_address then
                    (case getuint r2 (unat (unit_addrlen li)) of
                       Inl e \<Rightarrow> Inl e
                     | Inr (a, r3) \<Rightarrow> Inr (r3, state\<lparr>addr := a\<rparr>, matrix))
                  else if code = DW_LNE_set_discriminator then
                    (case getuleb128 r2 of
                       Inl e \<Rightarrow> Inl e
                     | Inr (d, r3) \<Rightarrow> Inr (r3, state, matrix))
                  else Inl Abort)))"

definition standard_opcode ::
  "DwarfLineHeader \<Rightarrow> 32 word \<Rightarrow> DWARFReader \<times> DwarfLineState \<times> DwarfLineState list
     \<Rightarrow> error + (DWARFReader \<times> DwarfLineState \<times> DwarfLineState list)" where
  "standard_opcode li opcode m =
     (case m of (r, state, matrix) \<Rightarrow>
        if opcode = DW_LNS_const_add_pc then
          (if line_range li = 0 then Inl Undefined
           else Inr (r, state\<lparr>addr := addr state +
                         scast (((255 - ucast (opcode_base li)) div ucast (line_range li))
                                 * (ucast (min_insn_length li) :: 32 word))\<rparr>, matrix))
        else if opcode = DW_LNS_advance_pc then
          (case getuleb128 r of
             Inl e \<Rightarrow> Inl e
           | Inr (v, r1) \<Rightarrow>
               Inr (r1, state\<lparr>addr := addr state + v * ucast (min_insn_length li)\<rparr>, matrix))
        else if opcode = DW_LNS_fixed_advance_pc then
          (case getu16 r of
             Inl e \<Rightarrow> Inl e
           | Inr (v, r1) \<Rightarrow>
               Inr (r1, state\<lparr>addr := addr state +
                          scast ((ucast v :: 32 word) * ucast (min_insn_length li))\<rparr>, matrix))
        else if opcode = DW_LNS_advance_line then
          (case getsleb128 r of
             Inl e \<Rightarrow> Inl e
           | Inr (v, r1) \<Rightarrow> Inr (r1, state\<lparr>line := line state + ucast v\<rparr>, matrix))
        else if opcode = DW_LNS_set_file then
          (case getuleb128 r of
             Inl e \<Rightarrow> Inl e
           | Inr (v, r1) \<Rightarrow> Inr (r1, state\<lparr>file' := v\<rparr>, matrix))
        else if opcode = DW_LNS_copy then
          Inr (r, state\<lparr>basic_block := False\<rparr>, dwarfStateAddRow matrix state)
        else if opcode = DW_LNS_set_column then
          (case getuleb128 r of
             Inl e \<Rightarrow> Inl e
           | Inr (v, r1) \<Rightarrow> Inr (r1, state\<lparr>column := ucast v\<rparr>, matrix))
        else if opcode = DW_LNS_negate_stmt then
          Inr (r, state\<lparr>is_stmt := \<not> is_stmt state\<rparr>, matrix)
        else if opcode = DW_LNS_set_basic_block then
          Inr (r, state\<lparr>basic_block := True\<rparr>, matrix)
        else Inl Abort)"

definition build_step ::
  "DwarfLineHeader \<Rightarrow> DWARFReader \<times> DwarfLineState \<times> DwarfLineState list
     \<Rightarrow> error + (DWARFReader \<times> DwarfLineState \<times> DwarfLineState list)" where
  "build_step li m =
     (case m of (r, state, matrix) \<Rightarrow>
        (case getu8 r of
           Inl e \<Rightarrow> Inl e
         | Inr (b, r1) \<Rightarrow>
             (let c = (ucast b :: 32 word) in
              if c \<ge> ucast (opcode_base li) then special_opcode li c (r1, state, matrix)
              else if c = 0 then extended_opcode li (r1, state, matrix)
              else standard_opcode li c (r1, state, matrix))))"

text \<open>
  The loop itself.  Nothing bounds the number of turns by the type of its data (an
  operand may carry the cursor past \<open>end\<close>), so the loop is a partial function:
  \<open>None\<close> stands for a run that never ends.
\<close>

partial_function (option) build_loop ::
  "DwarfLineHeader \<Rightarrow> 64 word \<Rightarrow> DWARFReader \<times> DwarfLineState \<times> DwarfLineState list
     \<Rightarrow> (error + (DWARFReader \<times> DwarfLineState \<times> DwarfLineState list)) option" where
  "build_loop li end' m =
     (if getOffset (fst m) < end' then
        (case build_step li m of
           Inl e \<Rightarrow> Some (Inl e)
         | Inr m' \<Rightarrow> build_loop li end' m')
      else Some (Inr m))"


text \<open>
  The header of the line program, the first half of \<open>build\<close>.  Strings are the
  bytes read; the two names the code writes itself are given by their characters.
\<close>

definition bytes_of :: "string \<Rightarrow> 8 word list" where
  "bytes_of cs = map (\<lambda>c. of_nat (of_char c)) cs"

record DwarfFileEntry =
  fe_name :: "8 word list"
  fe_directory :: "8 word list"
  lastMod :: "32 word"
  fe_length :: "32 word"

text \<open>
  \<open>opcode_lengths.resize(opcode_base)\<close>, then \<open>opcode_lengths[i] = r.getu8()\<close> for
  \<open>i\<close> from 1 below \<open>opcode_base\<close>: \<open>n\<close> bytes are still to be read.
\<close>

fun read_opcode_lengths :: "nat \<Rightarrow> DWARFReader \<Rightarrow> error + (8 word list \<times> DWARFReader)" where
  "read_opcode_lengths 0 r = Inr ([], r)"
| "read_opcode_lengths (Suc n) r =
     (case getu8 r of
        Inl e \<Rightarrow> Inl e
      | Inr (b, r1) \<Rightarrow>
          (case read_opcode_lengths n r1 of
             Inl e \<Rightarrow> Inl e
           | Inr (bs, r2) \<Rightarrow> Inr (b # bs, r2)))"

text \<open>The include directories: strings until the empty one.\<close>

partial_function (option) read_directories ::
  "DWARFReader \<Rightarrow> 8 word list list \<Rightarrow> (error + (8 word list list \<times> DWARFReader)) option" where
  "read_directories r dirs =
     (case getstring r of
        Inl e \<Rightarrow> Some (Inl e)
      | Inr (s, r1) \<Rightarrow>
          if s = [] then Some (Inr (dirs, r1)) else read_directories r1 (dirs @ [s]))"

text \<open>
  The constructor \<open>DwarfFileEntry(r, info)\<close>: the name, the directory at the index
  read (an index outside \<open>info->directories\<close> is undefined), and two numbers kept
  as \<open>unsigned\<close>.
\<close>

definition DwarfFileEntry_init ::
  "8 word list list \<Rightarrow> DWARFReader \<Rightarrow> error + (DwarfFileEntry \<times> DWARFReader)" where
  "DwarfFileEntry_init dirs r =
     (case getstring r of
        Inl e \<Rightarrow> Inl e
      | Inr (name, r1) \<Rightarrow>
          (case getuleb128 r1 of
             Inl e \<Rightarrow> Inl e
           | Inr (d, r2) \<Rightarrow>
               if unat d \<ge> length dirs then Inl Undefined
               else
                 (case getuleb128 r2 of
                    Inl e \<Rightarrow> Inl e
                  | Inr (m, r3) \<Rightarrow>
                      (case getuleb128 r3 of
                         Inl e \<Rightarrow> Inl e
                       | Inr (l, r4) \<Rightarrow>
                           Inr (\<lparr>fe_name = name, fe_directory = dirs ! unat d,
                                 lastMod = ucast m, fe_length = ucast l\<rparr>, r4)))))"

text \<open>The file entries: until a byte 0 stands where a name would start.\<close>

partial_function (option) read_files ::
  "8 word list list \<Rightarrow> DWARFReader \<Rightarrow> DwarfFileEntry list
     \<Rightarrow> (error + (DwarfFileEntry list \<times> DWARFReader)) option" where
  "read_files dirs r files =
     (case io r (getOffset r) of
        None \<Rightarrow> Some (Inl Exception)
      | Some c \<Rightarrow>
          if c = 0 then
            (case getu8 r of Inl e \<Rightarrow> Some (Inl e) | Inr (b, r1) \<Rightarrow> Some (Inr (files, r1)))
          else
            (case DwarfFileEntry_init dirs r of
               Inl e \<Rightarrow> Some (Inl e)
             | Inr (f, r1) \<Rightarrow> read_files dirs r1 (files @ [f])))"

text \<open>
  The fixed part of the header.  \<open>total_length\<close> is a \<open>uint32_t\<close>; the prologue
  length is read in 8 bytes from version 3 on (\<open>ELF_BITS / 8\<close>) and in 4 before.
  The result is \<open>end\<close>, \<open>expectedEnd\<close>, the header's values, and the reader.
\<close>

definition build_prologue ::
  "8 word \<Rightarrow> DWARFReader \<Rightarrow> error + (64 word \<times> 64 word \<times> DwarfLineHeader \<times> DWARFReader)" where
  "build_prologue alen r =
     bindE (getlength r) (\<lambda>(len64, r1).
       (let total_length = (ucast len64 :: 32 word);
            end' = getOffset r1 + ucast total_length in
        bindE (getu16 r1) (\<lambda>(ver, r2).
        bindE (getuint (r2\<lparr>rversion := uint ver\<rparr>) (if uint ver \<ge> 3 then 8 else 4))
          (\<lambda>(prologue_length, r3).
          (let expectedEnd = prologue_length + getOffset r3 in
           bindE (getu8 r3) (\<lambda>(mil, r4).
           bindE (getu8 r4) (\<lambda>(dis, r5).
           bindE (gets8 r5) (\<lambda>(lb, r6).
           bindE (getu8 r6) (\<lambda>(lr, r7).
           bindE (getu8 r7) (\<lambda>(ob, r8).
           bindE (read_opcode_lengths (unat ob - 1) r8) (\<lambda>(ols, r9).
             Inr (end', expectedEnd,
                  \<lparr>min_insn_length = mil, default_is_stmt = dis, line_base = lb,
                    line_range = lr, opcode_base = ob,
                    opcode_lengths = (if ob = 0 then [] else 0 # ols),
                    unit_addrlen = alen\<rparr>, r9))))))))))))"

record DwarfLineInfo =
  li_header :: DwarfLineHeader
  directories :: "8 word list list"
  files :: "DwarfFileEntry list"
  matrix_of :: "DwarfLineState list"

text \<open>
  \<open>DwarfLineInfo::build\<close>: the header, the directories, the files, the bytes left
  before \<open>expectedEnd\<close> skipped, and the opcodes run from the initial state.  Every
  \<open>push_back\<close> appends to the vector as the call finds it: \<open>dirs0\<close>, \<open>files0\<close> and
  \<open>matrix0\<close> are \<open>directories\<close>, \<open>files\<close> and \<open>matrix\<close> before the call.  The
  result is the \<open>DwarfLineInfo\<close> and the reader.
\<close>

definition build_from ::
  "8 word list list \<Rightarrow> DwarfFileEntry list \<Rightarrow> DwarfLineState list \<Rightarrow> DWARFReader \<Rightarrow> 8 word
     \<Rightarrow> (error + (DwarfLineInfo \<times> DWARFReader)) option" where
  "build_from dirs0 files0 matrix0 r alen =
     (case build_prologue alen r of
        Inl e \<Rightarrow> Some (Inl e)
      | Inr (end', expectedEnd, li, r1) \<Rightarrow>
          (case read_directories r1 (dirs0 @ [bytes_of ''(compiler CWD)'']) of
             None \<Rightarrow> None
           | Some (Inl e) \<Rightarrow> Some (Inl e)
           | Some (Inr (dirs, r2)) \<Rightarrow>
               (case read_files dirs r2
                       (files0 @
                        [\<lparr>fe_name = bytes_of ''unknown'', fe_directory = bytes_of ''unknown'',
                          lastMod = 0, fe_length = 0\<rparr>]) of
                  None \<Rightarrow> None
                | Some (Inl e) \<Rightarrow> Some (Inl e)
                | Some (Inr (fs, r3)) \<Rightarrow>
                    (let diff = expectedEnd - getOffset r3;
                         r4 = (if diff \<noteq> 0 then skip r3 diff else r3)
                     in case build_loop li end' (r4, reset li, matrix0) of
                          None \<Rightarrow> None
                        | Some (Inl e) \<Rightarrow> Some (Inl e)
                        | Some (Inr (r5, state, matrix)) \<Rightarrow>
                            Some (Inr (\<lparr>li_header = li, directories = dirs, files = fs,
                                        matrix_of = matrix\<rparr>, r5))))))"

text \<open>\<open>build\<close> on a fresh \<open>DwarfLineInfo\<close>, whose vectors are empty.\<close>

definition build ::
  "DWARFReader \<Rightarrow> 8 word \<Rightarrow> (error + (DwarfLineInfo \<times> DWARFReader)) option" where
  "build r alen = build_from [] [] [] r alen"

section \<open>Call frame information (DwarfCIE::execInsns)\<close>

datatype DwarfRegisterType =
  UNDEF | SAME | OFFSET | VAL_OFFSET | EXPRESSION | VAL_EXPRESSION | REG | ARCH

text \<open>
  \<open>DwarfRegisterUnwind\<close>: a type and a union.  The union's members \<open>same\<close>,
  \<open>offset\<close>, \<open>reg\<close>, \<open>arch\<close> and \<open>expression.offset\<close> share its first eight bytes
  (\<open>u_offset\<close> here); \<open>expression.length\<close> is its second eight bytes (\<open>u_length\<close>).
  Setting the type leaves the union as it was.
\<close>

record DwarfRegisterUnwind =
  rtype :: DwarfRegisterType
  u_offset :: "64 word"
  u_length :: "64 word"

definition MAXREG :: nat where
  "MAXREG = 128"

record DwarfCallFrame =
  registers :: "nat \<Rightarrow> DwarfRegisterUnwind"
  cfaReg :: "32 word"
  cfaValue :: DwarfRegisterUnwind

text \<open>
  The constructor \<open>DwarfCallFrame()\<close> sets every register's type and the CFA rule's
  type to \<open>UNDEF\<close> and \<open>cfaReg\<close> to 0.  It does not write the unions: they keep
  what the storage held, which is the argument \<open>mem\<close>.
\<close>

definition DwarfCallFrame_init :: "DwarfCallFrame \<Rightarrow> DwarfCallFrame" where
  "DwarfCallFrame_init mem =
     \<lparr>registers = (\<lambda>i. if i < MAXREG then (registers mem i)\<lparr>rtype := UNDEF\<rparr> else registers mem i),
      cfaReg = 0,
      cfaValue = (cfaValue mem)\<lparr>rtype := UNDEF\<rparr>\<rparr>"

record DwarfCIE =
  cie_version :: "8 word"
  addressEncoding :: "8 word"
  lsdaEncoding :: "8 word"
  isSignalHandler :: bool
  codeAlign :: "32 word"
  dataAlign :: "32 word"
  rar :: "32 word"
  cie_instructions :: "64 word"
  cie_end :: "64 word"
  personality :: "64 word"
  augSize :: "64 word"
  augmentation :: "8 word list"

definition DW_CFA_advance_loc :: "8 word" where "DW_CFA_advance_loc = 0x40"
definition DW_CFA_offset :: "8 word" where "DW_CFA_offset = 0x80"
definition DW_CFA_restore :: "8 word" where "DW_CFA_restore = 0xc0"
definition DW_CFA_nop :: "8 word" where "DW_CFA_nop = 0"
definition DW_CFA_set_loc :: "8 word" where "DW_CFA_set_loc = 1"
definition DW_CFA_advance_loc1 :: "8 word" where "DW_CFA_advance_loc1 = 0x02"
definition DW_CFA_advance_loc2 :: "8 word" where "DW_CFA_advance_loc2 = 0x03"
definition DW_CFA_advance_loc4 :: "8 word" where "DW_CFA_advance_loc4 = 0x04"
definition DW_CFA_offset_extended :: "8 word" where "DW_CFA_offset_extended = 0x05"
definition DW_CFA_restore_extended :: "8 word" where "DW_CFA_restore_extended = 0x06"
definition DW_CFA_undefined :: "8 word" where "DW_CFA_undefined = 0x07"
definition DW_CFA_same_value :: "8 word" where "DW_CFA_same_value = 0x08"
definition DW_CFA_register :: "8 word" where "DW_CFA_register = 0x09"
definition DW_CFA_remember_state :: "8 word" where "DW_CFA_remember_state = 0x0a"
definition DW_CFA_restore_state :: "8 word" where "DW_CFA_restore_state = 0x0b"
definition DW_CFA_def_cfa :: "8 word" where "DW_CFA_def_cfa = 0x0c"
definition DW_CFA_def_cfa_register :: "8 word" where "DW_CFA_def_cfa_register = 0x0d"
definition DW_CFA_def_cfa_offset :: "8 word" where "DW_CFA_def_cfa_offset = 0x0e"
definition DW_CFA_def_cfa_expression :: "8 word" where "DW_CFA_def_cfa_expression = 0x0f"
definition DW_CFA_expression :: "8 word" where "DW_CFA_expression = 0x10"
definition DW_CFA_def_cfa_sf :: "8 word" where "DW_CFA_def_cfa_sf = 0x12"
definition DW_CFA_def_cfa_offset_sf :: "8 word" where "DW_CFA_def_cfa_offset_sf = 0x13"
definition DW_CFA_val_expression :: "8 word" where "DW_CFA_val_expression = 0x16"

text \<open>
  \<open>frame.registers[reg]\<close> with \<open>int reg\<close>: the array has \<open>MAXREG\<close> elements, and an
  index outside it is undefined.
\<close>

definition at_reg :: "32 word \<Rightarrow> (nat \<Rightarrow> error + 'a) \<Rightarrow> error + 'a" where
  "at_reg reg k =
     (if 0 \<le> sint reg \<and> sint reg < int MAXREG then k (nat (sint reg)) else Inl Undefined)"

definition upd_register ::
  "DwarfCallFrame \<Rightarrow> nat \<Rightarrow> (DwarfRegisterUnwind \<Rightarrow> DwarfRegisterUnwind) \<Rightarrow> DwarfCallFrame" where
  "upd_register frame i f = frame\<lparr>registers := (registers frame)(i := f (registers frame i))\<rparr>"

text \<open>
  The instructions whose two high bits are 0 (the inner \<open>switch\<close> of \<open>execInsns\<close>).
  The machine is (reader, frame, stack of remembered frames, addr).
  \<open>int reg = r.getuleb128()\<close> keeps the low 32 bits; \<open>u.reg = reg2\<close> widens the
  \<open>int\<close> with its sign; \<open>x * codeAlign\<close> is an \<open>unsigned\<close> product (32 bits);
  \<open>x * dataAlign\<close> with a 64-bit \<open>x\<close> is a 64-bit product of \<open>x\<close> and the widened
  \<open>int\<close>.
\<close>

definition execInsn_low ::
  "DwarfCIE \<Rightarrow> DwarfCallFrame \<Rightarrow> 8 word
     \<Rightarrow> DWARFReader \<times> DwarfCallFrame \<times> DwarfCallFrame list \<times> 64 word
     \<Rightarrow> error + (DWARFReader \<times> DwarfCallFrame \<times> DwarfCallFrame list \<times> 64 word)" where
  "execInsn_low cie dframe op m =
     (case m of (r, frame, stack, addr') \<Rightarrow>
        if op = DW_CFA_nop then Inr (r, frame, stack, addr')
        else if op = DW_CFA_set_loc then
          bindE (getuint r (addrLen r)) (\<lambda>(a, r1). Inr (r1, frame, stack, a))
        else if op = DW_CFA_advance_loc1 then
          bindE (getu8 r) (\<lambda>(d, r1).
            Inr (r1, frame, stack, addr' + ucast ((ucast d :: 32 word) * codeAlign cie)))
        else if op = DW_CFA_advance_loc2 then
          bindE (getu16 r) (\<lambda>(d, r1).
            Inr (r1, frame, stack, addr' + ucast ((ucast d :: 32 word) * codeAlign cie)))
        else if op = DW_CFA_advance_loc4 then
          bindE (getu32 r) (\<lambda>(d, r1).
            Inr (r1, frame, stack, addr' + ucast (d * codeAlign cie)))
        else if op = DW_CFA_offset_extended then
          bindE (getuleb128 r) (\<lambda>(reg, r1).
          bindE (getuleb128 r1) (\<lambda>(offset, r2).
          at_reg (ucast reg) (\<lambda>i.
            Inr (r2, upd_register frame i
                       (\<lambda>u. u\<lparr>rtype := OFFSET, u_offset := offset * scast (dataAlign cie)\<rparr>),
                 stack, addr'))))
        else if op = DW_CFA_restore_extended then
          bindE (getuleb128 r) (\<lambda>(reg, r1).
          at_reg (ucast reg) (\<lambda>i.
            Inr (r1, upd_register frame i (\<lambda>u. registers dframe i), stack, addr')))
        else if op = DW_CFA_undefined then
          bindE (getuleb128 r) (\<lambda>(reg, r1).
          at_reg (ucast reg) (\<lambda>i.
            Inr (r1, upd_register frame i (\<lambda>u. u\<lparr>rtype := UNDEF\<rparr>), stack, addr')))
        else if op = DW_CFA_same_value then
          bindE (getuleb128 r) (\<lambda>(reg, r1).
          at_reg (ucast reg) (\<lambda>i.
            Inr (r1, upd_register frame i (\<lambda>u. u\<lparr>rtype := SAME\<rparr>), stack, addr')))
        else if op = DW_CFA_register then
          bindE (getuleb128 r) (\<lambda>(reg, r1).
          bindE (getuleb128 r1) (\<lambda>(reg2, r2).
          at_reg (ucast reg) (\<lambda>i.
            Inr (r2, upd_register frame i
                       (\<lambda>u. u\<lparr>rtype := REG, u_offset := scast (ucast reg2 :: 32 word)\<rparr>),
                 stack, addr'))))
        else if op = DW_CFA_remember_state then Inr (r, frame, frame # stack, addr')
        else if op = DW_CFA_restore_state then
          (case stack of
             [] \<Rightarrow> Inl Undefined
           | f # rest \<Rightarrow> Inr (r, f, rest, addr'))
        else if op = DW_CFA_def_cfa then
          bindE (getuleb128 r) (\<lambda>(reg, r1).
          bindE (getuleb128 r1) (\<lambda>(offset, r2).
            Inr (r2, frame\<lparr>cfaReg := ucast reg,
                          cfaValue := (cfaValue frame)\<lparr>rtype := OFFSET, u_offset := offset\<rparr>\<rparr>,
                 stack, addr')))
        else if op = DW_CFA_def_cfa_sf then
          bindE (getuleb128 r) (\<lambda>(reg, r1).
          bindE (getsleb128 r1) (\<lambda>(offset, r2).
            Inr (r2, frame\<lparr>cfaReg := ucast reg,
                          cfaValue := (cfaValue frame)\<lparr>rtype := OFFSET,
                                        u_offset := offset * scast (dataAlign cie)\<rparr>\<rparr>,
                 stack, addr')))
        else if op = DW_CFA_def_cfa_register then
          bindE (getuleb128 r) (\<lambda>(reg, r1).
            Inr (r1, frame\<lparr>cfaReg := ucast reg,
                          cfaValue := (cfaValue frame)\<lparr>rtype := OFFSET\<rparr>\<rparr>,
                 stack, addr'))
        else if op = DW_CFA_def_cfa_offset then
          bindE (getuleb128 r) (\<lambda>(offset, r1).
            Inr (r1, frame\<lparr>cfaValue := (cfaValue frame)\<lparr>rtype := OFFSET, u_offset := offset\<rparr>\<rparr>,
                 stack, addr'))
        else if op = DW_CFA_def_cfa_offset_sf then
          bindE (getuleb128 r) (\<lambda>(offset, r1).
            Inr (r1, frame\<lparr>cfaValue := (cfaValue frame)\<lparr>rtype := OFFSET,
                                        u_offset := offset * scast (dataAlign cie)\<rparr>\<rparr>,
                 stack, addr'))
        else if op = DW_CFA_val_expression then
          bindE (getuleb128 r) (\<lambda>(reg, r1).
          at_reg (ucast reg) (\<lambda>i.
          bindE (getuleb128 r1) (\<lambda>(len, r2).
            Inr (skip r2 len,
                 upd_register frame i
                   (\<lambda>u. u\<lparr>rtype := VAL_EXPRESSION, u_length := len, u_offset := getOffset r2\<rparr>),
                 stack, addr'))))
        else if op = DW_CFA_expression then
          bindE (getuleb128 r) (\<lambda>(reg, r1).
          bindE (getuleb128 r1) (\<lambda>(offset, r2).
          at_reg (ucast reg) (\<lambda>i.
            Inr (skip r2 offset,
                 upd_register frame i
                   (\<lambda>u. u\<lparr>rtype := EXPRESSION, u_offset := getOffset r2, u_length := offset\<rparr>),
                 stack, addr'))))
        else if op = DW_CFA_def_cfa_expression then
          bindE (getuleb128 r) (\<lambda>(offset, r1).
            Inr (skip r1 offset,
                 frame\<lparr>cfaValue := (cfaValue frame)\<lparr>rtype := EXPRESSION, u_length := offset,
                                                   u_offset := getOffset r1\<rparr>\<rparr>,
                 stack, addr'))
        else Inl Abort)"

text \<open>
  One turn of the loop of \<open>execInsns\<close>: \<open>reg = rawOp & 0x3f\<close>, and the \<open>switch\<close> on
  \<open>rawOp & ~0x3f\<close>.
\<close>

definition execInsn ::
  "DwarfCIE \<Rightarrow> DwarfCallFrame
     \<Rightarrow> DWARFReader \<times> DwarfCallFrame \<times> DwarfCallFrame list \<times> 64 word
     \<Rightarrow> error + (DWARFReader \<times> DwarfCallFrame \<times> DwarfCallFrame list \<times> 64 word)" where
  "execInsn cie dframe m =
     (case m of (r, frame, stack, addr') \<Rightarrow>
        bindE (getu8 r) (\<lambda>(rawOp, r1).
          (let reg = rawOp AND 0x3f; op = rawOp AND NOT 0x3f in
           if op = DW_CFA_advance_loc then
             Inr (r1, frame, stack, addr' + ucast ((ucast reg :: 32 word) * codeAlign cie))
           else if op = DW_CFA_offset then
             bindE (getuleb128 r1) (\<lambda>(offset, r2).
               Inr (r2, upd_register frame (unat reg)
                          (\<lambda>u. u\<lparr>rtype := OFFSET, u_offset := offset * scast (dataAlign cie)\<rparr>),
                    stack, addr'))
           else if op = DW_CFA_restore then
             Inr (r1, upd_register frame (unat reg) (\<lambda>u. registers dframe (unat reg)), stack, addr')
           else if op = 0 then execInsn_low cie dframe (rawOp AND 0x3f) (r1, frame, stack, addr')
           else Inl Abort)))"

partial_function (option) execInsns_loop ::
  "DwarfCIE \<Rightarrow> DwarfCallFrame \<Rightarrow> 64 word
     \<Rightarrow> DWARFReader \<times> DwarfCallFrame \<times> DwarfCallFrame list \<times> 64 word
     \<Rightarrow> (error + DwarfCallFrame) option" where
  "execInsns_loop cie dframe wantAddr m =
     (if \<not> empty_r (fst m) \<and> snd (snd (snd m)) \<le> wantAddr then
        (case execInsn cie dframe m of
           Inl e \<Rightarrow> Some (Inl e)
         | Inr m' \<Rightarrow> execInsns_loop cie dframe wantAddr m')
      else Some (Inr (fst (snd m))))"

text \<open>
  \<open>execInsns\<close>.  When \<open>addr\<close> or \<open>wantAddr\<close> is not 0 it first calls itself on the
  CIE's own instructions with \<open>addr = 0\<close> and \<open>wantAddr = 0\<close>; that inner call makes
  no further call, so it is the loop alone, started from two fresh frames.
  \<open>mem\<close> is what the storage of the fresh frames held.
\<close>

definition execInsns ::
  "DwarfCallFrame \<Rightarrow> DwarfCIE \<Rightarrow> DWARFReader \<Rightarrow> int \<Rightarrow> 64 word \<Rightarrow> 64 word
     \<Rightarrow> (error + DwarfCallFrame) option" where
  "execInsns mem cie r version addr' wantAddr =
     (let frame = DwarfCallFrame_init mem;
          dframe = DwarfCallFrame_init mem
      in if addr' \<noteq> 0 \<or> wantAddr \<noteq> 0 then
           (let r2 = mkDWARFReader (io r) version (cie_instructions cie)
                       (cie_end cie - cie_instructions cie)
            in case execInsns_loop cie (DwarfCallFrame_init mem) 0
                      (r2, DwarfCallFrame_init mem, [], 0) of
                 None \<Rightarrow> None
               | Some (Inl e) \<Rightarrow> Some (Inl e)
               | Some (Inr dframe') \<Rightarrow>
                   execInsns_loop cie dframe' wantAddr (r, dframe', [], addr'))
         else execInsns_loop cie dframe wantAddr (r, frame, [], addr'))"


section \<open>DWARF expressions (dwarfEvalExpr)\<close>

text \<open>\<open>DwarfRegisters\<close>: the array \<open>reg[DWARF_MAXREG]\<close> of 64-bit values.\<close>

type_synonym DwarfRegisters = "nat \<Rightarrow> 64 word"

text \<open>
  Modelled from the spec: dwarf/ops.h, which gives the expression opcodes their
  numbers, is not among the sources.  The numbers are those of the DWARF standard.
\<close>

definition DW_OP_deref :: "8 word" where "DW_OP_deref = 0x06"
definition DW_OP_const2s :: "8 word" where "DW_OP_const2s = 0x0b"
definition DW_OP_const4u :: "8 word" where "DW_OP_const4u = 0x0c"
definition DW_OP_const4s :: "8 word" where "DW_OP_const4s = 0x0d"
definition DW_OP_minus :: "8 word" where "DW_OP_minus = 0x1c"
definition DW_OP_plus :: "8 word" where "DW_OP_plus = 0x22"
definition DW_OP_breg0 :: "8 word" where "DW_OP_breg0 = 0x70"
definition DW_OP_breg31 :: "8 word" where "DW_OP_breg31 = 0x8f"

text \<open>
  Reading an \<open>Elf_Addr\<close> (eight bytes, least significant first) from the process.
\<close>

definition readAddr :: "Reader \<Rightarrow> 64 word \<Rightarrow> error + 64 word" where
  "readAddr pio a =
     (case readObj pio a 8 of Inl e \<Rightarrow> Inl e | Inr bytes \<Rightarrow> Inr (le_value 0 bytes))"

text \<open>
  One turn of the loop of \<open>dwarfEvalExpr\<close>.  The stack is a list, its top first;
  \<open>top()\<close> and \<open>pop()\<close> of an empty \<open>std::stack\<close> are undefined.
\<close>

definition evalOp ::
  "Reader \<Rightarrow> DwarfRegisters \<Rightarrow> DWARFReader \<times> 64 word list
     \<Rightarrow> error + (DWARFReader \<times> 64 word list)" where
  "evalOp pio regs m =
     (case m of (r, stack) \<Rightarrow>
        bindE (getu8 r) (\<lambda>(op, r1).
          if op = DW_OP_deref then
            (case stack of
               [] \<Rightarrow> Inl Undefined
             | a # rest \<Rightarrow> bindE (readAddr pio a) (\<lambda>v. Inr (r1, v # rest)))
          else if op = DW_OP_const2s then
            bindE (getu16 r1) (\<lambda>(v, r2). Inr (r2, scast v # stack))
          else if op = DW_OP_const4u then
            bindE (getu32 r1) (\<lambda>(v, r2). Inr (r2, ucast v # stack))
          else if op = DW_OP_const4s then
            bindE (getu32 r1) (\<lambda>(v, r2). Inr (r2, scast v # stack))
          else if op = DW_OP_minus then
            (case stack of
               tp # second # rest \<Rightarrow> Inr (r1, (second - tp) # rest)
             | _ \<Rightarrow> Inl Undefined)
          else if op = DW_OP_plus then
            (case stack of
               tp # second # rest \<Rightarrow> Inr (r1, (second + tp) # rest)
             | _ \<Rightarrow> Inl Undefined)
          else if DW_OP_breg0 \<le> op \<and> op \<le> DW_OP_breg31 then
            bindE (getsleb128 r1) (\<lambda>(offset, r2).
              Inr (r2, (regs (unat (op - DW_OP_breg0)) + offset) # stack))
          else Inl Abort))"

partial_function (option) dwarfEvalExpr_loop ::
  "Reader \<Rightarrow> DwarfRegisters \<Rightarrow> DWARFReader \<times> 64 word list
     \<Rightarrow> (error + 64 word list) option" where
  "dwarfEvalExpr_loop pio regs m =
     (if \<not> empty_r (fst m) then
        (case evalOp pio regs m of
           Inl e \<Rightarrow> Some (Inl e)
         | Inr m' \<Rightarrow> dwarfEvalExpr_loop pio regs m')
      else Some (Inr (snd m)))"

text \<open>
  \<open>dwarfEvalExpr\<close> runs the loop, then takes the top of the stack off and returns
  it.  The stack is the caller's (it is passed by pointer), so the result here is the
  returned value together with the stack as the caller finds it afterwards.
\<close>

definition dwarfEvalExpr ::
  "Reader \<Rightarrow> DWARFReader \<Rightarrow> DwarfRegisters \<Rightarrow> 64 word list
     \<Rightarrow> (error + (64 word \<times> 64 word list)) option" where
  "dwarfEvalExpr pio r regs stack =
     (case dwarfEvalExpr_loop pio regs (r, stack) of
        None \<Rightarrow> None
      | Some (Inl e) \<Rightarrow> Some (Inl e)
      | Some (Inr []) \<Rightarrow> Some (Inl Undefined)
      | Some (Inr (rv # rest)) \<Rightarrow> Some (Inr (rv, rest)))"

section \<open>Frame sections (DwarfFrameInfo) and DwarfInfo\<close>

datatype FIType = FI_DEBUG_FRAME | FI_EH_FRAME

record DwarfFDE =
  cie :: DwarfCIE
  iloc :: "64 word"
  irange :: "64 word"
  fde_instructions :: "64 word"
  fde_end :: "64 word"
  aug :: "8 word list"

record DwarfFrameInfo =
  fi_type :: FIType
  cies :: "64 word \<rightharpoonup> DwarfCIE"
  fdeList :: "DwarfFDE list"



definition findFDE :: "DwarfFrameInfo \<Rightarrow> 64 word \<Rightarrow> DwarfFDE option" where
  "findFDE fi a = find (\<lambda>fde. iloc fde \<le> a \<and> iloc fde + irange fde > a) (fdeList fi)"

record Elf_Shdr =
  sh_offset :: "64 word"
  sh_size :: "64 word"

record DwarfARangeSet =
  ars_length :: "32 word"
  ars_version :: "16 word"
  debugInfoOffset :: "32 word"
  addrlen :: "8 word"
  segdesclen :: "8 word"
  ranges_of :: "(64 word \<times> 64 word) list"

record DwarfPubnameUnit =
  pu_length :: "16 word"
  pu_version :: "16 word"
  infoOffset :: "32 word"
  infoLength :: "32 word"
  pubnames_of :: "(32 word \<times> 8 word list) list"

text \<open>
  \<open>DwarfInfo\<close>: the section headers (null when the object has no such section), the
  buffer \<open>debugStrings\<close> that the constructor fills from \<open>.debug_str\<close> (null without
  that section), the three containers that \<open>units()\<close>, \<open>ranges()\<close> and \<open>pubnames()\<close>
  fill, and the two frame sections decoded by the constructor.  \<open>elf_io\<close> is
  \<open>elf->io\<close>.  The type of a decoded unit, \<open>DwarfUnit\<close> below, is the parameter
  \<open>'u\<close>.
\<close>

record 'u DwarfInfo =
  elf_io :: Reader
  di_version :: int
  info :: "Elf_Shdr option"
  abbrev :: "Elf_Shdr option"
  lineshdr :: "Elf_Shdr option"
  debugStrings :: "8 word list option"
  pubnamesh :: "Elf_Shdr option"
  arangesh :: "Elf_Shdr option"
  unitsm :: "64 word \<rightharpoonup> 'u"
  aranges :: "DwarfARangeSet list"
  pubnameUnits :: "DwarfPubnameUnit list"
  debugFrame :: "DwarfFrameInfo option"
  ehFrame :: "DwarfFrameInfo option"


section \<open>Compilation units (DwarfUnit, DwarfEntry, DwarfAttribute)\<close>

text \<open>
  Modelled from the spec: dwarf/tags.h, dwarf/forms.h and dwarf/attr.h, which give the
  tags, the forms and the attribute names their numbers, are not among the sources,
  and neither is the declaration of the union \<open>DwarfValue\<close> that this dwarf.cc uses.
  The numbers are those of the DWARF standard, whose names the spec and the code
  use.  The members \<open>data1\<close>, \<open>data2\<close>, \<open>data4\<close>, \<open>data8\<close>, \<open>ref2\<close>, \<open>ref4\<close> and
  \<open>ref8\<close> are unsigned integers of the width in their name (the spec: "read
  fixed-width unsigned").  A value of an enumeration is kept as the 32-bit number it
  holds: \<open>DwarfTag(code)\<close> is the low 32 bits of \<open>code\<close>.
\<close>

definition DW_TAG_compile_unit :: "32 word" where "DW_TAG_compile_unit = 0x11"

definition DW_AT_stmt_list :: "32 word" where "DW_AT_stmt_list = 0x10"

definition DW_FORM_addr :: "32 word" where "DW_FORM_addr = 0x01"
definition DW_FORM_block2 :: "32 word" where "DW_FORM_block2 = 0x03"
definition DW_FORM_block4 :: "32 word" where "DW_FORM_block4 = 0x04"
definition DW_FORM_data2 :: "32 word" where "DW_FORM_data2 = 0x05"
definition DW_FORM_data4 :: "32 word" where "DW_FORM_data4 = 0x06"
definition DW_FORM_data8 :: "32 word" where "DW_FORM_data8 = 0x07"
definition DW_FORM_string :: "32 word" where "DW_FORM_string = 0x08"
definition DW_FORM_block :: "32 word" where "DW_FORM_block = 0x09"
definition DW_FORM_block1 :: "32 word" where "DW_FORM_block1 = 0x0a"
definition DW_FORM_data1 :: "32 word" where "DW_FORM_data1 = 0x0b"
definition DW_FORM_flag :: "32 word" where "DW_FORM_flag = 0x0c"
definition DW_FORM_sdata :: "32 word" where "DW_FORM_sdata = 0x0d"
definition DW_FORM_strp :: "32 word" where "DW_FORM_strp = 0x0e"
definition DW_FORM_udata :: "32 word" where "DW_FORM_udata = 0x0f"
definition DW_FORM_ref_addr :: "32 word" where "DW_FORM_ref_addr = 0x10"
definition DW_FORM_ref2 :: "32 word" where "DW_FORM_ref2 = 0x12"
definition DW_FORM_ref4 :: "32 word" where "DW_FORM_ref4 = 0x13"
definition DW_FORM_ref8 :: "32 word" where "DW_FORM_ref8 = 0x14"

record DwarfAttributeSpec =
  as_name :: "32 word"
  as_form :: "32 word"

record DwarfAbbreviation =
  ab_code :: "64 word"
  ab_tag :: "32 word"
  ab_hasChildren :: "32 word"
  ab_specs :: "DwarfAttributeSpec list"

text \<open>
  The union \<open>DwarfValue\<close>, one constructor for each member that \<open>DwarfAttribute\<close>
  writes.  \<open>V_strp n\<close> is the pointer \<open>debugStrings + n\<close>; \<open>V_block offset length\<close>
  is the \<open>DwarfBlock\<close>.
\<close>

datatype DwarfValue =
    V_addr "64 word"
  | V_data1 "8 word"
  | V_data2 "16 word"
  | V_data4 "32 word"
  | V_data8 "64 word"
  | V_sdata "64 word"
  | V_udata "64 word"
  | V_strp "64 word"
  | V_ref2 "16 word"
  | V_ref4 "32 word"
  | V_ref8 "64 word"
  | V_string "8 word list"
  | V_block "64 word" "64 word"
  | V_flag "8 word"

record DwarfAttribute =
  at_spec :: DwarfAttributeSpec
  at_value :: DwarfValue

text \<open>
  \<open>DwarfEntry\<close>: \<open>type\<close> points at the abbreviation in the unit's table (the model
  keeps the abbreviation), \<open>attributes\<close> maps attribute names to attributes, and
  \<open>children\<close> are the entries below.
\<close>

datatype DwarfEntry =
  DwarfEntry (de_type: DwarfAbbreviation) (de_attributes: "32 word \<rightharpoonup> DwarfAttribute")
             (de_children: "DwarfEntry list")

text \<open>
  \<open>DwarfUnit\<close>, the members that the constructor sets.  \<open>lines\<close> is \<open>None\<close> as long
  as \<open>build\<close> has not run on it: its vectors are empty then.
\<close>

record DwarfUnit =
  du_length :: "32 word"
  du_version :: "16 word"
  abbreviations :: "32 word \<rightharpoonup> DwarfAbbreviation"
  du_addrlen :: "8 word"
  entries :: "DwarfEntry list"
  lines :: "DwarfLineInfo option"

text \<open>
  The constructor \<open>DwarfAbbreviation(r, code)\<close>: the tag, the children flag, and the
  pairs of attribute name and form until the pair \<open>(0, 0)\<close>.
\<close>

partial_function (option) abbreviation_specs ::
  "DWARFReader \<Rightarrow> DwarfAttributeSpec list
     \<Rightarrow> (error + (DwarfAttributeSpec list \<times> DWARFReader)) option" where
  "abbreviation_specs r acc =
     (case getuleb128 r of
        Inl e \<Rightarrow> Some (Inl e)
      | Inr (name, r1) \<Rightarrow>
          (case getuleb128 r1 of
             Inl e \<Rightarrow> Some (Inl e)
           | Inr (form, r2) \<Rightarrow>
               if name = 0 \<and> form = 0 then Some (Inr (acc, r2))
               else abbreviation_specs r2 (acc @ [\<lparr>as_name = ucast name, as_form = ucast form\<rparr>])))"

definition DwarfAbbreviation_init ::
  "DWARFReader \<Rightarrow> 64 word \<Rightarrow> (error + (DwarfAbbreviation \<times> DWARFReader)) option" where
  "DwarfAbbreviation_init r code' =
     (case getuleb128 r of
        Inl e \<Rightarrow> Some (Inl e)
      | Inr (t, r1) \<Rightarrow>
          (case getu8 r1 of
             Inl e \<Rightarrow> Some (Inl e)
           | Inr (hc, r2) \<Rightarrow>
               (case abbreviation_specs r2 [] of
                  None \<Rightarrow> None
                | Some (Inl e) \<Rightarrow> Some (Inl e)
                | Some (Inr (ss, r3)) \<Rightarrow>
                    Some (Inr (\<lparr>ab_code = code', ab_tag = ucast t, ab_hasChildren = ucast hc,
                                ab_specs = ss\<rparr>, r3)))))"

text \<open>
  The loop of the \<open>DwarfUnit\<close> constructor over the abbreviation table:
  \<open>while ((code = abbR.getuleb128()) != 0) abbreviations[DwarfTag(code)] = ...\<close>.
\<close>

partial_function (option) abbreviations_loop ::
  "DWARFReader \<Rightarrow> (32 word \<rightharpoonup> DwarfAbbreviation)
     \<Rightarrow> (error + ((32 word \<rightharpoonup> DwarfAbbreviation) \<times> DWARFReader)) option" where
  "abbreviations_loop abbR acc =
     (case getuleb128 abbR of
        Inl e \<Rightarrow> Some (Inl e)
      | Inr (code', r1) \<Rightarrow>
          if code' = 0 then Some (Inr (acc, r1))
          else
            (case DwarfAbbreviation_init r1 code' of
               None \<Rightarrow> None
             | Some (Inl e) \<Rightarrow> Some (Inl e)
             | Some (Inr (ab, r2)) \<Rightarrow> abbreviations_loop r2 (acc(ucast code' \<mapsto> ab))))"

text \<open>
  \<open>debugStrings + n\<close> for \<open>DW_FORM_strp\<close>.  Pointer arithmetic has a meaning within
  the buffer and one past its end, and on a null pointer for \<open>n = 0\<close> only.
\<close>

definition debugStrings_plus :: "8 word list option \<Rightarrow> 64 word \<Rightarrow> error + DwarfValue" where
  "debugStrings_plus ds n =
     (case ds of
        None \<Rightarrow> if n = 0 then Inr (V_strp n) else Inl Undefined
      | Some bs \<Rightarrow>
          if 0 \<le> sint n \<and> nat (sint n) \<le> length bs then Inr (V_strp n) else Inl Undefined)"

text \<open>
  A block: the length is stored in an \<open>off_t\<close>, the offset is the cursor after the
  length, and the bytes are skipped.
\<close>

definition block_value :: "64 word \<Rightarrow> DWARFReader \<Rightarrow> error + (DwarfValue \<times> DWARFReader)" where
  "block_value len r = Inr (V_block (getOffset r) len, skip r len)"

text \<open>
  The constructor \<open>DwarfAttribute(r, unit, spec)\<close>: the value is read as the form
  says; a form without a case calls \<open>abort()\<close>.  \<open>ELF_BITS / 8\<close> is 8.
\<close>

definition DwarfAttribute_init ::
  "'u DwarfInfo \<Rightarrow> DWARFReader \<Rightarrow> DwarfUnit \<Rightarrow> DwarfAttributeSpec
     \<Rightarrow> error + (DwarfAttribute \<times> DWARFReader)" where
  "DwarfAttribute_init d r unit spec =
     bindE
       (let f = as_form spec in
        if f = DW_FORM_addr then
          bindE (getuint r (unat (du_addrlen unit))) (\<lambda>(v, r1). Inr (V_addr v, r1))
        else if f = DW_FORM_data1 then
          bindE (getu8 r) (\<lambda>(v, r1). Inr (V_data1 v, r1))
        else if f = DW_FORM_data2 then
          bindE (getu16 r) (\<lambda>(v, r1). Inr (V_data2 v, r1))
        else if f = DW_FORM_data4 then
          bindE (getu32 r) (\<lambda>(v, r1). Inr (V_data4 v, r1))
        else if f = DW_FORM_data8 then
          bindE (getuint r 8) (\<lambda>(v, r1). Inr (V_data8 v, r1))
        else if f = DW_FORM_sdata then
          bindE (getsleb128 r) (\<lambda>(v, r1). Inr (V_sdata v, r1))
        else if f = DW_FORM_udata then
          bindE (getuleb128 r) (\<lambda>(v, r1). Inr (V_udata v, r1))
        else if f = DW_FORM_strp then
          bindE (getint r (if rversion r \<ge> 3 then 8 else 4)) (\<lambda>(n, r1).
            bindE (debugStrings_plus (debugStrings d) n) (\<lambda>v. Inr (v, r1)))
        else if f = DW_FORM_ref2 then
          bindE (getu16 r) (\<lambda>(v, r1). Inr (V_ref2 v, r1))
        else if f = DW_FORM_ref4 then
          bindE (getu32 r) (\<lambda>(v, r1). Inr (V_ref4 v, r1))
        else if f = DW_FORM_ref_addr then
          bindE (getuint r (if rversion r \<ge> 3 then 8 else 4)) (\<lambda>(v, r1). Inr (V_ref4 (ucast v), r1))
        else if f = DW_FORM_ref8 then
          bindE (getuint r 8) (\<lambda>(v, r1). Inr (V_ref8 v, r1))
        else if f = DW_FORM_string then
          bindE (getstring r) (\<lambda>(s, r1). Inr (V_string s, r1))
        else if f = DW_FORM_block1 then
          bindE (getu8 r) (\<lambda>(l, r1). block_value (ucast l) r1)
        else if f = DW_FORM_block2 then
          bindE (getu16 r) (\<lambda>(l, r1). block_value (ucast l) r1)
        else if f = DW_FORM_block4 then
          bindE (getu32 r) (\<lambda>(l, r1). block_value (ucast l) r1)
        else if f = DW_FORM_block then
          bindE (getuleb128 r) (\<lambda>(l, r1). block_value l r1)
        else if f = DW_FORM_flag then
          bindE (getu8 r) (\<lambda>(v, r1). Inr (V_flag v, r1))
        else Inl Abort)
       (\<lambda>(v, r1). Inr (\<lparr>at_spec = spec, at_value = v\<rparr>, r1))"

text \<open>
  The first loop of the constructor \<open>DwarfEntry(r, code, unit)\<close>:
  \<open>attributes[spec.name] = DwarfAttribute(r, unit, &spec)\<close> for each spec of the
  abbreviation.
\<close>

fun DwarfEntry_attributes ::
  "'u DwarfInfo \<Rightarrow> DwarfUnit \<Rightarrow> DwarfAttributeSpec list \<Rightarrow> DWARFReader
     \<Rightarrow> (32 word \<rightharpoonup> DwarfAttribute) \<Rightarrow> error + ((32 word \<rightharpoonup> DwarfAttribute) \<times> DWARFReader)" where
  "DwarfEntry_attributes d unit [] r attrs = Inr (attrs, r)"
| "DwarfEntry_attributes d unit (spec # rest) r attrs =
     (case DwarfAttribute_init d r unit spec of
        Inl e \<Rightarrow> Inl e
      | Inr (a, r1) \<Rightarrow> DwarfEntry_attributes d unit rest r1 (attrs(as_name spec \<mapsto> a)))"

text \<open>
  \<open>dwarfAttr2Int(attributes[DW_AT_stmt_list])\<close>.  An entry without the attribute
  gets a default-constructed one, whose \<open>spec\<close> is null, and \<open>attr.spec->form\<close> is
  undefined then; so is the read of a member of the union other than the one
  written.
\<close>

definition dwarfAttr2Int :: "DwarfAttribute option \<Rightarrow> error + 64 word" where
  "dwarfAttr2Int attr =
     (case attr of
        None \<Rightarrow> Inl Undefined
      | Some a \<Rightarrow>
          (let f = as_form (at_spec a) in
           if f = DW_FORM_data1 then
             (case at_value a of V_data1 v \<Rightarrow> Inr (ucast v) | _ \<Rightarrow> Inl Undefined)
           else if f = DW_FORM_data2 then
             (case at_value a of V_data2 v \<Rightarrow> Inr (ucast v) | _ \<Rightarrow> Inl Undefined)
           else if f = DW_FORM_data4 then
             (case at_value a of V_data4 v \<Rightarrow> Inr (ucast v) | _ \<Rightarrow> Inl Undefined)
           else Inl Abort))"

text \<open>
  The constructor \<open>DwarfEntry(r, code, unit)\<close> up to its last statement: the
  abbreviation \<open>unit->abbreviations[DwarfTag(code)]\<close> (for a code that the table does
  not have, \<open>operator[]\<close> inserts a default-constructed abbreviation, whose \<open>tag\<close> is
  indeterminate, and the \<open>switch\<close> on it is undefined), the attributes, and for a
  compile unit the line table, built on \<open>unit->lines\<close> at the offset that
  \<open>DW_AT_stmt_list\<close> gives when the object has a \<open>.debug_line\<close> section.  The result
  is the abbreviation, the attributes, the reader and the unit.
\<close>

definition DwarfEntry_init ::
  "'u DwarfInfo \<Rightarrow> DWARFReader \<Rightarrow> 64 word \<Rightarrow> DwarfUnit
     \<Rightarrow> (error + (DwarfAbbreviation \<times> (32 word \<rightharpoonup> DwarfAttribute) \<times> DWARFReader \<times> DwarfUnit)) option"
  where
  "DwarfEntry_init d r code' unit =
     (case abbreviations unit (ucast code') of
        None \<Rightarrow> Some (Inl Undefined)
      | Some ty \<Rightarrow>
          (case DwarfEntry_attributes d unit (ab_specs ty) r Map.empty of
             Inl e \<Rightarrow> Some (Inl e)
           | Inr (attrs, r1) \<Rightarrow>
               if ab_tag ty = DW_TAG_compile_unit then
                 (case lineshdr d of
                    None \<Rightarrow> Some (Inr (ty, attrs, r1, unit))
                  | Some lsh \<Rightarrow>
                      (case dwarfAttr2Int (attrs DW_AT_stmt_list) of
                         Inl e \<Rightarrow> Some (Inl e)
                       | Inr size' \<Rightarrow>
                           (let r2 = mkDWARFReader (io r1) (di_version d)
                                       (sh_offset lsh + size') (sh_size lsh - size')
                            in case (case lines unit of
                                       None \<Rightarrow> build_from [] [] [] r2 (du_addrlen unit)
                                     | Some li \<Rightarrow>
                                         build_from (directories li) (files li) (matrix_of li)
                                           r2 (du_addrlen unit)) of
                                 None \<Rightarrow> None
                               | Some (Inl e) \<Rightarrow> Some (Inl e)
                               | Some (Inr (li', r3)) \<Rightarrow>
                                   Some (Inr (ty, attrs, r1, unit\<lparr>lines := Some li'\<rparr>)))))
               else Some (Inr (ty, attrs, r1, unit))))"

text \<open>
  \<open>DwarfUnit::decodeEntries(r, entries)\<close>: entries until the reader is empty or a
  code 0 is read.  The last statement of the \<open>DwarfEntry\<close> constructor,
  \<open>if (type->hasChildren) unit->decodeEntries(r, children)\<close>, is the inner call here;
  the reader and the unit are the same objects throughout.
\<close>

partial_function (option) decodeEntries ::
  "'u DwarfInfo \<Rightarrow> DWARFReader \<Rightarrow> DwarfUnit \<Rightarrow> DwarfEntry list
     \<Rightarrow> (error + (DwarfEntry list \<times> DWARFReader \<times> DwarfUnit)) option" where
  "decodeEntries d r unit es =
     (if \<not> empty_r r then
        (case getuleb128 r of
           Inl e \<Rightarrow> Some (Inl e)
         | Inr (code', r1) \<Rightarrow>
             if code' = 0 then Some (Inr (es, r1, unit))
             else
               (case DwarfEntry_init d r1 code' unit of
                  None \<Rightarrow> None
                | Some (Inl e) \<Rightarrow> Some (Inl e)
                | Some (Inr (ty, attrs, r2, unit2)) \<Rightarrow>
                    if ab_hasChildren ty \<noteq> 0 then
                      Option.bind (decodeEntries d r2 unit2 [])
                        (\<lambda>res. case res of
                                  Inl e \<Rightarrow> Some (Inl e)
                                | Inr (children, r3, unit3) \<Rightarrow>
                                    decodeEntries d r3 unit3
                                      (es @ [DwarfEntry ty attrs children]))
                    else decodeEntries d r2 unit2 (es @ [DwarfEntry ty attrs []])))
      else Some (Inr (es, r, unit)))"

text \<open>
  The header of a unit, the constructor \<open>DwarfUnit(di, r)\<close> up to the abbreviation
  table: \<open>length\<close> (a \<open>uint32_t\<close>), \<open>version\<close>, the offset of the table, the reader
  \<open>abbR\<close> on \<open>di->abbrev\<close> (a null \<open>di->abbrev\<close> is dereferenced), and \<open>addrlen\<close>.
  The result is \<open>length\<close>, \<open>nextoff\<close>, \<open>version\<close>, \<open>abbR\<close>, \<open>addrlen\<close> and the
  reader.
\<close>

definition DwarfUnit_header ::
  "'u DwarfInfo \<Rightarrow> DWARFReader
     \<Rightarrow> error + (32 word \<times> 64 word \<times> 16 word \<times> DWARFReader \<times> 8 word \<times> DWARFReader)" where
  "DwarfUnit_header d r =
     bindE (getlength r) (\<lambda>(len64, r1).
       (let length' = (ucast len64 :: 32 word);
            nextoff = getOffset r1 + ucast length' in
        bindE (getu16 r1) (\<lambda>(ver, r2).
        bindE (if ver \<ge> 3 then getuint (r2\<lparr>rversion := uint ver\<rparr>) 8
               else bindE (getu32 (r2\<lparr>rversion := uint ver\<rparr>)) (\<lambda>(v, r'). Inr (ucast v, r')))
          (\<lambda>(off', r3).
            (case abbrev d of
               None \<Rightarrow> Inl Undefined
             | Some ash \<Rightarrow>
                 (let abbR = mkDWARFReader (io r3) (di_version d) (sh_offset ash + off')
                               (sh_size ash)
                  in bindE (getu8 r3) (\<lambda>(alen, r4).
                       Inr (length', nextoff, ver, abbR, alen, r4\<lparr>addrLen := unat alen\<rparr>))))))))"

text \<open>
  The constructor \<open>DwarfUnit(di, r)\<close>: the header, the abbreviation table, the
  entries from a reader of their own that ends at \<open>nextoff\<close>, and the cursor of \<open>r\<close>
  set to \<open>nextoff\<close>.  \<open>assert(nextoff <= r.getLimit())\<close> ends the process when it
  fails.
\<close>

definition DwarfUnit_init ::
  "'u DwarfInfo \<Rightarrow> DWARFReader \<Rightarrow> (error + (DwarfUnit \<times> DWARFReader)) option" where
  "DwarfUnit_init d r =
     (case DwarfUnit_header d r of
        Inl e \<Rightarrow> Some (Inl e)
      | Inr (length', nextoff, ver, abbR, alen, r4) \<Rightarrow>
          (case abbreviations_loop abbR Map.empty of
             None \<Rightarrow> None
           | Some (Inl e) \<Rightarrow> Some (Inl e)
           | Some (Inr (abbs, abbR')) \<Rightarrow>
               (let entriesR = mkDWARFReader (io r4) (di_version d) (getOffset r4)
                                 (nextoff - getOffset r4)
                in if \<not> nextoff \<le> getLimit r4 then Some (Inl Abort)
                   else
                     (case decodeEntries d entriesR
                             \<lparr>du_length = length', du_version = ver, abbreviations = abbs,
                               du_addrlen = alen, entries = [], lines = None\<rparr> [] of
                        None \<Rightarrow> None
                      | Some (Inl e) \<Rightarrow> Some (Inl e)
                      | Some (Inr (es, entriesR', unit)) \<Rightarrow>
                          Some (Inr (unit\<lparr>entries := es\<rparr>, setOffset r4 nextoff))))))"


section \<open>The lazily built indexes (DwarfInfo::units, ranges, pubnames)\<close>

text \<open>
  The tuples of a \<open>DwarfARangeSet\<close>: \<open>while (r.getOffset() < next)\<close>, two values of
  \<open>addrlen\<close> bytes each, until both are 0.
\<close>

partial_function (option) arange_tuples ::
  "nat \<Rightarrow> 64 word \<Rightarrow> DWARFReader \<Rightarrow> (64 word \<times> 64 word) list
     \<Rightarrow> (error + ((64 word \<times> 64 word) list \<times> DWARFReader)) option" where
  "arange_tuples alen next' r acc =
     (if getOffset r < next' then
        (case getuint r alen of
           Inl e \<Rightarrow> Some (Inl e)
         | Inr (start, r1) \<Rightarrow>
             (case getuint r1 alen of
                Inl e \<Rightarrow> Some (Inl e)
              | Inr (len, r2) \<Rightarrow>
                  if start = 0 \<and> len = 0 then Some (Inr (acc, r2))
                  else arange_tuples alen next' r2 (acc @ [(start, len)])))
      else Some (Inr (acc, r)))"

text \<open>
  The constructor \<open>DwarfARangeSet(r)\<close>.  The member \<open>length\<close> is a \<open>uint32_t\<close>;
  \<open>tupleLen\<close> and \<open>align\<close> are \<open>unsigned\<close>; \<open>used % tupleLen\<close> with \<open>tupleLen = 0\<close>
  is undefined.
\<close>

definition DwarfARangeSet_header ::
  "DWARFReader
     \<Rightarrow> error + (32 word \<times> 16 word \<times> 32 word \<times> 8 word \<times> 8 word \<times> 64 word \<times> DWARFReader)" where
  "DwarfARangeSet_header r =
     (let start = getOffset r in
      bindE (getlength r) (\<lambda>(len64, r1).
        (let length' = (ucast len64 :: 32 word);
             next' = getOffset r1 + ucast length' in
         bindE (getu16 r1) (\<lambda>(ver, r2).
         bindE (getu32 (r2\<lparr>rversion := uint ver\<rparr>)) (\<lambda>(dio, r3).
         bindE (getu8 r3) (\<lambda>(alen, r4).
         bindE (getu8 (r4\<lparr>addrLen := unat alen\<rparr>)) (\<lambda>(seg, r5).
           (let tupleLen = (ucast alen * 2 :: 32 word);
                used = getOffset r5 - start
            in if tupleLen = 0 then Inl Undefined
               else
                 (let align = (ucast (ucast tupleLen - used mod ucast tupleLen :: 64 word) :: 32 word)
                  in Inr (length', ver, dio, alen, seg, next', skip r5 (ucast align)))))))))))"

definition DwarfARangeSet_init ::
  "DWARFReader \<Rightarrow> (error + (DwarfARangeSet \<times> DWARFReader)) option" where
  "DwarfARangeSet_init r =
     (case DwarfARangeSet_header r of
        Inl e \<Rightarrow> Some (Inl e)
      | Inr (length', ver, dio, alen, seg, next', r5) \<Rightarrow>
          (case arange_tuples (unat alen) next' r5 [] of
             None \<Rightarrow> None
           | Some (Inl e) \<Rightarrow> Some (Inl e)
           | Some (Inr (rs, r6)) \<Rightarrow>
               Some (Inr (\<lparr>ars_length = length', ars_version = ver, debugInfoOffset = dio,
                           addrlen = alen, segdesclen = seg, ranges_of = rs\<rparr>, r6))))"

text \<open>
  The loops of the three accessors.  Each turn decodes one element from the reader
  and stores it in the container; an exception leaves the loop with the container as
  it is then, which the result carries beside the error.
\<close>

partial_function (option) ranges_loop ::
  "DWARFReader \<Rightarrow> DwarfARangeSet list
     \<Rightarrow> ((error \<times> DwarfARangeSet list) + DwarfARangeSet list) option" where
  "ranges_loop r acc =
     (if \<not> empty_r r then
        (case DwarfARangeSet_init r of
           None \<Rightarrow> None
         | Some (Inl e) \<Rightarrow> Some (Inl (e, acc))
         | Some (Inr (x, r')) \<Rightarrow> ranges_loop r' (acc @ [x]))
      else Some (Inr acc))"

text \<open>
  \<open>ranges()\<close>: when \<open>arangesh\<close> is not null, decode the section, then set
  \<open>arangesh\<close> to null; return \<open>aranges\<close>.  The result is the returned container and
  the \<open>DwarfInfo\<close> after the call; after an exception, the error and the
  \<open>DwarfInfo\<close> as the exception leaves it.
\<close>

definition ranges ::
  "'u DwarfInfo \<Rightarrow> ((error \<times> 'u DwarfInfo) + (DwarfARangeSet list \<times> 'u DwarfInfo)) option" where
  "ranges d =
     (case arangesh d of
        None \<Rightarrow> Some (Inr (aranges d, d))
      | Some sh \<Rightarrow>
          (case ranges_loop (mkDWARFReader (elf_io d) (di_version d) (sh_offset sh) (sh_size sh))
                  (aranges d) of
             None \<Rightarrow> None
           | Some (Inl (e, acc)) \<Rightarrow> Some (Inl (e, d\<lparr>aranges := acc\<rparr>))
           | Some (Inr acc) \<Rightarrow> Some (Inr (acc, d\<lparr>aranges := acc, arangesh := None\<rparr>))))"

text \<open>The names of a \<open>DwarfPubnameUnit\<close>: an offset and a string each, until offset 0.\<close>

partial_function (option) pubname_entries ::
  "64 word \<Rightarrow> DWARFReader \<Rightarrow> (32 word \<times> 8 word list) list
     \<Rightarrow> (error + ((32 word \<times> 8 word list) list \<times> DWARFReader)) option" where
  "pubname_entries next' r acc =
     (if getOffset r < next' then
        (case getu32 r of
           Inl e \<Rightarrow> Some (Inl e)
         | Inr (offset, r1) \<Rightarrow>
             if offset = 0 then Some (Inr (acc, r1))
             else
               (case getstring r1 of
                  Inl e \<Rightarrow> Some (Inl e)
                | Inr (name, r2) \<Rightarrow> pubname_entries next' r2 (acc @ [(offset, name)])))
      else Some (Inr (acc, r)))"

text \<open>The constructor \<open>DwarfPubnameUnit(r)\<close>.  The member \<open>length\<close> is a \<open>uint16_t\<close>.\<close>

definition DwarfPubnameUnit_header ::
  "DWARFReader \<Rightarrow> error + (16 word \<times> 16 word \<times> 32 word \<times> 32 word \<times> 64 word \<times> DWARFReader)" where
  "DwarfPubnameUnit_header r =
     bindE (getu32 r) (\<lambda>(len32, r1).
       (let length' = (ucast len32 :: 16 word);
            next' = getOffset r1 + ucast length' in
        bindE (getu16 r1) (\<lambda>(ver, r2).
        bindE (getu32 (r2\<lparr>rversion := uint ver\<rparr>)) (\<lambda>(io', r3).
        bindE (getu32 r3) (\<lambda>(il, r4).
          Inr (length', ver, io', il, next', r4))))))"

definition DwarfPubnameUnit_init ::
  "DWARFReader \<Rightarrow> (error + (DwarfPubnameUnit \<times> DWARFReader)) option" where
  "DwarfPubnameUnit_init r =
     (case DwarfPubnameUnit_header r of
        Inl e \<Rightarrow> Some (Inl e)
      | Inr (length', ver, io', il, next', r4) \<Rightarrow>
          (case pubname_entries next' r4 [] of
             None \<Rightarrow> None
           | Some (Inl e) \<Rightarrow> Some (Inl e)
           | Some (Inr (ns, r5)) \<Rightarrow>
               Some (Inr (\<lparr>pu_length = length', pu_version = ver, infoOffset = io',
                           infoLength = il, pubnames_of = ns\<rparr>, r5))))"

partial_function (option) pubnames_loop ::
  "DWARFReader \<Rightarrow> DwarfPubnameUnit list
     \<Rightarrow> ((error \<times> DwarfPubnameUnit list) + DwarfPubnameUnit list) option" where
  "pubnames_loop r acc =
     (if \<not> empty_r r then
        (case DwarfPubnameUnit_init r of
           None \<Rightarrow> None
         | Some (Inl e) \<Rightarrow> Some (Inl (e, acc))
         | Some (Inr (x, r')) \<Rightarrow> pubnames_loop r' (acc @ [x]))
      else Some (Inr acc))"

definition pubnames ::
  "'u DwarfInfo \<Rightarrow> ((error \<times> 'u DwarfInfo) + (DwarfPubnameUnit list \<times> 'u DwarfInfo)) option" where
  "pubnames d =
     (case pubnamesh d of
        None \<Rightarrow> Some (Inr (pubnameUnits d, d))
      | Some sh \<Rightarrow>
          (case pubnames_loop (mkDWARFReader (elf_io d) (di_version d) (sh_offset sh) (sh_size sh))
                  (pubnameUnits d) of
             None \<Rightarrow> None
           | Some (Inl (e, acc)) \<Rightarrow> Some (Inl (e, d\<lparr>pubnameUnits := acc\<rparr>))
           | Some (Inr acc) \<Rightarrow> Some (Inr (acc, d\<lparr>pubnameUnits := acc, pubnamesh := None\<rparr>))))"

text \<open>
  \<open>units()\<close>.  \<open>unitsm[off] = DwarfUnit(this, reader)\<close> stores the unit under the
  offset of its start in the section.  The right operand is evaluated first (the
  order that C++17 fixes), so an exception leaves the map as it was.
\<close>

partial_function (option) units_loop ::
  "'u DwarfInfo \<Rightarrow> 64 word \<Rightarrow> DWARFReader \<Rightarrow> (64 word \<rightharpoonup> DwarfUnit)
     \<Rightarrow> ((error \<times> (64 word \<rightharpoonup> DwarfUnit)) + (64 word \<rightharpoonup> DwarfUnit)) option" where
  "units_loop d sh_off r acc =
     (if \<not> empty_r r then
        (let off' = getOffset r - sh_off in
         case DwarfUnit_init d r of
           None \<Rightarrow> None
         | Some (Inl e) \<Rightarrow> Some (Inl (e, acc))
         | Some (Inr (x, r')) \<Rightarrow> units_loop d sh_off r' (acc(off' \<mapsto> x)))
      else Some (Inr acc))"

definition units ::
  "DwarfUnit DwarfInfo
     \<Rightarrow> ((error \<times> DwarfUnit DwarfInfo) + ((64 word \<rightharpoonup> DwarfUnit) \<times> DwarfUnit DwarfInfo)) option"
  where
  "units d =
     (case info d of
        None \<Rightarrow> Some (Inr (unitsm d, d))
      | Some sh \<Rightarrow>
          (case units_loop d (sh_offset sh)
                  (mkDWARFReader (elf_io d) (di_version d) (sh_offset sh) (sh_size sh))
                  (unitsm d) of
             None \<Rightarrow> None
           | Some (Inl (e, acc)) \<Rightarrow> Some (Inl (e, d\<lparr>unitsm := acc\<rparr>))
           | Some (Inr acc) \<Rightarrow> Some (Inr (acc, d\<lparr>unitsm := acc, info := None\<rparr>))))"


text \<open>
  What an index is to hold, to compare the accessors with.  A section is a sequence
  of elements (range sets, units of names, compilation units), each starting where
  the one before it ends, up to the end of the section:
  \<open>section_elements decode r xs\<close> says that the section under the reader \<open>r\<close> is
  made of the elements \<open>xs\<close>, each with the offset of its start, when one element
  is decoded by \<open>decode\<close>.  \<open>section_reader d sh\<close> is the reader that an accessor
  puts on the section \<open>sh\<close>, and \<open>stored_units\<close> files each unit under the offset
  of its start in the section.
\<close>

inductive section_elements ::
  "(DWARFReader \<Rightarrow> (error + ('a \<times> DWARFReader)) option) \<Rightarrow> DWARFReader
     \<Rightarrow> (64 word \<times> 'a) list \<Rightarrow> bool"
  for decode where
  section_end: "empty_r r \<Longrightarrow> section_elements decode r []"
| section_next:
    "\<not> empty_r r \<Longrightarrow> decode r = Some (Inr (x, r')) \<Longrightarrow> section_elements decode r' xs
       \<Longrightarrow> section_elements decode r ((getOffset r, x) # xs)"

code_pred section_elements .

abbreviation section_reader :: "'u DwarfInfo \<Rightarrow> Elf_Shdr \<Rightarrow> DWARFReader" where
  "section_reader d sh \<equiv> mkDWARFReader (elf_io d) (di_version d) (sh_offset sh) (sh_size sh)"

fun stored_units ::
  "64 word \<Rightarrow> (64 word \<times> 'a) list \<Rightarrow> (64 word \<rightharpoonup> 'a) \<Rightarrow> (64 word \<rightharpoonup> 'a)" where
  "stored_units sh_off [] m = m"
| "stored_units sh_off ((off', x) # xs) m = stored_units sh_off xs (m(off' - sh_off \<mapsto> x))"


section \<open>One step of unwinding (DwarfInfo::getCFA, dwarfUnwind)\<close>

text \<open>\<open>dwarfGetReg\<close> and \<open>dwarfSetReg\<close> index \<open>reg[DWARF_MAXREG]\<close> with an \<open>int\<close>.\<close>

definition dwarfGetReg :: "DwarfRegisters \<Rightarrow> 32 word \<Rightarrow> error + 64 word" where
  "dwarfGetReg regs regno = at_reg regno (\<lambda>i. Inr (regs i))"

definition dwarfSetReg :: "DwarfRegisters \<Rightarrow> nat \<Rightarrow> 64 word \<Rightarrow> DwarfRegisters" where
  "dwarfSetReg regs regno regval = regs(regno := regval)"

text \<open>
  \<open>getCFA\<close>.  \<open>pio\<close> is the reader of the process (\<open>proc.io\<close>).  In the
  \<open>EXPRESSION\<close> case the value \<open>dwarfEvalExpr\<close> returns is not used: the code takes
  \<open>stack.top()\<close> of the stack that \<open>dwarfEvalExpr\<close> leaves.
\<close>

definition getCFA ::
  "'u DwarfInfo \<Rightarrow> Reader \<Rightarrow> DwarfCallFrame \<Rightarrow> DwarfRegisters \<Rightarrow> (error + 64 word) option" where
  "getCFA d pio frame regs =
     (case rtype (cfaValue frame) of
        SAME \<Rightarrow> Some (Inl Abort)
      | VAL_OFFSET \<Rightarrow> Some (Inl Abort)
      | VAL_EXPRESSION \<Rightarrow> Some (Inl Abort)
      | REG \<Rightarrow> Some (Inl Abort)
      | UNDEF \<Rightarrow> Some (Inl Abort)
      | ARCH \<Rightarrow> Some (Inl Abort)
      | OFFSET \<Rightarrow>
          Some (bindE (dwarfGetReg regs (cfaReg frame))
                  (\<lambda>v. Inr (v + u_offset (cfaValue frame))))
      | EXPRESSION \<Rightarrow>
          (let r = mkDWARFReader (elf_io d) (di_version d)
                     (u_offset (cfaValue frame)) (u_length (cfaValue frame))
           in case dwarfEvalExpr pio r regs [] of
                None \<Rightarrow> None
              | Some (Inl e) \<Rightarrow> Some (Inl e)
              | Some (Inr (v, [])) \<Rightarrow> Some (Inl Undefined)
              | Some (Inr (v, rv # rest)) \<Rightarrow> Some (Inr rv)))"

text \<open>
  dwarf/archreg.h is not among the sources.  It lists the DWARF register numbers of
  the architecture, from which \<open>dwarfIsArchReg\<close> is generated, and may define
  \<open>CFA_RESTORE_REGNO\<close>.  Both are parameters of the model.
\<close>

record Arch =
  dwarfIsArchReg :: "nat \<Rightarrow> bool"
  CFA_RESTORE_REGNO :: "nat option"

text \<open>
  The body of the loop \<open>for (i = 0; i < MAXREG; i++)\<close> of \<open>dwarfUnwind\<close> for one
  \<open>i\<close>.  A rule of type \<open>VAL_OFFSET\<close> has no \<open>case\<close> and goes to \<open>default\<close>.  In
  the two expression cases the register receives \<open>stack.top()\<close> of the stack that
  \<open>dwarfEvalExpr\<close> leaves.
\<close>

definition unwind_register ::
  "'u DwarfInfo \<Rightarrow> Reader \<Rightarrow> DwarfCallFrame \<Rightarrow> DwarfRegisters \<Rightarrow> 64 word \<Rightarrow> nat
     \<Rightarrow> DwarfRegisters \<Rightarrow> (error + DwarfRegisters) option" where
  "unwind_register d pio frame regs cfa i newRegs =
     (let unwind = registers frame i in
      case rtype unwind of
        UNDEF \<Rightarrow> Some (Inr (dwarfSetReg newRegs i (regs i)))
      | SAME \<Rightarrow> Some (Inr (dwarfSetReg newRegs i (regs i)))
      | OFFSET \<Rightarrow>
          Some (bindE (readAddr pio (cfa + u_offset unwind))
                  (\<lambda>reg. Inr (dwarfSetReg newRegs i reg)))
      | REG \<Rightarrow>
          Some (bindE (dwarfGetReg regs (ucast (u_offset unwind)))
                  (\<lambda>v. Inr (dwarfSetReg newRegs i v)))
      | VAL_EXPRESSION \<Rightarrow>
          (let reader = mkDWARFReader (elf_io d) (di_version d) (u_offset unwind) (u_length unwind)
           in case dwarfEvalExpr pio reader regs [cfa] of
                None \<Rightarrow> None
              | Some (Inl e) \<Rightarrow> Some (Inl e)
              | Some (Inr (v, [])) \<Rightarrow> Some (Inl Undefined)
              | Some (Inr (v, val # rest)) \<Rightarrow> Some (Inr (dwarfSetReg newRegs i val)))
      | EXPRESSION \<Rightarrow>
          (let reader = mkDWARFReader (elf_io d) (di_version d) (u_offset unwind) (u_length unwind)
           in case dwarfEvalExpr pio reader regs [cfa] of
                None \<Rightarrow> None
              | Some (Inl e) \<Rightarrow> Some (Inl e)
              | Some (Inr (v, [])) \<Rightarrow> Some (Inl Undefined)
              | Some (Inr (v, val # rest)) \<Rightarrow>
                  Some (bindE (readAddr pio val) (\<lambda>val'. Inr (dwarfSetReg newRegs i val))))
      | VAL_OFFSET \<Rightarrow> Some (Inl Abort)
      | ARCH \<Rightarrow> Some (Inl Abort))"

fun unwind_registers ::
  "Arch \<Rightarrow> 'u DwarfInfo \<Rightarrow> Reader \<Rightarrow> DwarfCallFrame \<Rightarrow> DwarfRegisters \<Rightarrow> 64 word \<Rightarrow> nat list
     \<Rightarrow> DwarfRegisters \<Rightarrow> (error + DwarfRegisters) option" where
  "unwind_registers arch d pio frame regs cfa [] newRegs = Some (Inr newRegs)"
| "unwind_registers arch d pio frame regs cfa (i # is) newRegs =
     (if \<not> dwarfIsArchReg arch i then unwind_registers arch d pio frame regs cfa is newRegs
      else
        (case unwind_register d pio frame regs cfa i newRegs of
           None \<Rightarrow> None
         | Some (Inl e) \<Rightarrow> Some (Inl e)
         | Some (Inr newRegs') \<Rightarrow> unwind_registers arch d pio frame regs cfa is newRegs'))"

text \<open>
  \<open>dwarfUnwind\<close> from the computation of the CFA on: the frame row is applied to
  the registers.  \<open>newRegs0\<close> is what the storage of the local \<open>newRegs\<close> held; the
  loop writes only the architecture's registers, and \<open>memcpy\<close> copies all of it.
  The result is the returned address and the registers after the call.
\<close>

definition applyFrame ::
  "Arch \<Rightarrow> 'u DwarfInfo \<Rightarrow> Reader \<Rightarrow> DwarfRegisters \<Rightarrow> 32 word \<Rightarrow> DwarfCallFrame
     \<Rightarrow> DwarfRegisters \<Rightarrow> (error + (64 word \<times> DwarfRegisters)) option" where
  "applyFrame arch d pio newRegs0 rar' frame regs =
     (case getCFA d pio frame regs of
        None \<Rightarrow> None
      | Some (Inl e) \<Rightarrow> Some (Inl e)
      | Some (Inr cfa) \<Rightarrow>
          (case unwind_registers arch d pio frame regs cfa [0..<MAXREG] newRegs0 of
             None \<Rightarrow> None
           | Some (Inl e) \<Rightarrow> Some (Inl e)
           | Some (Inr newRegs) \<Rightarrow>
               (let newRegs' =
                      (case CFA_RESTORE_REGNO arch of
                         None \<Rightarrow> newRegs
                       | Some sp \<Rightarrow>
                           if rtype (registers frame sp) = UNDEF then dwarfSetReg newRegs sp cfa
                           else newRegs)
                in Some (bindE (dwarfGetReg newRegs' rar') (\<lambda>pc. Inr (pc, newRegs'))))))"

text \<open>
  \<open>Process\<close>: its reader \<open>io\<close>, and \<open>findObject\<close> followed by \<open>getDwarf\<close>, whose
  bodies (of the version that \<open>dwarfUnwind\<close> calls) are not among the sources: the
  load address of the object that holds an address, and that object's
  \<open>DwarfInfo\<close>.
\<close>

record 'u Process =
  proc_io :: Reader
  findObject :: "64 word \<Rightarrow> 64 word \<times> 'u DwarfInfo"

text \<open>
  The search for the FDE at the start of \<open>dwarfUnwind\<close>: \<open>.debug_frame\<close> first,
  when the object has one, then \<open>.eh_frame\<close>.
\<close>

definition lookupFDE :: "'u DwarfInfo \<Rightarrow> 64 word \<Rightarrow> DwarfFDE option" where
  "lookupFDE dwarf objaddr =
     (case (case debugFrame dwarf of None \<Rightarrow> None | Some fi \<Rightarrow> findFDE fi objaddr) of
        Some fde \<Rightarrow> Some fde
      | None \<Rightarrow> (case ehFrame dwarf of None \<Rightarrow> None | Some fi \<Rightarrow> findFDE fi objaddr))"

text \<open>
  \<open>dwarfUnwind\<close>.  \<open>mem\<close> and \<open>newRegs0\<close> are what the storage of its fresh frames
  and of \<open>newRegs\<close> held.  When no FDE covers the address it returns 0 and leaves the
  registers as they are.
\<close>

definition dwarfUnwind ::
  "Arch \<Rightarrow> DwarfCallFrame \<Rightarrow> DwarfRegisters \<Rightarrow> 'u Process \<Rightarrow> DwarfRegisters \<Rightarrow> 64 word
     \<Rightarrow> (error + (64 word \<times> DwarfRegisters)) option" where
  "dwarfUnwind arch mem newRegs0 p regs procaddr =
     (case findObject p procaddr of (elf_first, dwarf) \<Rightarrow>
        (let objaddr = procaddr - elf_first in
         case lookupFDE dwarf objaddr of
           None \<Rightarrow> Some (Inr (0, regs))
         | Some fde \<Rightarrow>
             (let r = mkDWARFReader (elf_io dwarf) (di_version dwarf) (fde_instructions fde)
                        (fde_end fde - fde_instructions fde)
              in case execInsns mem (cie fde) r (di_version dwarf) (iloc fde) (objaddr - 1) of
                   None \<Rightarrow> None
                 | Some (Inl e) \<Rightarrow> Some (Inl e)
                 | Some (Inr frame) \<Rightarrow>
                     applyFrame arch dwarf (proc_io p) newRegs0 (rar (cie fde)) frame regs)))"

section \<open>LEB128 as the DWARF standard defines it\<close>

text \<open>
  The encodings that \<open>getuleb128\<close> and \<open>getsleb128\<close> are to decode.  The repository
  has no encoder; these follow the standard's definition (seven bits a byte, least
  significant first, bit 7 set on every byte but the last; for the signed form the
  last byte's bit 6 is the sign).
\<close>

function uleb128 :: "nat \<Rightarrow> 8 word list" where
  "uleb128 n = (if n < 128 then [of_nat n] else of_nat (n mod 128 + 128) # uleb128 (n div 128))"
  by pat_completeness auto
termination
  by (relation "measure id") auto

declare uleb128.simps [simp del]

function sleb128 :: "int \<Rightarrow> 8 word list" where
  "sleb128 v =
     (if - 64 \<le> v \<and> v < 64 then [of_int (v mod 128)]
      else of_int (v mod 128 + 128) # sleb128 (v div 128))"
  by pat_completeness auto
termination
  by (relation "measure (\<lambda>v. nat \<bar>v\<bar>)") auto

declare sleb128.simps [simp del]

text \<open>The value of four bytes read least significant first, as a number.\<close>

definition u32_le :: "8 word \<Rightarrow> 8 word \<Rightarrow> 8 word \<Rightarrow> 8 word \<Rightarrow> nat" where
  "u32_le b0 b1 b2 b3 = unat b0 + 2 ^ 8 * unat b1 + 2 ^ 16 * unat b2 + 2 ^ 24 * unat b3"


section \<open>Concrete inputs\<close>

text \<open>
  The inputs at which the theorems below are evaluated.  First the header of the line
  program of the spec's third scenario (\<open>line_base = -3\<close> is the byte \<open>fd\<close>), with
  the standard opcode lengths of DWARF 3 from index 1 on.
\<close>

definition scenario_header :: DwarfLineHeader where
  "scenario_header =
     \<lparr>min_insn_length = 1, default_is_stmt = 1, line_base = 0xfd, line_range = 12,
      opcode_base = 13, opcode_lengths = [0, 0, 1, 1, 1, 1, 0, 0, 0, 1, 0, 0, 1], unit_addrlen = 8\<rparr>"

text \<open>
  A whole line program with that header: total length 33, version 2, prologue length
  26, the five header bytes, the twelve opcode lengths, no include directory, the file
  \<open>a.c\<close> (directory 0, time 0, length 0), and the single opcode byte \<open>4e\<close>.
\<close>

definition scenario_line_program :: "8 word list" where
  "scenario_line_program =
     [33, 0, 0, 0,  2, 0,  26, 0, 0, 0,
      1, 1, 0xfd, 12, 13,
      0, 1, 1, 1, 1, 0, 0, 0, 1, 0, 0, 1,
      0,
      0x61, 0x2e, 0x63, 0, 0, 0, 0,
      0,
      0x4e]"

text \<open>
  A CIE as compilers emit it for x86-64: code alignment 1, data alignment \<open>-8\<close>,
  return address in DWARF register 16.
\<close>

definition cie_x86_64 :: DwarfCIE where
  "cie_x86_64 =
     \<lparr>cie_version = 1, addressEncoding = 0x1b, lsdaEncoding = 0, isSignalHandler = False,
      codeAlign = 1, dataAlign = 0xfffffff8, rar = 16,
      cie_instructions = 0, cie_end = 0, personality = 0, augSize = 1,
      augmentation = [0x7a, 0x52]\<rparr>"



text \<open>
  The registers of x86-64 in DWARF's numbering: 0 to 16, the stack pointer \<open>rsp\<close> is
  7 and the return address is 16.
\<close>

definition x86_64 :: Arch where
  "x86_64 = \<lparr>dwarfIsArchReg = (\<lambda>i. i \<le> 16), CFA_RESTORE_REGNO = Some 7\<rparr>"

text \<open>A process memory that holds the bytes \<open>data\<close> from address \<open>base\<close> on, and nothing else.\<close>

definition memory_at :: "64 word \<Rightarrow> 8 word list \<Rightarrow> Reader" where
  "memory_at base data =
     (\<lambda>a. if unat (a - base) < length data then Some (data ! unat (a - base)) else None)"

text \<open>
  The frame row of the spec's first scenario: the return address register has the
  rule \<open>offset(-8)\<close>, the CFA rule is register 7 plus 8, every other rule is undef.
\<close>

definition scenario_row :: DwarfCallFrame where
  "scenario_row =
     \<lparr>registers = (\<lambda>i. \<lparr>rtype = UNDEF, u_offset = 0, u_length = 0\<rparr>)
                     (16 := \<lparr>rtype = OFFSET, u_offset = - 8, u_length = 0\<rparr>),
      cfaReg = 7,
      cfaValue = \<lparr>rtype = OFFSET, u_offset = 8, u_length = 0\<rparr>\<rparr>"

text \<open>A \<open>DwarfInfo\<close> of an object without debug sections, over the reader \<open>rd\<close>.\<close>

definition no_sections :: "Reader \<Rightarrow> unit DwarfInfo" where
  "no_sections rd =
     \<lparr>elf_io = rd, di_version = 2, info = None, abbrev = None, lineshdr = None,
      debugStrings = None, pubnamesh = None, arangesh = None,
      unitsm = Map.empty, aranges = [], pubnameUnits = [], debugFrame = None, ehFrame = None\<rparr>"

text \<open>
  The object of the spec's first scenario.  Its call frame instructions: for the CIE,
  \<open>0c 07 08\<close> (\<open>def_cfa\<close> register 7, offset 8) and \<open>90 01\<close> (\<open>offset\<close> register
  16, factored offset 1, so \<open>-8\<close>); for the FDE, three \<open>nop\<close>s.  The FDE covers
  \<open>0x401000\<close> to \<open>0x401fff\<close>, so the PC \<open>0x401234\<close>.  The object is loaded at 0.
\<close>

definition scenario_cfi :: "8 word list" where
  "scenario_cfi = [0x0c, 0x07, 0x08, 0x90, 0x01, 0, 0, 0]"

definition scenario_cie :: DwarfCIE where
  "scenario_cie = cie_x86_64\<lparr>cie_instructions := 0, cie_end := 5\<rparr>"

definition scenario_fde :: DwarfFDE where
  "scenario_fde =
     \<lparr>cie = scenario_cie, iloc = 0x401000, irange = 0x1000,
      fde_instructions = 5, fde_end = 8, aug = []\<rparr>"

definition scenario_dwarf :: "unit DwarfInfo" where
  "scenario_dwarf =
     (no_sections (MemReader scenario_cfi))
       \<lparr>ehFrame := Some \<lparr>fi_type = FI_EH_FRAME, cies = [0 \<mapsto> scenario_cie],
                           fdeList = [scenario_fde]\<rparr>\<rparr>"

definition scenario_process :: "Reader \<Rightarrow> unit Process" where
  "scenario_process memory = \<lparr>proc_io = memory, findObject = (\<lambda>a. (0, scenario_dwarf))\<rparr>"

text \<open>Storage that held zeros, for the frames that \<open>execInsns\<close> constructs.\<close>

definition zero_frame :: DwarfCallFrame where
  "zero_frame =
     \<lparr>registers = (\<lambda>i. \<lparr>rtype = UNDEF, u_offset = 0, u_length = 0\<rparr>),
      cfaReg = 0,
      cfaValue = \<lparr>rtype = UNDEF, u_offset = 0, u_length = 0\<rparr>\<rparr>"

text \<open>
  A file image with five sections.  Offsets 0 to 47: \<open>.debug_aranges\<close>, one set
  (length \<open>0x2c\<close>, version 2, CU offset 0, address size 8, segment size 0, four bytes
  of padding, the tuple \<open>(0x401000, 0x100)\<close>, the terminator).  Offsets 48 to 71:
  \<open>.debug_pubnames\<close>, one unit (length \<open>0x14\<close>, version 2, info offset 0, info length
  \<open>0x100\<close>, the name \<open>f\<close> at offset \<open>0x2a\<close>, the terminator).  Offsets 72 to 90:
  \<open>.debug_abbrev\<close>: abbreviation 1, a compile unit with children, a name (string) and
  a statement list (data4); abbreviation 2, a subprogram without children, a name
  (string) and a low pc (addr); the terminator.  Offsets 91 to 143: \<open>.debug_info\<close>,
  two units of version 2 with address size 8 and the abbreviation table at 0: the
  first (length \<open>0x1c\<close>) holds the compile unit \<open>a.c\<close> with the one child \<open>f\<close> at
  \<open>0x401000\<close>, the second (length \<open>0x11\<close>) the compile unit \<open>b.c\<close> without
  children; the statement list of both is at 0.  Offsets 144 to 180: \<open>.debug_line\<close>,
  the line program \<open>scenario_line_program\<close>.
\<close>

definition example_image :: "8 word list" where
  "example_image =
     [0x2c, 0, 0, 0,  2, 0,  0, 0, 0, 0,  8,  0,  0, 0, 0, 0,
      0x00, 0x10, 0x40, 0, 0, 0, 0, 0,  0x00, 0x01, 0, 0, 0, 0, 0, 0,
      0, 0, 0, 0, 0, 0, 0, 0,  0, 0, 0, 0, 0, 0, 0, 0,
      0x14, 0, 0, 0,  2, 0,  0, 0, 0, 0,  0, 1, 0, 0,
      0x2a, 0, 0, 0,  0x66, 0,  0, 0, 0, 0,
      1, 0x11, 1,  3, 8,  0x10, 6,  0, 0,
      2, 0x2e, 0,  3, 8,  0x11, 1,  0, 0,
      0,
      0x1c, 0, 0, 0,  2, 0,  0, 0, 0, 0,  8,
      1,  0x61, 0x2e, 0x63, 0,  0, 0, 0, 0,
      2,  0x66, 0,  0x00, 0x10, 0x40, 0, 0, 0, 0, 0,
      0,
      0x11, 0, 0, 0,  2, 0,  0, 0, 0, 0,  8,
      1,  0x62, 0x2e, 0x63, 0,  0, 0, 0, 0,
      0,
      33, 0, 0, 0,  2, 0,  26, 0, 0, 0,
      1, 1, 0xfd, 12, 13,
      0, 1, 1, 1, 1, 0, 0, 0, 1, 0, 0, 1,
      0,
      0x61, 0x2e, 0x63, 0, 0, 0, 0,
      0,
      0x4e]"

definition example_info :: "DwarfUnit DwarfInfo" where
  "example_info =
     \<lparr>elf_io = MemReader example_image, di_version = 2,
      info = Some \<lparr>sh_offset = 91, sh_size = 53\<rparr>,
      abbrev = Some \<lparr>sh_offset = 72, sh_size = 19\<rparr>,
      lineshdr = Some \<lparr>sh_offset = 144, sh_size = 37\<rparr>,
      debugStrings = None,
      pubnamesh = Some \<lparr>sh_offset = 48, sh_size = 24\<rparr>,
      arangesh = Some \<lparr>sh_offset = 0, sh_size = 48\<rparr>,
      unitsm = Map.empty, aranges = [], pubnameUnits = [],
      debugFrame = None, ehFrame = None\<rparr>"

definition example_arange_set :: DwarfARangeSet where
  "example_arange_set =
     \<lparr>ars_length = 0x2c, ars_version = 2, debugInfoOffset = 0, addrlen = 8, segdesclen = 0,
      ranges_of = [(0x401000, 0x100)]\<rparr>"

definition example_pubname_unit :: DwarfPubnameUnit where
  "example_pubname_unit =
     \<lparr>pu_length = 0x14, pu_version = 2, infoOffset = 0, infoLength = 0x100,
      pubnames_of = [(0x2a, [0x66])]\<rparr>"

text \<open>The two abbreviations of the image.\<close>

definition example_abbreviation_1 :: DwarfAbbreviation where
  "example_abbreviation_1 =
     \<lparr>ab_code = 1, ab_tag = 0x11, ab_hasChildren = 1,
      ab_specs = [\<lparr>as_name = 3, as_form = 8\<rparr>, \<lparr>as_name = 0x10, as_form = 6\<rparr>]\<rparr>"

definition example_abbreviation_2 :: DwarfAbbreviation where
  "example_abbreviation_2 =
     \<lparr>ab_code = 2, ab_tag = 0x2e, ab_hasChildren = 0,
      ab_specs = [\<lparr>as_name = 3, as_form = 8\<rparr>, \<lparr>as_name = 0x11, as_form = 1\<rparr>]\<rparr>"

text \<open>
  The line table of the image: the header of the scenario, the file \<open>a.c\<close>, and the
  one row that the opcode \<open>4e\<close> makes.
\<close>

definition example_lines :: DwarfLineInfo where
  "example_lines =
     \<lparr>li_header = scenario_header,
      directories = [bytes_of ''(compiler CWD)''],
      files = [\<lparr>fe_name = bytes_of ''unknown'', fe_directory = bytes_of ''unknown'',
                 lastMod = 0, fe_length = 0\<rparr>,
               \<lparr>fe_name = [0x61, 0x2e, 0x63], fe_directory = bytes_of ''(compiler CWD)'',
                 lastMod = 0, fe_length = 0\<rparr>],
      matrix_of = [\<lparr>addr = 5, file' = 1, line = 3, column = 0, is_stmt = True,
                     basic_block = False, end_sequence = False\<rparr>]\<rparr>"

text \<open>
  A unit of the image while its constructor decodes the entries: the header and the
  abbreviation table are there, the entries are not; \<open>ls\<close> is the line table.
\<close>

definition example_unit_0 :: "32 word \<Rightarrow> DwarfLineInfo option \<Rightarrow> DwarfUnit" where
  "example_unit_0 l ls =
     \<lparr>du_length = l, du_version = 2,
      abbreviations = [1 \<mapsto> example_abbreviation_1, 2 \<mapsto> example_abbreviation_2],
      du_addrlen = 8, entries = [], lines = ls\<rparr>"

text \<open>The two units of the image, decoded.\<close>

definition example_unit_1 :: DwarfUnit where
  "example_unit_1 =
     \<lparr>du_length = 0x1c, du_version = 2,
      abbreviations = [1 \<mapsto> example_abbreviation_1, 2 \<mapsto> example_abbreviation_2],
      du_addrlen = 8,
      entries =
        [DwarfEntry example_abbreviation_1
           [3 \<mapsto> \<lparr>at_spec = \<lparr>as_name = 3, as_form = 8\<rparr>,
                  at_value = V_string [0x61, 0x2e, 0x63]\<rparr>,
            0x10 \<mapsto> \<lparr>at_spec = \<lparr>as_name = 0x10, as_form = 6\<rparr>, at_value = V_data4 0\<rparr>]
           [DwarfEntry example_abbreviation_2
              [3 \<mapsto> \<lparr>at_spec = \<lparr>as_name = 3, as_form = 8\<rparr>, at_value = V_string [0x66]\<rparr>,
               0x11 \<mapsto> \<lparr>at_spec = \<lparr>as_name = 0x11, as_form = 1\<rparr>,
                        at_value = V_addr 0x401000\<rparr>]
              []]],
      lines = Some example_lines\<rparr>"

definition example_unit_2 :: DwarfUnit where
  "example_unit_2 =
     \<lparr>du_length = 0x11, du_version = 2,
      abbreviations = [1 \<mapsto> example_abbreviation_1, 2 \<mapsto> example_abbreviation_2],
      du_addrlen = 8,
      entries =
        [DwarfEntry example_abbreviation_1
           [3 \<mapsto> \<lparr>at_spec = \<lparr>as_name = 3, as_form = 8\<rparr>,
                  at_value = V_string [0x62, 0x2e, 0x63]\<rparr>,
            0x10 \<mapsto> \<lparr>at_spec = \<lparr>as_name = 0x10, as_form = 6\<rparr>, at_value = V_data4 0\<rparr>]
           []],
      lines = Some example_lines\<rparr>"

text \<open>
  A file cut off after 54 bytes.  Its section headers say: \<open>.debug_aranges\<close> at 0 with
  96 bytes, \<open>.debug_pubnames\<close> at 96, \<open>.debug_abbrev\<close> at 120, \<open>.debug_info\<close> at 139.
  What is left of the file is the first range set, as in the image above, and the
  first six bytes of a second one (its length and its version).
\<close>

definition truncated_image :: "8 word list" where
  "truncated_image =
     [0x2c, 0, 0, 0,  2, 0,  0, 0, 0, 0,  8,  0,  0, 0, 0, 0,
      0x00, 0x10, 0x40, 0, 0, 0, 0, 0,  0x00, 0x01, 0, 0, 0, 0, 0, 0,
      0, 0, 0, 0, 0, 0, 0, 0,  0, 0, 0, 0, 0, 0, 0, 0,
      0x2c, 0, 0, 0,  2, 0]"

definition truncated_info :: "DwarfUnit DwarfInfo" where
  "truncated_info =
     \<lparr>elf_io = MemReader truncated_image, di_version = 2,
      info = Some \<lparr>sh_offset = 139, sh_size = 53\<rparr>,
      abbrev = Some \<lparr>sh_offset = 120, sh_size = 19\<rparr>,
      lineshdr = None, debugStrings = None,
      pubnamesh = Some \<lparr>sh_offset = 96, sh_size = 24\<rparr>,
      arangesh = Some \<lparr>sh_offset = 0, sh_size = 96\<rparr>,
      unitsm = Map.empty, aranges = [], pubnameUnits = [],
      debugFrame = None, ehFrame = None\<rparr>"


section \<open>Reading: helper lemmas\<close>

lemma readObj_numeral:
  "readObj rd a (numeral k) =
     (case rd a of
        None \<Rightarrow> Inl Exception
      | Some b \<Rightarrow>
          (case readObj rd (a + 1) (pred_numeral k) of Inl e \<Rightarrow> Inl e | Inr bs \<Rightarrow> Inr (b # bs)))"
  by (simp add: numeral_eq_Suc)

lemma readObj_1:
  "readObj rd a 1 = (case rd a of None \<Rightarrow> Inl Exception | Some b \<Rightarrow> Inr [b])"
  by (simp split: option.splits)

lemma readObj_length: "readObj rd a n = Inr bs \<Longrightarrow> length bs = n"
  by (induction n arbitrary: a bs) (auto split: option.splits sum.splits)

lemma or_push_nat: "x < 2 ^ k \<Longrightarrow> x OR push_bit k y = x + 2 ^ k * (y::nat)"
proof -
  assume a: "x < 2 ^ k"
  have "x + push_bit k y = x OR push_bit k y"
  proof (rule disjunctive_add)
    fix n
    have "bit x n \<Longrightarrow> n < k"
      using a by (metis bit_take_bit_iff take_bit_nat_eq_self_iff)
    then show "\<not> bit x n \<or> \<not> bit (push_bit k y) n"
      by (auto simp: bit_push_bit_iff)
  qed
  then show ?thesis by (simp add: push_bit_eq_mult mult.commute)
qed

lemma le32:
  fixes b0 b1 b2 b3 :: "8 word"
  shows "unat (ucast b0 OR push_bit 8 (ucast b1) OR push_bit 16 (ucast b2)
                 OR push_bit 24 (ucast b3) :: 32 word)
         = u32_le b0 b1 b2 b3"
proof -
  have b: "unat b0 < 2 ^ 8" "unat b1 < 2 ^ 8" "unat b2 < 2 ^ 8" "unat b3 < 2 ^ 8"
    using unsigned_less[of b0] unsigned_less[of b1] unsigned_less[of b2] unsigned_less[of b3]
    by simp_all
  have t: "take_bit 32 (unat b0) = unat b0" "take_bit 32 (unat b1) = unat b1"
     "take_bit 32 (unat b2) = unat b2" "take_bit 32 (unat b3) = unat b3"
    using b by (simp_all add: take_bit_nat_eq_self_iff)
  have p: "take_bit 32 (push_bit 8 (unat b1)) = push_bit 8 (unat b1)"
     "take_bit 32 (push_bit 16 (unat b2)) = push_bit 16 (unat b2)"
     "take_bit 32 (push_bit 24 (unat b3)) = push_bit 24 (unat b3)"
    using b by (simp_all add: take_bit_nat_eq_self_iff push_bit_eq_mult)
  have "unat (ucast b0 OR push_bit 8 (ucast b1) OR push_bit 16 (ucast b2)
                OR push_bit 24 (ucast b3) :: 32 word)
      = unat b0 OR push_bit 8 (unat b1 OR push_bit 8 (unat b2 OR push_bit 8 (unat b3)))"
    by (simp add: unsigned_or_eq unsigned_push_bit_eq unsigned_ucast_eq t p)
  also have "\<dots> = unat b0 + 2 ^ 8 * (unat b1 + 2 ^ 8 * (unat b2 + 2 ^ 8 * unat b3))"
    using b by (simp add: or_push_nat)
  finally show ?thesis by (simp add: u32_le_def)
qed

lemma getu32_bytes:
  assumes "readObj (io r) (off r) 4 = Inr [b0, b1, b2, b3]"
  shows "\<exists>l. getu32 r = Inr (l, r\<lparr>off := off r + 4\<rparr>) \<and> unat l = u32_le b0 b1 b2 b3"
  using assms by (simp add: getu32_def le32)

lemma getlength_bytes:
  assumes "readObj (io r) (off r) 4 = Inr [b0, b1, b2, b3]"
  shows "getlength r =
     (if u32_le b0 b1 b2 b3 = 0xffffffff then getuint (r\<lparr>off := off r + 4\<rparr>) 8
      else if 0xfffffff0 \<le> u32_le b0 b1 b2 b3 then Inr (0, r\<lparr>off := off r + 4\<rparr>)
      else Inr (of_nat (u32_le b0 b1 b2 b3), r\<lparr>off := off r + 4\<rparr>))"
proof -
  obtain l where l: "getu32 r = Inr (l, r\<lparr>off := off r + 4\<rparr>)" "unat l = u32_le b0 b1 b2 b3"
    using getu32_bytes[OF assms] by blast
  have u: "unat (ucast l :: 64 word) = unat l"
    using unsigned_less[of l, where 'a=nat]
    by (simp add: unsigned_ucast_eq take_bit_nat_eq_self_iff)
  have c1: "((ucast l :: 64 word) \<ge> 0xfffffff0) = (0xfffffff0 \<le> unat l)"
    by (simp add: word_le_nat_alt u)
  have c2: "((ucast l :: 64 word) = 0xffffffff) = (unat l = 0xffffffff)"
    by (simp add: word_unat_eq_iff u)
  have c3: "(ucast l :: 64 word) = of_nat (unat l)"
    by simp
  show ?thesis
    unfolding getlength_def l(1) using l(2) c1 c2 c3 by (auto simp: Let_def)
qed

section \<open>The initial length (claim C2)\<close>

text \<open>
  C2, as the claim states it, fails.  A first 4-byte value in
  \<open>[0xfffffff0, 0xffffffff)\<close> does not yield a decode error: \<open>getlength\<close> returns
  the length 0, with the cursor four bytes on.  Here the four bytes are
  \<open>f0 ff ff ff\<close>, the value \<open>0xfffffff0\<close>.
\<close>

theorem getlength_reserved_counterexample:
  "getlength (mkDWARFReader (MemReader [0xf0, 0xff, 0xff, 0xff]) 2 0 4)
     = Inr (0, (mkDWARFReader (MemReader [0xf0, 0xff, 0xff, 0xff]) 2 0 4)\<lparr>off := 4\<rparr>)"
  by (simp add: getlength_def getu32_def readObj_numeral mkDWARFReader_def MemReader_def)

text \<open>
  C2, amended: when the four bytes at the cursor can be read and \<open>v\<close> is their
  little-endian value, then: if \<open>v = 0xffffffff\<close>, the result of \<open>getlength\<close> is that
  of reading an 8-byte value at the cursor moved four bytes on (64-bit DWARF); if
  \<open>v\<close> is one of the reserved values \<open>0xfffffff0 \<dots> 0xfffffffe\<close>, \<open>getlength\<close>
  returns the length 0 (no error) and the cursor has moved four bytes; any other \<open>v\<close>
  is itself the length, and the cursor has moved four bytes.
\<close>

theorem getlength_initial_length:
  assumes "readObj (io r) (off r) 4 = Inr [b0, b1, b2, b3]"
  shows "getlength r =
     (if u32_le b0 b1 b2 b3 = 0xffffffff then getuint (r\<lparr>off := off r + 4\<rparr>) 8
      else if 0xfffffff0 \<le> u32_le b0 b1 b2 b3 then Inr (0, r\<lparr>off := off r + 4\<rparr>)
      else Inr (of_nat (u32_le b0 b1 b2 b3), r\<lparr>off := off r + 4\<rparr>))"
  using assms by (rule getlength_bytes)

text \<open>
  Witness for C2: the bytes \<open>10 00 00 00\<close> are the length 16, and the bytes
  \<open>f5 ff ff ff\<close>, a reserved value, give the length 0.
\<close>

theorem getlength_initial_length_witness:
  "readObj (io (mkDWARFReader (MemReader [0x10, 0, 0, 0]) 2 0 4))
      (off (mkDWARFReader (MemReader [0x10, 0, 0, 0]) 2 0 4)) 4 = Inr [0x10, 0, 0, 0]
   \<and> getlength (mkDWARFReader (MemReader [0x10, 0, 0, 0]) 2 0 4)
       = Inr (16, (mkDWARFReader (MemReader [0x10, 0, 0, 0]) 2 0 4)\<lparr>off := 4\<rparr>)
   \<and> readObj (io (mkDWARFReader (MemReader [0xf5, 0xff, 0xff, 0xff]) 2 0 4))
      (off (mkDWARFReader (MemReader [0xf5, 0xff, 0xff, 0xff]) 2 0 4)) 4 = Inr [0xf5, 0xff, 0xff, 0xff]
   \<and> getlength (mkDWARFReader (MemReader [0xf5, 0xff, 0xff, 0xff]) 2 0 4)
       = Inr (0, (mkDWARFReader (MemReader [0xf5, 0xff, 0xff, 0xff]) 2 0 4)\<lparr>off := 4\<rparr>)"
proof -
  have h1: "readObj (io (mkDWARFReader (MemReader [0x10, 0, 0, 0]) 2 0 4))
      (off (mkDWARFReader (MemReader [0x10, 0, 0, 0]) 2 0 4)) 4 = Inr [0x10, 0, 0, 0]"
    by (simp add: readObj_numeral mkDWARFReader_def MemReader_def)
  have h2: "readObj (io (mkDWARFReader (MemReader [0xf5, 0xff, 0xff, 0xff]) 2 0 4))
      (off (mkDWARFReader (MemReader [0xf5, 0xff, 0xff, 0xff]) 2 0 4)) 4 = Inr [0xf5, 0xff, 0xff, 0xff]"
    by (simp add: readObj_numeral mkDWARFReader_def MemReader_def)
  show ?thesis
    using h1 h2 getlength_initial_length[OF h1] getlength_initial_length[OF h2]
    by (simp add: u32_le_def mkDWARFReader_def)
qed

section \<open>Strings (claim C6)\<close>

lemma getstring_loop_returns:
  assumes "\<forall>i<length cs. io r (off r + of_nat i) = Some (cs ! i) \<and> cs ! i \<noteq> 0"
      and "io r (off r + of_nat (length cs)) = Some 0"
      and "len + length cs \<le> 2001"
  shows "getstring_loop r len s = Inr (s @ cs, r\<lparr>off := off r + of_nat (length cs) + 1\<rparr>)"
  using assms
proof (induction cs arbitrary: r len s)
  case Nil
  then show ?case by (subst getstring_loop.simps) simp
next
  case (Cons c cs)
  let ?r = "r\<lparr>off := off r + 1\<rparr>"
  from Cons.prems(1) have c: "io r (off r) = Some c" "c \<noteq> 0" by auto
  have 1: "\<forall>i<length cs. io ?r (off ?r + of_nat i) = Some (cs ! i) \<and> cs ! i \<noteq> 0"
  proof (intro allI impI)
    fix i assume "i < length cs"
    then have "io r (off r + of_nat (Suc i)) = Some ((c # cs) ! Suc i) \<and> (c # cs) ! Suc i \<noteq> 0"
      using Cons.prems(1) by (metis Suc_less_eq length_Cons)
    then show "io ?r (off ?r + of_nat i) = Some (cs ! i) \<and> cs ! i \<noteq> 0"
      by (simp add: ac_simps)
  qed
  have 2: "io ?r (off ?r + of_nat (length cs)) = Some 0"
    using Cons.prems(2) by (simp add: ac_simps)
  have 3: "(len + 1) + length cs \<le> 2001" using Cons.prems(3) by simp
  have "getstring_loop r len s = getstring_loop ?r (len + 1) (s @ [c])"
    using c Cons.prems(3) by (subst getstring_loop.simps) (simp add: Let_def)
  also have "\<dots> = Inr ((s @ [c]) @ cs, ?r\<lparr>off := off ?r + of_nat (length cs) + 1\<rparr>)"
    by (rule Cons.IH[OF 1 2 3])
  finally show ?case by (simp add: ac_simps)
qed

lemma getstring_loop_aborts:
  assumes "\<forall>i<k. \<exists>c. io r (off r + of_nat i) = Some c \<and> c \<noteq> 0"
      and "len + k = 2002" and "len \<le> 2001"
  shows "getstring_loop r len s = Inl Abort"
  using assms
proof (induction k arbitrary: r len s)
  case 0
  then show ?case by simp
next
  case (Suc k)
  let ?r = "r\<lparr>off := off r + 1\<rparr>"
  from Suc.prems(1) obtain c where c: "io r (off r) = Some c" "c \<noteq> 0" by force
  show ?case
  proof (cases "k = 0")
    case True
    then have "len > 2000" using Suc.prems(2) by simp
    then show ?thesis using c by (subst getstring_loop.simps) (simp add: Let_def)
  next
    case False
    then have l: "\<not> len > 2000" using Suc.prems(2) by simp
    have 1: "\<forall>i<k. \<exists>c. io ?r (off ?r + of_nat i) = Some c \<and> c \<noteq> 0"
    proof (intro allI impI)
      fix i assume "i < k"
      then have "\<exists>c. io r (off r + of_nat (Suc i)) = Some c \<and> c \<noteq> 0"
        using Suc.prems(1) by (metis Suc_less_eq)
      then show "\<exists>c. io ?r (off ?r + of_nat i) = Some c \<and> c \<noteq> 0"
        by (simp add: ac_simps)
    qed
    have "getstring_loop r len s = getstring_loop ?r (len + 1) (s @ [c])"
      using c l by (subst getstring_loop.simps) (simp add: Let_def)
    also have "\<dots> = Inl Abort"
      using Suc.prems(2) l by (intro Suc.IH[OF 1]) simp_all
    finally show ?thesis .
  qed
qed

text \<open>
  C6, as the claim states it, fails, in two ways.  A string of 2001 bytes \<open>a\<close>
  followed by NUL has no NUL within 2000 bytes, and \<open>getstring\<close> returns it.  When
  no NUL follows at all, \<open>getstring\<close> does not raise the exception that callers
  catch: it calls \<open>abort()\<close>.
\<close>

theorem getstring_limit_counterexample:
  "getstring (mkDWARFReader (\<lambda>a. if a < 2001 then Some 0x61 else if a = 2001 then Some 0 else None)
                2 0 4096)
     = Inr (replicate 2001 0x61,
            (mkDWARFReader (\<lambda>a. if a < 2001 then Some 0x61 else if a = 2001 then Some 0 else None)
                2 0 4096)\<lparr>off := 2002\<rparr>)
   \<and> getstring (mkDWARFReader (\<lambda>a. Some 0x61) 2 0 4096) = Inl Abort
   \<and> getstring (mkDWARFReader (\<lambda>a. Some 0x61) 2 0 4096) \<noteq> Inl Exception"
proof -
  let ?r = "mkDWARFReader (\<lambda>a. if a < 2001 then Some 0x61 else if a = 2001 then Some 0 else None)
              2 0 4096"
  have lt: "(of_nat i :: 64 word) < 2001" if "i < 2001" for i
    using that by (simp add: word_less_nat_alt unat_of_nat)
  have "getstring_loop ?r 0 []
          = Inr ([] @ replicate 2001 0x61,
                 ?r\<lparr>off := off ?r + of_nat (length (replicate 2001 (0x61::8 word))) + 1\<rparr>)"
    by (rule getstring_loop_returns) (simp_all add: mkDWARFReader_def lt)
  then have a: "getstring ?r = Inr (replicate 2001 0x61, ?r\<lparr>off := 2002\<rparr>)"
    by (simp add: getstring_def mkDWARFReader_def)
  have b: "getstring (mkDWARFReader (\<lambda>a. Some 0x61) 2 0 4096) = Inl Abort"
    unfolding getstring_def
    by (rule getstring_loop_aborts[of 2002]) (simp_all add: mkDWARFReader_def)
  show ?thesis using a b by simp
qed

text \<open>
  C6, amended.  A string of at most 2001 bytes, none of them NUL, followed by its NUL
  is returned in full, and the cursor is then one past the NUL.  When the first 2002
  bytes at the cursor can be read and none is NUL, \<open>getstring\<close> calls \<open>abort()\<close>:
  the process ends, and no exception reaches a caller.
\<close>

theorem getstring_limit:
  "(length cs \<le> 2001
      \<and> (\<forall>i<length cs. io r (off r + of_nat i) = Some (cs ! i) \<and> cs ! i \<noteq> 0)
      \<and> io r (off r + of_nat (length cs)) = Some 0
     \<longrightarrow> getstring r = Inr (cs, r\<lparr>off := off r + of_nat (length cs) + 1\<rparr>))
   \<and> ((\<forall>i<2002. \<exists>c. io r (off r + of_nat i) = Some c \<and> c \<noteq> 0)
     \<longrightarrow> getstring r = Inl Abort)"
  unfolding getstring_def
  using getstring_loop_returns[of cs r 0 "[]"] getstring_loop_aborts[of 2002 r 0 "[]"]
  by simp

text \<open>
  Witness for C6: the bytes \<open>61 62 00\<close> give the string \<open>ab\<close> and leave the cursor
  at 3; a reader that delivers \<open>62\<close> at every offset makes \<open>getstring\<close> abort.
\<close>

theorem getstring_limit_witness:
  "getstring (mkDWARFReader (MemReader [0x61, 0x62, 0]) 2 0 3)
       = Inr ([0x61, 0x62], (mkDWARFReader (MemReader [0x61, 0x62, 0]) 2 0 3)\<lparr>off := 3\<rparr>)
   \<and> getstring (mkDWARFReader (\<lambda>a. Some 0x62) 2 0 4096) = Inl Abort"
proof -
  let ?r = "mkDWARFReader (MemReader [0x61, 0x62, 0]) 2 0 3"
  let ?q = "mkDWARFReader (\<lambda>a. Some 0x62) 2 0 4096"
  have h1: "\<forall>i<length [0x61, 0x62 :: 8 word].
              io ?r (off ?r + of_nat i) = Some ([0x61, 0x62] ! i) \<and> [0x61, 0x62 :: 8 word] ! i \<noteq> 0"
    by (simp add: mkDWARFReader_def MemReader_def less_Suc_eq all_conj_distrib)
  have h2: "io ?r (off ?r + of_nat (length [0x61, 0x62 :: 8 word])) = Some 0"
    by (simp add: mkDWARFReader_def MemReader_def)
  have h3: "\<forall>i<2002. \<exists>c. io ?q (off ?q + of_nat i) = Some c \<and> c \<noteq> 0"
    by (simp add: mkDWARFReader_def)
  have "getstring ?r = Inr ([0x61, 0x62], ?r\<lparr>off := off ?r + of_nat (length [0x61, 0x62 :: 8 word]) + 1\<rparr>)"
    using getstring_limit[of "[0x61, 0x62]" ?r] h1 h2 by simp
  moreover have "getstring ?q = Inl Abort"
    using getstring_limit[of "[]" ?q] h3 by simp
  ultimately show ?thesis by (simp add: mkDWARFReader_def)
qed

section \<open>LEB128 (claim C8)\<close>

text \<open>
  C8: the code does not do what the claim says.  The standard encoding of
  \<open>2^31\<close>, unsigned or signed, is \<open>80 80 80 80 08\<close>.  \<open>getuleb128shift\<close> computes
  \<open>(byte & 0x7f) << *shift\<close> in \<open>int\<close>; for the fifth byte that is \<open>8 << 28\<close>, which
  is \<open>INT_MIN\<close>, and \<open>result |= \<dots>\<close> widens it with its sign.  Both decoders return
  \<open>0xffffffff80000000\<close>: not \<open>2^31\<close>, but \<open>2^64 - 2^31\<close> unsigned and \<open>- 2^31\<close>
  signed.
\<close>

theorem leb128_decode_2_31:
  "uleb128 (2 ^ 31) = [0x80, 0x80, 0x80, 0x80, 0x08]
   \<and> getuleb128 (mkDWARFReader (MemReader (uleb128 (2 ^ 31))) 2 0 5)
       = Inr (0xffffffff80000000, (mkDWARFReader (MemReader (uleb128 (2 ^ 31))) 2 0 5)\<lparr>off := 5\<rparr>)
   \<and> unat (0xffffffff80000000 :: 64 word) = 2 ^ 64 - 2 ^ 31
   \<and> sleb128 (2 ^ 31) = [0x80, 0x80, 0x80, 0x80, 0x08]
   \<and> getsleb128 (mkDWARFReader (MemReader (sleb128 (2 ^ 31))) 2 0 5)
       = Inr (0xffffffff80000000, (mkDWARFReader (MemReader (sleb128 (2 ^ 31))) 2 0 5)\<lparr>off := 5\<rparr>)
   \<and> sint (0xffffffff80000000 :: 64 word) = - (2 ^ 31)"
proof -
  have u: "uleb128 (2 ^ 31) = [0x80, 0x80, 0x80, 0x80, 0x08]"
    by (simp add: uleb128.simps)
  have s: "sleb128 (2 ^ 31) = [0x80, 0x80, 0x80, 0x80, 0x08]"
    by (simp add: sleb128.simps)
  have du: "getuleb128 (mkDWARFReader (MemReader [0x80, 0x80, 0x80, 0x80, 0x08]) 2 0 5)
       = Inr (0xffffffff80000000,
              (mkDWARFReader (MemReader [0x80, 0x80, 0x80, 0x80, 0x08]) 2 0 5)\<lparr>off := 5\<rparr>)"
    by (simp add: getuleb128_def getuleb128shift_def getuleb128shift_loop.simps
                  mkDWARFReader_def MemReader_def scast_eq)
  have ds: "getsleb128 (mkDWARFReader (MemReader [0x80, 0x80, 0x80, 0x80, 0x08]) 2 0 5)
       = Inr (0xffffffff80000000,
              (mkDWARFReader (MemReader [0x80, 0x80, 0x80, 0x80, 0x08]) 2 0 5)\<lparr>off := 5\<rparr>)"
    by (simp add: getsleb128_def getuleb128shift_def getuleb128shift_loop.simps
                  mkDWARFReader_def MemReader_def scast_eq)
  show ?thesis unfolding u s using du ds by simp
qed


section \<open>The line-number program (claims C4 and C5)\<close>

lemma ucast8_32_unat: "unat (ucast (b :: 8 word) :: 32 word) = unat b"
  using unsigned_less[of b, where 'a=nat]
  by (simp add: unsigned_ucast_eq take_bit_nat_eq_self_iff)

lemma scast_of_small:
  fixes w :: "32 word"
  assumes "unat w = n" and "n < 2 ^ 31"
  shows "(scast w :: 64 word) = of_nat n"
proof -
  have u: "uint w = int n" using assms(1) by (simp add: uint_nat)
  have "sint w = signed_take_bit 31 (uint w)" by (simp add: sint_uint)
  also have "\<dots> = uint w"
    using assms(2) u by (intro signed_take_bit_int_eq_self) simp_all
  finally have s: "sint w = int n" using u by simp
  have "(scast w :: 64 word) = word_of_int (sint w)" by (rule scast_eq)
  also have "\<dots> = of_nat n" unfolding s by simp
  finally show ?thesis .
qed

lemma scast8_32: "(scast (lb :: 8 word) :: 32 word) = word_of_int (sint lb)"
  by (rule scast_eq)

text \<open>
  The arithmetic of a special opcode, from the 32-bit operations of the code to the
  numbers of the claim: \<open>c\<close> is \<open>byte - opcode_base\<close>.
\<close>

lemma special_arith:
  fixes b ob lr mil lb :: "8 word"
  assumes le: "unat ob \<le> unat b" and nz: "lr \<noteq> 0"
  defines "c \<equiv> (ucast b :: 32 word) - ucast ob"
  shows "unat c = unat b - unat ob"
    and "(scast (c div ucast lr * ucast mil) :: 64 word)
           = of_nat ((unat b - unat ob) div unat lr * unat mil)"
    and "c mod ucast lr + scast lb
           = (word_of_int (sint lb + int ((unat b - unat ob) mod unat lr)) :: 32 word)"
proof -
  have bb: "unat b < 256" "unat ob < 256" "unat lr < 256" "unat mil < 256"
    using unsigned_less[of b, where 'a=nat] unsigned_less[of ob, where 'a=nat]
      unsigned_less[of lr, where 'a=nat] unsigned_less[of mil, where 'a=nat] by simp_all
  have cle: "(ucast ob :: 32 word) \<le> ucast b"
    by (simp add: word_le_nat_alt ucast8_32_unat le)
  show c: "unat c = unat b - unat ob"
    unfolding c_def using cle by (simp add: unat_sub ucast8_32_unat)
  have q: "unat (c div ucast lr) = (unat b - unat ob) div unat lr"
    by (simp add: unat_div c ucast8_32_unat)
  have "(unat b - unat ob) div unat lr \<le> unat b - unat ob" by (rule div_le_dividend)
  then have qb: "(unat b - unat ob) div unat lr < 256" using bb(1) by linarith
  have prod_lt: "(unat b - unat ob) div unat lr * unat mil < 65536"
  proof -
    have "(unat b - unat ob) div unat lr * unat mil < 256 * 256"
      using qb bb(4) by (intro mult_strict_mono) simp_all
    then show ?thesis by simp
  qed
  have p: "unat (c div ucast lr * ucast mil) = (unat b - unat ob) div unat lr * unat mil"
  proof -
    have "unat (c div ucast lr * ucast mil)
            = unat (c div ucast lr) * unat (ucast mil :: 32 word) mod 2 ^ 32"
      using unat_word_ariths(2)[of "c div ucast lr" "ucast mil :: 32 word"] by simp
    also have "\<dots> = (unat b - unat ob) div unat lr * unat mil mod 2 ^ 32"
      by (simp only: q ucast8_32_unat)
    also have "\<dots> = (unat b - unat ob) div unat lr * unat mil"
      using prod_lt by simp
    finally show ?thesis .
  qed
  show "(scast (c div ucast lr * ucast mil) :: 64 word)
           = of_nat ((unat b - unat ob) div unat lr * unat mil)"
    using p prod_lt by (intro scast_of_small) simp_all
  have m: "unat (c mod ucast lr) = (unat b - unat ob) mod unat lr"
    by (simp add: unat_mod c ucast8_32_unat)
  have "c mod ucast lr = of_nat (unat (c mod ucast lr))" by simp
  then have m': "c mod ucast lr = of_nat ((unat b - unat ob) mod unat lr)"
    unfolding m .
  show "c mod ucast lr + scast lb
           = (word_of_int (sint lb + int ((unat b - unat ob) mod unat lr)) :: 32 word)"
    unfolding m' scast8_32 by (simp add: add.commute)
qed

text \<open>
  C4, as the claim states it, fails: the file index does not keep its value.  The
  program \<open>04 02\<close> (\<open>set_file 2\<close>), \<open>00 01 01\<close> (\<open>end_sequence\<close>), run from the
  initial state, emits one row with file index 2 and ends in a state whose file index
  is 1 again.
\<close>

theorem end_sequence_file_counterexample:
  "build_loop scenario_header 5
       (mkDWARFReader (MemReader [0x04, 0x02, 0x00, 0x01, 0x01]) 2 0 5, reset scenario_header, [])
     = Some (Inr ((mkDWARFReader (MemReader [0x04, 0x02, 0x00, 0x01, 0x01]) 2 0 5)\<lparr>off := 5\<rparr>,
            \<lparr>addr = 0, file' = 1, line = 1, column = 0, is_stmt = True, basic_block = False,
              end_sequence = False\<rparr>,
            [\<lparr>addr = 0, file' = 2, line = 1, column = 0, is_stmt = True, basic_block = False,
              end_sequence = True\<rparr>]))"
  apply (subst build_loop.simps)
  apply (simp add: getOffset_def mkDWARFReader_def MemReader_def build_step_def getu8_def
       scenario_header_def standard_opcode_def reset_def
       DW_LNS_const_add_pc_def DW_LNS_advance_pc_def DW_LNS_fixed_advance_pc_def
       DW_LNS_advance_line_def DW_LNS_set_file_def
       getuleb128_def getuleb128shift_def getuleb128shift_loop.simps scast_eq)
  apply (subst build_loop.simps)
  apply (simp add: getOffset_def build_step_def getu8_def extended_opcode_def reset_def
       dwarfStateAddRow_def DW_LNE_end_sequence_def
       getuleb128_def getuleb128shift_def getuleb128shift_loop.simps scast_eq)
  apply (subst build_loop.simps)
  apply (simp add: getOffset_def)
  done

text \<open>
  C4, amended: executing an \<open>end_sequence\<close> opcode (the byte 0, a ULEB128 length,
  the sub-opcode \<open>DW_LNE_end_sequence\<close>) appends the current state with
  \<open>end_sequence\<close> set to the matrix and leaves the machine in the initial state in
  every field, the file index included: address 0, file index 1, line 1, column 0,
  \<open>is_stmt\<close> the lowest bit of \<open>default_is_stmt\<close>, \<open>basic_block\<close> and
  \<open>end_sequence\<close> cleared.
\<close>

theorem end_sequence_resets:
  assumes "io r (off r) = Some 0"
      and "opcode_base li \<noteq> 0"
      and "getuleb128 (r\<lparr>off := off r + 1\<rparr>) = Inr (len, r1)"
      and "getu8 r1 = Inr (DW_LNE_end_sequence, r2)"
  shows "build_step li (r, state, matrix)
           = Inr (r2, reset li, matrix @ [state\<lparr>end_sequence := True\<rparr>])
         \<and> reset li = \<lparr>addr = 0, file' = 1, line = 1, column = 0,
                        is_stmt = bit (default_is_stmt li) 0,
                        basic_block = False, end_sequence = False\<rparr>"
proof -
  have "\<not> (0 :: 32 word) \<ge> ucast (opcode_base li)"
    using assms(2) by (simp add: word_le_nat_alt ucast8_32_unat unat_eq_0)
  then show ?thesis
    using assms
    by (simp add: build_step_def getu8_def extended_opcode_def Let_def dwarfStateAddRow_def
                  reset_def)
qed

text \<open>
  Witness for C4: the bytes \<open>00 01 01\<close>, executed in a state whose file index is 2
  and whose line is 7, leave the initial state, file index 1.
\<close>

theorem end_sequence_resets_witness:
  "build_step scenario_header
       (mkDWARFReader (MemReader [0x00, 0x01, 0x01]) 2 0 3,
        \<lparr>addr = 0x401000, file' = 2, line = 7, column = 0, is_stmt = True, basic_block = False,
          end_sequence = False\<rparr>, [])
     = Inr ((mkDWARFReader (MemReader [0x00, 0x01, 0x01]) 2 0 3)\<lparr>off := 3\<rparr>,
            \<lparr>addr = 0, file' = 1, line = 1, column = 0, is_stmt = True, basic_block = False,
              end_sequence = False\<rparr>,
            [\<lparr>addr = 0x401000, file' = 2, line = 7, column = 0, is_stmt = True, basic_block = False,
              end_sequence = True\<rparr>])"
proof -
  let ?r = "mkDWARFReader (MemReader [0x00, 0x01, 0x01]) 2 0 3"
  have h1: "io ?r (off ?r) = Some 0"
    by (simp add: mkDWARFReader_def MemReader_def)
  have h2: "opcode_base scenario_header \<noteq> 0"
    by (simp add: scenario_header_def)
  have h3: "getuleb128 (?r\<lparr>off := off ?r + 1\<rparr>) = Inr (1, ?r\<lparr>off := 2\<rparr>)"
    by (simp add: getuleb128_def getuleb128shift_def getuleb128shift_loop.simps
                  mkDWARFReader_def MemReader_def scast_eq)
  have h4: "getu8 (?r\<lparr>off := 2\<rparr>) = Inr (DW_LNE_end_sequence, ?r\<lparr>off := 3\<rparr>)"
    by (simp add: getu8_def mkDWARFReader_def MemReader_def DW_LNE_end_sequence_def)
  show ?thesis
    using end_sequence_resets[OF h1 h2 h3 h4]
    by (simp add: scenario_header_def mkDWARFReader_def)
qed

text \<open>
  C5: when the byte \<open>b\<close> at the cursor is a special opcode (\<open>b \<ge> opcode_base\<close>)
  and \<open>line_range\<close> is not 0, one step of the line program advances the address by
  \<open>((b - opcode_base) / line_range) * min_insn_length\<close> and the line by
  \<open>line_base + (b - opcode_base) % line_range\<close>, appends the new state as one row to
  the matrix, and then clears \<open>basic_block\<close>.  The address is a 64-bit and the line a
  32-bit unsigned value, so both sums wrap.
\<close>

theorem special_opcode_advance:
  assumes rd: "io r (off r) = Some b"
      and ge: "unat (opcode_base li) \<le> unat b"
      and nz: "line_range li \<noteq> 0"
  shows "build_step li (r, state, matrix) =
           Inr (r\<lparr>off := off r + 1\<rparr>,
                state\<lparr>addr := addr state
                          + of_nat ((unat b - unat (opcode_base li)) div unat (line_range li)
                                     * unat (min_insn_length li)),
                      line := line state
                          + word_of_int (sint (line_base li)
                                     + int ((unat b - unat (opcode_base li)) mod unat (line_range li))),
                      basic_block := False\<rparr>,
                matrix @
                [state\<lparr>addr := addr state
                          + of_nat ((unat b - unat (opcode_base li)) div unat (line_range li)
                                     * unat (min_insn_length li)),
                       line := line state
                          + word_of_int (sint (line_base li)
                                     + int ((unat b - unat (opcode_base li)) mod unat (line_range li)))\<rparr>])"
proof -
  have cge: "(ucast b :: 32 word) \<ge> ucast (opcode_base li)"
    by (simp add: word_le_nat_alt ucast8_32_unat ge)
  note ar = special_arith(2)[OF ge nz] special_arith(3)[OF ge nz]
  show ?thesis
    using rd cge nz
    by (simp add: build_step_def getu8_def special_opcode_def Let_def dwarfStateAddRow_def ar)
qed

text \<open>The header of the scenario's line program, as \<open>build\<close> decodes it.\<close>

lemma scenario_line_program_at:
  "MemReader scenario_line_program a =
     (if unat a < 37 then
        Some ([33, 0, 0, 0, 2, 0, 26, 0, 0, 0,
               1, 1, 0xfd, 12, 13,
               0, 1, 1, 1, 1, 0, 0, 0, 1, 0, 0, 1,
               0,
               0x61, 0x2e, 0x63, 0, 0, 0, 0,
               0,
               0x4e] ! unat a)
      else None)"
  by (simp add: MemReader_def scenario_line_program_def)

lemma read_opcode_lengths_numeral:
  "read_opcode_lengths (numeral k) r =
     (case getu8 r of
        Inl e \<Rightarrow> Inl e
      | Inr (b, r1) \<Rightarrow>
          (case read_opcode_lengths (pred_numeral k) r1 of
             Inl e \<Rightarrow> Inl e
           | Inr (bs, r2) \<Rightarrow> Inr (b # bs, r2)))"
  by (simp add: numeral_eq_Suc)

lemmas rd_simps = bindE_def getlength_def getu32_def getu16_def getu8_def getuint_def le_value_def
  readObj_numeral mkDWARFReader_def getOffset_def skip_def empty_r_def Let_def

lemmas leb_simps = getuleb128_def getsleb128_def getuleb128shift_def
  getuleb128shift_loop.simps scast_eq

lemma scenario_prologue:
  "build_prologue 8 (mkDWARFReader (MemReader scenario_line_program) 2 0 37)
     = Inr (37, 36, scenario_header,
            \<lparr>off = 27, rend = 37, io = MemReader scenario_line_program, addrLen = 8,
              rversion = 2\<rparr>)"
  by (simp add: build_prologue_def rd_simps gets8_def scenario_line_program_at
                scenario_header_def read_opcode_lengths_numeral)

lemma scenario_directories:
  "read_directories
      \<lparr>off = 27, rend = 37, io = MemReader scenario_line_program, addrLen = 8, rversion = 2\<rparr>
      [bytes_of ''(compiler CWD)'']
     = Some (Inr ([bytes_of ''(compiler CWD)''],
           \<lparr>off = 28, rend = 37, io = MemReader scenario_line_program, addrLen = 8,
             rversion = 2\<rparr>))"
  apply (subst read_directories.simps)
  apply (simp add: getstring_def getstring_loop.simps scenario_line_program_at)
  done

lemma scenario_file:
  "DwarfFileEntry_init [bytes_of ''(compiler CWD)'']
      \<lparr>off = 28, rend = 37, io = MemReader scenario_line_program, addrLen = 8, rversion = 2\<rparr>
     = Inr (\<lparr>fe_name = [0x61, 0x2e, 0x63], fe_directory = bytes_of ''(compiler CWD)'',
              lastMod = 0, fe_length = 0\<rparr>,
           \<lparr>off = 35, rend = 37, io = MemReader scenario_line_program, addrLen = 8,
             rversion = 2\<rparr>)"
  by (simp add: DwarfFileEntry_init_def getstring_def getstring_loop.simps
                scenario_line_program_at leb_simps)

lemma scenario_files:
  "read_files [bytes_of ''(compiler CWD)'']
      \<lparr>off = 28, rend = 37, io = MemReader scenario_line_program, addrLen = 8, rversion = 2\<rparr>
      [\<lparr>fe_name = bytes_of ''unknown'', fe_directory = bytes_of ''unknown'',
         lastMod = 0, fe_length = 0\<rparr>]
     = Some (Inr ([\<lparr>fe_name = bytes_of ''unknown'', fe_directory = bytes_of ''unknown'',
                     lastMod = 0, fe_length = 0\<rparr>,
                   \<lparr>fe_name = [0x61, 0x2e, 0x63], fe_directory = bytes_of ''(compiler CWD)'',
                     lastMod = 0, fe_length = 0\<rparr>],
           \<lparr>off = 36, rend = 37, io = MemReader scenario_line_program, addrLen = 8,
             rversion = 2\<rparr>))"
  apply (subst read_files.simps)
  apply (simp add: getOffset_def scenario_line_program_at scenario_file)
  apply (subst read_files.simps)
  apply (simp add: getOffset_def scenario_line_program_at getu8_def)
  done

text \<open>
  Witness for C5, the spec's scenario: with \<open>min_insn_length = 1\<close>,
  \<open>line_base = -3\<close>, \<open>line_range = 12\<close>, \<open>opcode_base = 13\<close>, the byte \<open>4e\<close> takes
  the initial state (address 0, line 1) to address 5 and line 3; and \<open>build\<close>, on a
  whole line program with this header and this one opcode, gives a matrix of that one
  row.
\<close>

theorem special_opcode_advance_witness:
  "build_step scenario_header (mkDWARFReader (MemReader [0x4e]) 2 0 1, reset scenario_header, [])
     = Inr ((mkDWARFReader (MemReader [0x4e]) 2 0 1)\<lparr>off := 1\<rparr>,
            \<lparr>addr = 5, file' = 1, line = 3, column = 0, is_stmt = True, basic_block = False,
              end_sequence = False\<rparr>,
            [\<lparr>addr = 5, file' = 1, line = 3, column = 0, is_stmt = True, basic_block = False,
              end_sequence = False\<rparr>])
   \<and> build (mkDWARFReader (MemReader scenario_line_program) 2 0 37) 8
     = Some (Inr (\<lparr>li_header = scenario_header,
                    directories = [bytes_of ''(compiler CWD)''],
                    files = [\<lparr>fe_name = bytes_of ''unknown'', fe_directory = bytes_of ''unknown'',
                               lastMod = 0, fe_length = 0\<rparr>,
                             \<lparr>fe_name = [0x61, 0x2e, 0x63],
                               fe_directory = bytes_of ''(compiler CWD)'',
                               lastMod = 0, fe_length = 0\<rparr>],
                    matrix_of = [\<lparr>addr = 5, file' = 1, line = 3, column = 0, is_stmt = True,
                                   basic_block = False, end_sequence = False\<rparr>]\<rparr>,
                  \<lparr>off = 37, rend = 37, io = MemReader scenario_line_program, addrLen = 8,
                    rversion = 2\<rparr>))"
proof -
  let ?r = "mkDWARFReader (MemReader [0x4e]) 2 0 1"
  let ?q = "\<lparr>off = 36, rend = 37, io = MemReader scenario_line_program, addrLen = 8,
             rversion = 2\<rparr>"
  let ?row = "\<lparr>addr = 5, file' = 1, line = 3, column = 0, is_stmt = True, basic_block = False,
               end_sequence = False\<rparr>"
  have h2: "unat (opcode_base scenario_header) \<le> unat (0x4e :: 8 word)"
    by (simp add: scenario_header_def)
  have h3: "line_range scenario_header \<noteq> 0"
    by (simp add: scenario_header_def)
  have h1: "io ?r (off ?r) = Some 0x4e"
    by (simp add: mkDWARFReader_def MemReader_def)
  have step: "build_step scenario_header (?r, reset scenario_header, [])
                = Inr (?r\<lparr>off := 1\<rparr>, ?row, [?row])"
    using special_opcode_advance[OF h1 h2 h3, of "reset scenario_header" "[]"]
    by (simp add: scenario_header_def reset_def mkDWARFReader_def)
  have h1': "io ?q (off ?q) = Some 0x4e"
    by (simp add: scenario_line_program_at)
  have step': "build_step scenario_header (?q, reset scenario_header, [])
                = Inr (?q\<lparr>off := 37\<rparr>, ?row, [?row])"
    using special_opcode_advance[OF h1' h2 h3, of "reset scenario_header" "[]"]
    by (simp add: scenario_header_def reset_def)
  have loop: "build_loop scenario_header 37 (?q, reset scenario_header, [])
                = Some (Inr (?q\<lparr>off := 37\<rparr>, ?row, [?row]))"
    apply (subst build_loop.simps)
    apply (simp add: step' getOffset_def)
    apply (subst build_loop.simps)
    apply (simp add: getOffset_def)
    done
  have "build (mkDWARFReader (MemReader scenario_line_program) 2 0 37) 8
     = Some (Inr (\<lparr>li_header = scenario_header,
                    directories = [bytes_of ''(compiler CWD)''],
                    files = [\<lparr>fe_name = bytes_of ''unknown'', fe_directory = bytes_of ''unknown'',
                               lastMod = 0, fe_length = 0\<rparr>,
                             \<lparr>fe_name = [0x61, 0x2e, 0x63],
                               fe_directory = bytes_of ''(compiler CWD)'',
                               lastMod = 0, fe_length = 0\<rparr>],
                    matrix_of = [?row]\<rparr>, ?q\<lparr>off := 37\<rparr>))"
    by (simp add: build_def build_from_def scenario_prologue scenario_directories scenario_files
                  getOffset_def loop)
  then show ?thesis using step by simp
qed

section \<open>Call frame instructions (claim C7)\<close>

lemmas DW_CFA_defs = DW_CFA_advance_loc_def DW_CFA_offset_def DW_CFA_restore_def DW_CFA_nop_def
  DW_CFA_set_loc_def DW_CFA_advance_loc1_def DW_CFA_advance_loc2_def DW_CFA_advance_loc4_def
  DW_CFA_offset_extended_def DW_CFA_restore_extended_def DW_CFA_undefined_def
  DW_CFA_same_value_def DW_CFA_register_def DW_CFA_remember_state_def DW_CFA_restore_state_def
  DW_CFA_def_cfa_def DW_CFA_def_cfa_register_def DW_CFA_def_cfa_offset_def
  DW_CFA_def_cfa_expression_def DW_CFA_expression_def DW_CFA_def_cfa_sf_def
  DW_CFA_def_cfa_offset_sf_def DW_CFA_val_expression_def

text \<open>
  C7: the code does not do what the claim says.  \<open>DW_CFA_def_cfa_offset_sf\<close> reads
  its operand with \<open>getuleb128\<close>, not \<open>getsleb128\<close> (as \<open>DW_CFA_def_cfa_sf\<close> does,
  and as the comment at its declaration in dwarf.h says).  The instruction \<open>13 7f\<close>
  has the signed operand \<open>-1\<close>; with the data alignment \<open>-8\<close> the claim gives the
  CFA offset \<open>(-1) * (-8) = 8\<close>.  The code reads 127 and stores \<open>127 * (-8) = -1016\<close>.
  The CFA register stays as it was.
\<close>

theorem def_cfa_offset_sf_reads_unsigned:
  "getsleb128 (mkDWARFReader (MemReader [0x13, 0x7f]) 2 1 1)
     = Inr (- 1, (mkDWARFReader (MemReader [0x13, 0x7f]) 2 1 1)\<lparr>off := 2\<rparr>)
   \<and> (- 1 :: 64 word) * scast (dataAlign cie_x86_64) = 8
   \<and> execInsn cie_x86_64 dframe (mkDWARFReader (MemReader [0x13, 0x7f]) 2 0 2, frame, stack, a)
     = Inr ((mkDWARFReader (MemReader [0x13, 0x7f]) 2 0 2)\<lparr>off := 2\<rparr>,
            frame\<lparr>cfaValue := (cfaValue frame)\<lparr>rtype := OFFSET, u_offset := 0xfffffffffffffc08\<rparr>\<rparr>,
            stack, a)
   \<and> sint (0xfffffffffffffc08 :: 64 word) = - 1016"
  by (simp add: execInsn_def execInsn_low_def bindE_def getu8_def mkDWARFReader_def MemReader_def
        DW_CFA_defs getuleb128_def getsleb128_def getuleb128shift_def getuleb128shift_loop.simps
        scast_eq cie_x86_64_def)

text \<open>The same instruction through \<open>execInsns\<close>, from a fresh frame.\<close>

lemma execInsns_def_cfa_offset_sf:
  "execInsns mem cie_x86_64 (mkDWARFReader (MemReader [0x13, 0x7f]) 2 0 2) 2 0 0
     = Some (Inr ((DwarfCallFrame_init mem)
                    \<lparr>cfaValue := (cfaValue (DwarfCallFrame_init mem))
                                   \<lparr>rtype := OFFSET, u_offset := 0xfffffffffffffc08\<rparr>\<rparr>))"
  apply (simp add: execInsns_def Let_def)
  apply (subst execInsns_loop.simps)
  apply (simp add: empty_r_def execInsn_def execInsn_low_def bindE_def getu8_def mkDWARFReader_def
      MemReader_def DW_CFA_defs getuleb128_def getuleb128shift_def getuleb128shift_loop.simps
      scast_eq cie_x86_64_def)
  apply (subst execInsns_loop.simps)
  apply (simp add: empty_r_def)
  done

section \<open>The CIE of an entry (claim C3)\<close>




section \<open>The CFA (claim C10)\<close>

lemmas DW_OP_defs = DW_OP_deref_def DW_OP_const2s_def DW_OP_const4u_def DW_OP_const4s_def
  DW_OP_minus_def DW_OP_plus_def DW_OP_breg0_def DW_OP_breg31_def

text \<open>
  What holds of C10: a CFA rule of type \<open>OFFSET\<close> gives \<open>regs[cfaReg] + offset\<close>;
  every type other than \<open>OFFSET\<close> and \<open>EXPRESSION\<close> aborts, and so does the frame
  that the constructor makes.
\<close>

lemma getCFA_OFFSET:
  "rtype (cfaValue frame) = OFFSET \<Longrightarrow>
   getCFA d pio frame regs
     = Some (bindE (dwarfGetReg regs (cfaReg frame)) (\<lambda>v. Inr (v + u_offset (cfaValue frame))))"
  by (simp add: getCFA_def)

lemma getCFA_aborts:
  "rtype (cfaValue frame) \<noteq> OFFSET \<Longrightarrow> rtype (cfaValue frame) \<noteq> EXPRESSION \<Longrightarrow>
   getCFA d pio frame regs = Some (Inl Abort)"
  by (cases "rtype (cfaValue frame)") (simp_all add: getCFA_def)

lemma getCFA_initial_frame: "getCFA d pio (DwarfCallFrame_init mem) regs = Some (Inl Abort)"
  by (simp add: getCFA_def DwarfCallFrame_init_def)

lemma dwarfEvalExpr_breg7:
  "dwarfEvalExpr pio (mkDWARFReader (MemReader [0x77, 0x08]) 2 0 2) regs []
     = Some (Inr (regs 7 + 8, []))"
  unfolding dwarfEvalExpr_def
  apply (subst dwarfEvalExpr_loop.simps)
  apply (simp add: empty_r_def mkDWARFReader_def MemReader_def evalOp_def bindE_def getu8_def
      DW_OP_defs getsleb128_def getuleb128shift_def getuleb128shift_loop.simps scast_eq)
  apply (subst dwarfEvalExpr_loop.simps)
  apply (simp add: empty_r_def)
  done

lemma dwarfEvalExpr_two_constants:
  "dwarfEvalExpr pio
       (mkDWARFReader (MemReader [0x0c, 1, 0, 0, 0, 0x0c, 2, 0, 0, 0]) 2 0 10) regs []
     = Some (Inr (2, [1]))"
  unfolding dwarfEvalExpr_def
  apply (subst dwarfEvalExpr_loop.simps)
  apply (simp add: empty_r_def mkDWARFReader_def MemReader_def evalOp_def bindE_def getu8_def
      DW_OP_defs getu32_def readObj_numeral)
  apply (subst dwarfEvalExpr_loop.simps)
  apply (simp add: empty_r_def mkDWARFReader_def MemReader_def evalOp_def bindE_def getu8_def
      DW_OP_defs getu32_def readObj_numeral)
  apply (subst dwarfEvalExpr_loop.simps)
  apply (simp add: empty_r_def)
  done

text \<open>
  C10: the code does not do what the claim says for a CFA rule of type \<open>EXPRESSION\<close>.
  \<open>dwarfEvalExpr\<close> takes the result off the stack and returns it; \<open>getCFA\<close> drops
  that value and reads \<open>stack.top()\<close> afterwards.  For the CFA expression
  \<open>DW_OP_breg7 8\<close> (bytes \<open>77 08\<close>) the evaluated result is \<open>regs[7] + 8\<close>, the stack
  is then empty, and \<open>getCFA\<close> takes the top of an empty stack, which is undefined.
  For \<open>DW_OP_const4u 1, DW_OP_const4u 2\<close> the evaluated result is 2 and \<open>getCFA\<close>
  returns 1.
\<close>

theorem getCFA_expression_drops_result:
  "dwarfEvalExpr pio (mkDWARFReader (MemReader [0x77, 0x08]) 2 0 2) regs []
     = Some (Inr (regs 7 + 8, []))
   \<and> getCFA (no_sections (MemReader [0x77, 0x08])) pio
        (frame\<lparr>cfaValue := \<lparr>rtype = EXPRESSION, u_offset = 0, u_length = 2\<rparr>\<rparr>) regs
     = Some (Inl Undefined)
   \<and> dwarfEvalExpr pio
        (mkDWARFReader (MemReader [0x0c, 1, 0, 0, 0, 0x0c, 2, 0, 0, 0]) 2 0 10) regs []
     = Some (Inr (2, [1]))
   \<and> getCFA (no_sections (MemReader [0x0c, 1, 0, 0, 0, 0x0c, 2, 0, 0, 0])) pio
        (frame\<lparr>cfaValue := \<lparr>rtype = EXPRESSION, u_offset = 0, u_length = 10\<rparr>\<rparr>) regs
     = Some (Inr 1)"
  using dwarfEvalExpr_breg7[of pio regs] dwarfEvalExpr_two_constants[of pio regs]
  by (simp add: getCFA_def no_sections_def)


section \<open>One step of unwinding (claim C1)\<close>

text \<open>
  The loop over the registers, for a row in which one register \<open>ra\<close> has an
  \<open>OFFSET\<close> rule and the others are \<open>UNDEF\<close> or \<open>SAME\<close>: when the word at
  \<open>CFA + offset\<close> can be read, the architecture's registers are copied and \<open>ra\<close>
  receives that word; when it cannot, the exception of the read leaves the loop.
\<close>

lemma unwind_registers_simple:
  assumes others: "\<forall>i\<in>set is. dwarfIsArchReg arch i \<and> i \<noteq> ra
                      \<longrightarrow> rtype (registers frame i) = UNDEF \<or> rtype (registers frame i) = SAME"
      and ra: "rtype (registers frame ra) = OFFSET"
      and rd: "readAddr pio (cfa + u_offset (registers frame ra)) = Inr v"
  shows "unwind_registers arch d pio frame regs cfa is newRegs
           = Some (Inr (\<lambda>j. if j \<in> set is \<and> dwarfIsArchReg arch j
                               then (if j = ra then v else regs j) else newRegs j))"
  using others
proof (induction "is" arbitrary: newRegs)
  case Nil
  then show ?case by simp
next
  case (Cons i "is")
  have IH: "\<And>n. unwind_registers arch d pio frame regs cfa is n
           = Some (Inr (\<lambda>j. if j \<in> set is \<and> dwarfIsArchReg arch j
                               then (if j = ra then v else regs j) else n j))"
    using Cons.IH Cons.prems by simp
  show ?case
  proof (cases "dwarfIsArchReg arch i")
    case False
    then show ?thesis by (auto simp: IH intro!: ext)
  next
    case True
    show ?thesis
    proof (cases "i = ra")
      case True
      with \<open>dwarfIsArchReg arch i\<close> ra rd show ?thesis
        by (auto simp: IH unwind_register_def bindE_def dwarfSetReg_def Let_def intro!: ext)
    next
      case False
      with \<open>dwarfIsArchReg arch i\<close> Cons.prems
      have "rtype (registers frame i) = UNDEF \<or> rtype (registers frame i) = SAME" by simp
      then show ?thesis
        using \<open>dwarfIsArchReg arch i\<close> False
        by (auto simp: IH unwind_register_def dwarfSetReg_def Let_def intro!: ext)
    qed
  qed
qed

lemma unwind_registers_fails:
  assumes others: "\<forall>i\<in>set is. dwarfIsArchReg arch i \<and> i \<noteq> ra
                      \<longrightarrow> rtype (registers frame i) = UNDEF \<or> rtype (registers frame i) = SAME"
      and ra: "rtype (registers frame ra) = OFFSET" "ra \<in> set is" "dwarfIsArchReg arch ra"
      and rd: "readAddr pio (cfa + u_offset (registers frame ra)) = Inl e"
  shows "unwind_registers arch d pio frame regs cfa is newRegs = Some (Inl e)"
  using others ra(2)
proof (induction "is" arbitrary: newRegs)
  case Nil
  then show ?case by simp
next
  case (Cons i "is")
  show ?case
  proof (cases "i = ra")
    case True
    then show ?thesis using ra rd
      by (simp add: unwind_register_def bindE_def Let_def)
  next
    case False
    then have in': "ra \<in> set is" using Cons.prems(2) by simp
    have IH: "\<And>n. unwind_registers arch d pio frame regs cfa is n = Some (Inl e)"
      using Cons.IH Cons.prems(1) in' by simp
    show ?thesis
    proof (cases "dwarfIsArchReg arch i")
      case False
      then show ?thesis by (simp add: IH)
    next
      case True
      with False Cons.prems(1)
      have "rtype (registers frame i) = UNDEF \<or> rtype (registers frame i) = SAME" by simp
      then show ?thesis using True
        by (auto simp: IH unwind_register_def dwarfSetReg_def Let_def)
    qed
  qed
qed

lemma readAddr_scenario:
  "readAddr (memory_at 0x7fffe000 [0x00, 0x20, 0x40, 0, 0, 0, 0, 0]) 0x7fffe000 = Inr 0x402000"
  "readAddr (memory_at 0x7fffe000 [0x00, 0x20, 0x40, 0, 0, 0, 0, 0]) 0x7fffdff8 = Inl Exception"
  "readAddr (memory_at 0x7fffdff8 [0x00, 0x20, 0x40, 0, 0, 0, 0, 0]) 0x7fffdff8 = Inr 0x402000"
  by (simp_all add: readAddr_def readObj_numeral memory_at_def le_value_def)

text \<open>
  The row applied (\<open>dwarfUnwind\<close> from the computation of the CFA on), for a row
  whose CFA rule is the stack pointer plus 8, whose return address rule is
  \<open>offset(-8)\<close> and whose other rules are undef: the word at the stack pointer's
  address is the caller's PC, and a failed read of it ends the step.
\<close>

lemma applyFrame_row:
  assumes arch: "dwarfIsArchReg arch sp" "dwarfIsArchReg arch ra"
                "CFA_RESTORE_REGNO arch = Some sp" "sp < MAXREG" "ra < MAXREG" "sp \<noteq> ra"
      and cfa: "cfaReg frame = of_nat sp" "rtype (cfaValue frame) = OFFSET"
               "u_offset (cfaValue frame) = 8"
      and rule: "rtype (registers frame ra) = OFFSET" "u_offset (registers frame ra) = - 8"
      and others: "\<forall>i<MAXREG. i \<noteq> ra \<longrightarrow> rtype (registers frame i) = UNDEF"
  shows "readAddr pio (regs sp) = Inr x \<Longrightarrow>
         applyFrame arch d pio newRegs0 (of_nat ra) frame regs
           = Some (Inr (x, (\<lambda>j. if j < MAXREG \<and> dwarfIsArchReg arch j
                                  then (if j = ra then x else regs j) else newRegs0 j)
                           (sp := regs sp + 8)))"
    and "readAddr pio (regs sp) = Inl e \<Longrightarrow>
         applyFrame arch d pio newRegs0 (of_nat ra) frame regs = Some (Inl e)"
proof -
  have sp32: "sint (of_nat sp :: 32 word) = int sp" "sint (of_nat ra :: 32 word) = int ra"
    using arch(4,5) by (simp_all add: MAXREG_def signed_of_nat signed_take_bit_int_eq_self)
  have g: "getCFA d pio frame regs = Some (Inr (regs sp + 8))"
    using cfa arch(4) sp32 by (simp add: getCFA_def dwarfGetReg_def at_reg_def bindE_def MAXREG_def)
  have o: "\<forall>i\<in>set [0..<MAXREG]. dwarfIsArchReg arch i \<and> i \<noteq> ra
             \<longrightarrow> rtype (registers frame i) = UNDEF \<or> rtype (registers frame i) = SAME"
    using others by simp
  have spu: "rtype (registers frame sp) = UNDEF" using others arch(4,6) by simp
  {
    assume mem: "readAddr pio (regs sp) = Inr x"
    have rd: "readAddr pio ((regs sp + 8) + u_offset (registers frame ra)) = Inr x"
      using mem rule(2) by simp
    have u: "unwind_registers arch d pio frame regs (regs sp + 8) [0..<MAXREG] newRegs0
        = Some (Inr (\<lambda>j. if j \<in> set [0..<MAXREG] \<and> dwarfIsArchReg arch j
                                 then (if j = ra then x else regs j) else newRegs0 j))"
      by (rule unwind_registers_simple[OF o rule(1) rd])
    show "applyFrame arch d pio newRegs0 (of_nat ra) frame regs
           = Some (Inr (x, (\<lambda>j. if j < MAXREG \<and> dwarfIsArchReg arch j
                                  then (if j = ra then x else regs j) else newRegs0 j)
                           (sp := regs sp + 8)))"
      using arch spu sp32
      by (simp add: applyFrame_def g u[unfolded MAXREG_def] dwarfSetReg_def dwarfGetReg_def
                    at_reg_def bindE_def MAXREG_def)
  }
  {
    assume mem: "readAddr pio (regs sp) = Inl e"
    have rd: "readAddr pio ((regs sp + 8) + u_offset (registers frame ra)) = Inl e"
      using mem rule(2) by simp
    have r: "ra \<in> set [0..<MAXREG]" using arch(5) by simp
    have u: "unwind_registers arch d pio frame regs (regs sp + 8) [0..<MAXREG] newRegs0
               = Some (Inl e)"
      by (rule unwind_registers_fails[OF o rule(1) r arch(2) rd])
    show "applyFrame arch d pio newRegs0 (of_nat ra) frame regs = Some (Inl e)"
      by (simp add: applyFrame_def g u)
  }
qed

text \<open>
  The scenario's object: the FDE is found for the PC \<open>0x401234\<close>, and \<open>execInsns\<close>
  computes the scenario's row from the instructions.
\<close>

lemma scenario_cfi_at:
  "MemReader scenario_cfi a =
     (if unat a < 8 then Some ([0x0c, 0x07, 0x08, 0x90, 0x01, 0, 0, 0] ! unat a) else None)"
  by (simp add: MemReader_def scenario_cfi_def)

lemma scenario_default_row:
  "execInsns_loop scenario_cie (DwarfCallFrame_init zero_frame) 0
      (mkDWARFReader (MemReader scenario_cfi) 2 0 5, DwarfCallFrame_init zero_frame, [], 0)
     = Some (Inr scenario_row)"
  apply (subst execInsns_loop.simps)
  apply (simp add: empty_r_def execInsn_def execInsn_low_def bindE_def getu8_def mkDWARFReader_def
      scenario_cfi_at DW_CFA_defs leb_simps scenario_cie_def cie_x86_64_def)
  apply (subst execInsns_loop.simps)
  apply (simp add: empty_r_def execInsn_def execInsn_low_def bindE_def getu8_def
      scenario_cfi_at DW_CFA_defs leb_simps upd_register_def)
  apply (subst execInsns_loop.simps)
  apply (simp add: empty_r_def scenario_row_def DwarfCallFrame_init_def zero_frame_def MAXREG_def)
  apply (rule ext)
  apply simp
  done

lemma scenario_fde_row:
  "execInsns_loop scenario_cie scenario_row 0x401233
      (mkDWARFReader (MemReader scenario_cfi) 2 5 3, scenario_row, [], 0x401000)
     = Some (Inr scenario_row)"
  apply (subst execInsns_loop.simps)
  apply (simp add: empty_r_def execInsn_def execInsn_low_def bindE_def getu8_def mkDWARFReader_def
      scenario_cfi_at DW_CFA_defs)
  apply (subst execInsns_loop.simps)
  apply (simp add: empty_r_def execInsn_def execInsn_low_def bindE_def getu8_def
      scenario_cfi_at DW_CFA_defs)
  apply (subst execInsns_loop.simps)
  apply (simp add: empty_r_def execInsn_def execInsn_low_def bindE_def getu8_def
      scenario_cfi_at DW_CFA_defs)
  apply (subst execInsns_loop.simps)
  apply (simp add: empty_r_def)
  done

lemma scenario_execInsns:
  "execInsns zero_frame scenario_cie (mkDWARFReader (MemReader scenario_cfi) 2 5 3) 2
      0x401000 0x401233
     = Some (Inr scenario_row)"
  using scenario_default_row scenario_fde_row
  by (simp add: execInsns_def Let_def scenario_cie_def cie_x86_64_def mkDWARFReader_def)

lemma scenario_lookup: "lookupFDE scenario_dwarf 0x401234 = Some scenario_fde"
  by (simp add: lookupFDE_def scenario_dwarf_def no_sections_def findFDE_def scenario_fde_def)

lemma scenario_row_facts:
  "dwarfIsArchReg x86_64 7" "dwarfIsArchReg x86_64 16" "CFA_RESTORE_REGNO x86_64 = Some 7"
  "7 < MAXREG" "16 < MAXREG" "(7::nat) \<noteq> 16"
  "cfaReg scenario_row = of_nat 7" "rtype (cfaValue scenario_row) = OFFSET"
  "u_offset (cfaValue scenario_row) = 8"
  "rtype (registers scenario_row 16) = OFFSET" "u_offset (registers scenario_row 16) = - 8"
  "\<forall>i<MAXREG. i \<noteq> 16 \<longrightarrow> rtype (registers scenario_row i) = UNDEF"
  by (simp_all add: x86_64_def MAXREG_def scenario_row_def)

text \<open>
  C1, as the claim states it, fails.  In the scenario (PC \<open>0x401234\<close>, the row with
  return address rule \<open>offset(-8)\<close> and CFA rule \<open>rsp + 8\<close>, \<open>rsp\<close>, register 7,
  \<open>= 0x7fffdff8\<close>) with a memory that maps \<open>0x7fffe000\<close> to \<open>0x402000\<close> and nothing
  else, the CFA is \<open>0x7fffe000\<close> and the rule \<open>offset(-8)\<close> reads the word at
  \<open>CFA - 8 = 0x7fffdff8\<close>, not the word at \<open>0x7fffe000\<close>: the read throws, and
  \<open>dwarfUnwind\<close> returns no caller PC.
\<close>

theorem dwarfUnwind_scenario_counterexample:
  "readAddr (memory_at 0x7fffe000 [0x00, 0x20, 0x40, 0, 0, 0, 0, 0]) 0x7fffe000 = Inr 0x402000
   \<and> execInsns zero_frame scenario_cie (mkDWARFReader (MemReader scenario_cfi) 2 5 3) 2
        0x401000 0x401233
      = Some (Inr scenario_row)
   \<and> getCFA scenario_dwarf (memory_at 0x7fffe000 [0x00, 0x20, 0x40, 0, 0, 0, 0, 0])
        scenario_row ((\<lambda>i. 0)(7 := 0x7fffdff8))
      = Some (Inr 0x7fffe000)
   \<and> dwarfUnwind x86_64 zero_frame (\<lambda>i. 0)
        (scenario_process (memory_at 0x7fffe000 [0x00, 0x20, 0x40, 0, 0, 0, 0, 0]))
        ((\<lambda>i. 0)(7 := 0x7fffdff8)) 0x401234
      = Some (Inl Exception)"
proof -
  let ?pio = "memory_at 0x7fffe000 [0x00, 0x20, 0x40, 0, 0, 0, 0, 0]"
  let ?regs = "(\<lambda>i. 0)(7 := 0x7fffdff8) :: DwarfRegisters"
  have g: "getCFA scenario_dwarf ?pio scenario_row ?regs = Some (Inr 0x7fffe000)"
    by (simp add: getCFA_def scenario_row_def dwarfGetReg_def at_reg_def bindE_def MAXREG_def)
  have m: "readAddr ?pio (?regs 7) = Inl Exception"
    using readAddr_scenario(2) by simp
  have "applyFrame x86_64 scenario_dwarf ?pio (\<lambda>i. 0) (of_nat 16) scenario_row ?regs
          = Some (Inl Exception)"
    by (rule applyFrame_row(2)[where sp = 7 and regs = ?regs and pio = ?pio
          and e = Exception, OF scenario_row_facts m])
  then have "dwarfUnwind x86_64 zero_frame (\<lambda>i. 0) (scenario_process ?pio) ?regs 0x401234
               = Some (Inl Exception)"
    using scenario_lookup scenario_execInsns
    by (simp add: dwarfUnwind_def scenario_process_def Let_def scenario_dwarf_def no_sections_def
                  scenario_fde_def scenario_cie_def cie_x86_64_def)
  then show ?thesis using readAddr_scenario(1) scenario_execInsns g by simp
qed

text \<open>
  C1, amended: when the FDE found for the PC yields a frame row whose
  return-address-register rule is \<open>offset(-8)\<close>, whose CFA rule is the stack pointer
  plus 8 and whose other rules are undef, the stack pointer is \<open>s\<close>, and the process
  memory holds the word \<open>x\<close> at address \<open>s\<close> (which is \<open>CFA - 8\<close>), then
  \<open>dwarfUnwind\<close> returns the caller PC \<open>x\<close>; the caller's stack pointer is set to the
  CFA, \<open>s + 8\<close>; the return address register holds \<open>x\<close> and the architecture's other
  registers keep their values.  This holds for any architecture whose table has the
  two registers and names the stack pointer as \<open>CFA_RESTORE_REGNO\<close>.
\<close>

theorem dwarfUnwind_no_frame_pointer:
  assumes obj: "findObject p pc = (base, dwarf)"
      and fde: "lookupFDE dwarf (pc - base) = Some fde"
      and row: "execInsns mem (cie fde)
                  (mkDWARFReader (elf_io dwarf) (di_version dwarf) (fde_instructions fde)
                     (fde_end fde - fde_instructions fde))
                  (di_version dwarf) (iloc fde) (pc - base - 1) = Some (Inr frame)"
      and rar: "rar (cie fde) = of_nat ra"
      and arch: "dwarfIsArchReg arch sp" "dwarfIsArchReg arch ra"
                "CFA_RESTORE_REGNO arch = Some sp" "sp < MAXREG" "ra < MAXREG" "sp \<noteq> ra"
      and cfa: "cfaReg frame = of_nat sp" "rtype (cfaValue frame) = OFFSET"
               "u_offset (cfaValue frame) = 8"
      and rule: "rtype (registers frame ra) = OFFSET" "u_offset (registers frame ra) = - 8"
      and others: "\<forall>i<MAXREG. i \<noteq> ra \<longrightarrow> rtype (registers frame i) = UNDEF"
      and mem: "readAddr (proc_io p) (regs sp) = Inr x"
  shows "dwarfUnwind arch mem newRegs0 p regs pc
           = Some (Inr (x, (\<lambda>j. if j < MAXREG \<and> dwarfIsArchReg arch j
                                  then (if j = ra then x else regs j) else newRegs0 j)
                           (sp := regs sp + 8)))"
  using applyFrame_row(1)[where regs = regs and pio = "proc_io p" and sp = sp and x = x,
          OF arch cfa rule others mem]
  by (simp add: dwarfUnwind_def obj fde row rar Let_def)

text \<open>
  Witness for C1, the scenario with the memory where the code reads it: PC
  \<open>0x401234\<close>, \<open>rsp = 0x7fffdff8\<close>, memory maps \<open>0x7fffdff8\<close> to \<open>0x402000\<close>; the
  caller PC is \<open>0x402000\<close> and the caller's \<open>rsp\<close> is \<open>0x7fffe000\<close>.
\<close>

theorem dwarfUnwind_no_frame_pointer_witness:
  "dwarfUnwind x86_64 zero_frame (\<lambda>i. 0)
        (scenario_process (memory_at 0x7fffdff8 [0x00, 0x20, 0x40, 0, 0, 0, 0, 0]))
        ((\<lambda>i. 0)(7 := 0x7fffdff8)) 0x401234
      = Some (Inr (0x402000, (\<lambda>i. 0)(16 := 0x402000, 7 := 0x7fffe000)))"
proof -
  let ?pio = "memory_at 0x7fffdff8 [0x00, 0x20, 0x40, 0, 0, 0, 0, 0]"
  let ?regs = "(\<lambda>i. 0)(7 := 0x7fffdff8) :: DwarfRegisters"
  let ?p = "scenario_process ?pio"
  have obj: "findObject ?p 0x401234 = (0, scenario_dwarf)"
    by (simp add: scenario_process_def)
  have fde: "lookupFDE scenario_dwarf (0x401234 - 0) = Some scenario_fde"
    using scenario_lookup by simp
  have row: "execInsns zero_frame (cie scenario_fde)
                  (mkDWARFReader (elf_io scenario_dwarf) (di_version scenario_dwarf)
                     (fde_instructions scenario_fde)
                     (fde_end scenario_fde - fde_instructions scenario_fde))
                  (di_version scenario_dwarf) (iloc scenario_fde) (0x401234 - 0 - 1)
               = Some (Inr scenario_row)"
    using scenario_execInsns by (simp add: scenario_fde_def scenario_dwarf_def no_sections_def)
  have rar: "rar (cie scenario_fde) = of_nat 16"
    by (simp add: scenario_fde_def scenario_cie_def cie_x86_64_def)
  have m: "readAddr (proc_io ?p) (?regs 7) = Inr 0x402000"
    using readAddr_scenario(3) by (simp add: scenario_process_def)
  have "dwarfUnwind x86_64 zero_frame (\<lambda>i. 0) ?p ?regs 0x401234
           = Some (Inr (0x402000, (\<lambda>j. if j < MAXREG \<and> dwarfIsArchReg x86_64 j
                                  then (if j = 16 then 0x402000 else ?regs j) else 0)
                           (7 := ?regs 7 + 8)))"
    by (rule dwarfUnwind_no_frame_pointer[where sp = 7 and ra = 16 and regs = ?regs
          and x = "0x402000" and frame = scenario_row,
          OF obj fde row rar scenario_row_facts m])
  moreover have "(\<lambda>j. if j < MAXREG \<and> dwarfIsArchReg x86_64 j
                                  then (if j = 16 then 0x402000 else ?regs j) else 0)
                           (7 := ?regs 7 + 8) = (\<lambda>i. 0)(16 := 0x402000, 7 := 0x7fffe000)"
    by (rule ext) (simp add: x86_64_def MAXREG_def)
  ultimately show ?thesis by simp
qed

section \<open>The lazily built indexes (claim C9)\<close>

text \<open>
  The three loops.  On a section made of elements that the decoder decodes, the loop
  returns, with the elements added to the container in their order; a loop that
  returns has found the section so; a loop that throws has added the elements it
  decoded before, and does the same from any other container.
\<close>

lemma ranges_loop_decodes:
  "section_elements DwarfARangeSet_init r xs
     \<Longrightarrow> ranges_loop r acc = Some (Inr (acc @ map snd xs))"
proof (induction arbitrary: acc rule: section_elements.induct)
  case (section_end r)
  then show ?case by (subst ranges_loop.simps) simp
next
  case (section_next r x r' xs)
  show ?case
    by (subst ranges_loop.simps) (simp add: section_next.hyps section_next.IH)
qed

lemma pubnames_loop_decodes:
  "section_elements DwarfPubnameUnit_init r xs
     \<Longrightarrow> pubnames_loop r acc = Some (Inr (acc @ map snd xs))"
proof (induction arbitrary: acc rule: section_elements.induct)
  case (section_end r)
  then show ?case by (subst pubnames_loop.simps) simp
next
  case (section_next r x r' xs)
  show ?case
    by (subst pubnames_loop.simps) (simp add: section_next.hyps section_next.IH)
qed

lemma units_loop_decodes:
  "section_elements (DwarfUnit_init d) r xs
     \<Longrightarrow> units_loop d so r acc = Some (Inr (stored_units so xs acc))"
proof (induction arbitrary: acc rule: section_elements.induct)
  case (section_end r)
  then show ?case by (subst units_loop.simps) simp
next
  case (section_next r x r' xs)
  show ?case
    by (subst units_loop.simps) (simp add: section_next.hyps section_next.IH fun_upd_def)
qed

lemma ranges_loop_returns:
  assumes "ranges_loop r acc = Some y"
  shows "\<forall>acc'. y = Inr acc'
           \<longrightarrow> (\<exists>xs. section_elements DwarfARangeSet_init r xs \<and> acc' = acc @ map snd xs)"
proof (rule ranges_loop.raw_induct[OF _ assms, where P = "\<lambda>r acc y. \<forall>acc'. y = Inr acc'
           \<longrightarrow> (\<exists>xs. section_elements DwarfARangeSet_init r xs \<and> acc' = acc @ map snd xs)"],
       goal_cases)
  case (1 loop r acc y)
  show ?case
  proof (intro allI impI)
    fix acc' assume y: "y = Inr acc'"
    show "\<exists>xs. section_elements DwarfARangeSet_init r xs \<and> acc' = acc @ map snd xs"
    proof (cases "empty_r r")
      case True
      then show ?thesis using 1(2) y by (auto intro: section_elements.intros)
    next
      case False
      then obtain x r' where d: "DwarfARangeSet_init r = Some (Inr (x, r'))"
          and l: "loop r' (acc @ [x]) = Some (Inr acc')"
        using 1(2) y by (auto split: option.splits sum.splits)
      from 1(1)[OF l] obtain xs where "section_elements DwarfARangeSet_init r' xs"
          "acc' = (acc @ [x]) @ map snd xs" by blast
      then show ?thesis using False d
        by (intro exI[of _ "(getOffset r, x) # xs"]) (auto intro: section_elements.intros)
    qed
  qed
qed

lemma ranges_loop_throws:
  assumes "ranges_loop r acc = Some y"
  shows "\<forall>e acc'. y = Inl (e, acc')
           \<longrightarrow> (\<exists>xs. acc' = acc @ xs
                    \<and> (\<forall>acc2. ranges_loop r acc2 = Some (Inl (e, acc2 @ xs))))"
proof (rule ranges_loop.raw_induct[OF _ assms, where P = "\<lambda>r acc y. \<forall>e acc'. y = Inl (e, acc')
           \<longrightarrow> (\<exists>xs. acc' = acc @ xs
                    \<and> (\<forall>acc2. ranges_loop r acc2 = Some (Inl (e, acc2 @ xs))))"], goal_cases)
  case (1 loop r acc y)
  show ?case
  proof (intro allI impI)
    fix e acc' assume y: "y = Inl (e, acc')"
    have ne: "\<not> empty_r r" using 1(2) y by (auto split: if_splits)
    show "\<exists>xs. acc' = acc @ xs \<and> (\<forall>acc2. ranges_loop r acc2 = Some (Inl (e, acc2 @ xs)))"
    proof (cases "DwarfARangeSet_init r")
      case None
      then show ?thesis using 1(2) ne by simp
    next
      case (Some res)
      show ?thesis
      proof (cases res)
        case (Inl e')
        then have "e' = e" "acc' = acc" using 1(2) ne Some y by auto
        moreover have "\<forall>acc2. ranges_loop r acc2 = Some (Inl (e', acc2 @ []))"
          using ne Some Inl by (subst ranges_loop.simps) simp
        ultimately show ?thesis by (intro exI[of _ "[]"]) simp
      next
        case (Inr p)
        obtain x r' where p: "p = (x, r')" by (cases p)
        have l: "loop r' (acc @ [x]) = Some (Inl (e, acc'))"
          using 1(2) ne Some Inr p y by simp
        from 1(1)[OF l] obtain xs where xs: "acc' = (acc @ [x]) @ xs"
           "\<forall>acc2. ranges_loop r' acc2 = Some (Inl (e, acc2 @ xs))" by blast
        have "\<forall>acc2. ranges_loop r acc2 = Some (Inl (e, acc2 @ (x # xs)))"
          using ne Some Inr p xs(2) by (subst ranges_loop.simps) simp
        then show ?thesis using xs(1) by (intro exI[of _ "x # xs"]) simp
      qed
    qed
  qed
qed

lemma pubnames_loop_returns:
  assumes "pubnames_loop r acc = Some y"
  shows "\<forall>acc'. y = Inr acc'
           \<longrightarrow> (\<exists>xs. section_elements DwarfPubnameUnit_init r xs \<and> acc' = acc @ map snd xs)"
proof (rule pubnames_loop.raw_induct[OF _ assms, where P = "\<lambda>r acc y. \<forall>acc'. y = Inr acc'
           \<longrightarrow> (\<exists>xs. section_elements DwarfPubnameUnit_init r xs \<and> acc' = acc @ map snd xs)"],
       goal_cases)
  case (1 loop r acc y)
  show ?case
  proof (intro allI impI)
    fix acc' assume y: "y = Inr acc'"
    show "\<exists>xs. section_elements DwarfPubnameUnit_init r xs \<and> acc' = acc @ map snd xs"
    proof (cases "empty_r r")
      case True
      then show ?thesis using 1(2) y by (auto intro: section_elements.intros)
    next
      case False
      then obtain x r' where d: "DwarfPubnameUnit_init r = Some (Inr (x, r'))"
          and l: "loop r' (acc @ [x]) = Some (Inr acc')"
        using 1(2) y by (auto split: option.splits sum.splits)
      from 1(1)[OF l] obtain xs where "section_elements DwarfPubnameUnit_init r' xs"
          "acc' = (acc @ [x]) @ map snd xs" by blast
      then show ?thesis using False d
        by (intro exI[of _ "(getOffset r, x) # xs"]) (auto intro: section_elements.intros)
    qed
  qed
qed

lemma pubnames_loop_throws:
  assumes "pubnames_loop r acc = Some y"
  shows "\<forall>e acc'. y = Inl (e, acc')
           \<longrightarrow> (\<exists>xs. acc' = acc @ xs
                    \<and> (\<forall>acc2. pubnames_loop r acc2 = Some (Inl (e, acc2 @ xs))))"
proof (rule pubnames_loop.raw_induct[OF _ assms, where P = "\<lambda>r acc y. \<forall>e acc'. y = Inl (e, acc')
           \<longrightarrow> (\<exists>xs. acc' = acc @ xs
                    \<and> (\<forall>acc2. pubnames_loop r acc2 = Some (Inl (e, acc2 @ xs))))"], goal_cases)
  case (1 loop r acc y)
  show ?case
  proof (intro allI impI)
    fix e acc' assume y: "y = Inl (e, acc')"
    have ne: "\<not> empty_r r" using 1(2) y by (auto split: if_splits)
    show "\<exists>xs. acc' = acc @ xs \<and> (\<forall>acc2. pubnames_loop r acc2 = Some (Inl (e, acc2 @ xs)))"
    proof (cases "DwarfPubnameUnit_init r")
      case None
      then show ?thesis using 1(2) ne by simp
    next
      case (Some res)
      show ?thesis
      proof (cases res)
        case (Inl e')
        then have "e' = e" "acc' = acc" using 1(2) ne Some y by auto
        moreover have "\<forall>acc2. pubnames_loop r acc2 = Some (Inl (e', acc2 @ []))"
          using ne Some Inl by (subst pubnames_loop.simps) simp
        ultimately show ?thesis by (intro exI[of _ "[]"]) simp
      next
        case (Inr p)
        obtain x r' where p: "p = (x, r')" by (cases p)
        have l: "loop r' (acc @ [x]) = Some (Inl (e, acc'))"
          using 1(2) ne Some Inr p y by simp
        from 1(1)[OF l] obtain xs where xs: "acc' = (acc @ [x]) @ xs"
           "\<forall>acc2. pubnames_loop r' acc2 = Some (Inl (e, acc2 @ xs))" by blast
        have "\<forall>acc2. pubnames_loop r acc2 = Some (Inl (e, acc2 @ (x # xs)))"
          using ne Some Inr p xs(2) by (subst pubnames_loop.simps) simp
        then show ?thesis using xs(1) by (intro exI[of _ "x # xs"]) simp
      qed
    qed
  qed
qed

lemma units_loop_returns:
  assumes "units_loop d so r acc = Some y"
  shows "\<forall>acc'. y = Inr acc'
           \<longrightarrow> (\<exists>xs. section_elements (DwarfUnit_init d) r xs \<and> acc' = stored_units so xs acc)"
proof (rule units_loop.raw_induct[OF _ assms, where P = "\<lambda>d so r acc y. \<forall>acc'. y = Inr acc'
           \<longrightarrow> (\<exists>xs. section_elements (DwarfUnit_init d) r xs \<and> acc' = stored_units so xs acc)"],
       goal_cases)
  case (1 loop d so r acc y)
  show ?case
  proof (intro allI impI)
    fix acc' assume y: "y = Inr acc'"
    show "\<exists>xs. section_elements (DwarfUnit_init d) r xs \<and> acc' = stored_units so xs acc"
    proof (cases "empty_r r")
      case True
      then show ?thesis using 1(2) y by (auto intro: section_elements.intros)
    next
      case False
      then obtain x r' where u: "DwarfUnit_init d r = Some (Inr (x, r'))"
          and l: "loop d so r' (acc(getOffset r - so \<mapsto> x)) = Some (Inr acc')"
        using 1(2) y by (auto simp: Let_def split: option.splits sum.splits)
      from 1(1)[OF l] obtain xs where "section_elements (DwarfUnit_init d) r' xs"
          "acc' = stored_units so xs (acc(getOffset r - so \<mapsto> x))" by blast
      then show ?thesis using False u
        by (intro exI[of _ "(getOffset r, x) # xs"]) (auto intro: section_elements.intros)
    qed
  qed
qed

text \<open>The accessors, from the loops.\<close>

lemma ranges_decodes:
  assumes "arangesh d = Some sh"
      and "section_elements DwarfARangeSet_init (section_reader d sh) xs"
  shows "ranges d = Some (Inr (aranges d @ map snd xs,
                               d\<lparr>aranges := aranges d @ map snd xs, arangesh := None\<rparr>))"
  using assms(1) ranges_loop_decodes[OF assms(2)] by (simp add: ranges_def)

lemma pubnames_decodes:
  assumes "pubnamesh d = Some sh"
      and "section_elements DwarfPubnameUnit_init (section_reader d sh) xs"
  shows "pubnames d = Some (Inr (pubnameUnits d @ map snd xs,
                                 d\<lparr>pubnameUnits := pubnameUnits d @ map snd xs,
                                    pubnamesh := None\<rparr>))"
  using assms(1) pubnames_loop_decodes[OF assms(2)] by (simp add: pubnames_def)

lemma units_decodes:
  assumes "info d = Some sh"
      and "section_elements (DwarfUnit_init d) (section_reader d sh) xs"
  shows "units d = Some (Inr (stored_units (sh_offset sh) xs (unitsm d),
                              d\<lparr>unitsm := stored_units (sh_offset sh) xs (unitsm d),
                                 info := None\<rparr>))"
  using assms(1) units_loop_decodes[OF assms(2)] by (simp add: units_def)

lemma ranges_returns:
  assumes "ranges d = Some (Inr (rs, d2))"
  shows "rs = aranges d2" "arangesh d2 = None"
        "ranges (d2\<lparr>elf_io := rd\<rparr>) = Some (Inr (rs, d2\<lparr>elf_io := rd\<rparr>))"
        "arangesh d = Some sh
           \<Longrightarrow> \<exists>xs. section_elements DwarfARangeSet_init (section_reader d sh) xs
                  \<and> rs = aranges d @ map snd xs"
proof -
  have a: "rs = aranges d2 \<and> arangesh d2 = None"
    using assms by (auto simp: ranges_def split: option.splits sum.splits)
  then show "rs = aranges d2" "arangesh d2 = None"
    "ranges (d2\<lparr>elf_io := rd\<rparr>) = Some (Inr (rs, d2\<lparr>elf_io := rd\<rparr>))"
    by (simp_all add: ranges_def)
  assume sh: "arangesh d = Some sh"
  then have "ranges_loop (section_reader d sh) (aranges d) = Some (Inr rs)"
    using assms by (auto simp: ranges_def split: option.splits sum.splits)
  then show "\<exists>xs. section_elements DwarfARangeSet_init (section_reader d sh) xs
                  \<and> rs = aranges d @ map snd xs"
    using ranges_loop_returns by blast
qed

lemma ranges_throws:
  assumes "ranges d = Some (Inl (e, d2))"
  shows "arangesh d2 = arangesh d" "arangesh d \<noteq> None"
        "\<exists>xs. aranges d2 = aranges d @ xs
             \<and> ranges d2 = Some (Inl (e, d2\<lparr>aranges := aranges d2 @ xs\<rparr>))"
proof -
  from assms obtain sh where sh: "arangesh d = Some sh"
    by (auto simp: ranges_def split: option.splits)
  from assms sh obtain acc where l: "ranges_loop (section_reader d sh) (aranges d) = Some (Inl (e, acc))"
      and d2: "d2 = d\<lparr>aranges := acc\<rparr>"
    by (auto simp: ranges_def split: option.splits sum.splits)
  show "arangesh d2 = arangesh d" "arangesh d \<noteq> None" using sh d2 by simp_all
  from ranges_loop_throws[OF l] obtain xs where xs: "acc = aranges d @ xs"
      "\<forall>acc2. ranges_loop (section_reader d sh) acc2 = Some (Inl (e, acc2 @ xs))" by blast
  have "ranges d2 = Some (Inl (e, d2\<lparr>aranges := aranges d2 @ xs\<rparr>))"
    using sh d2 xs(2) by (simp add: ranges_def)
  then show "\<exists>xs. aranges d2 = aranges d @ xs
             \<and> ranges d2 = Some (Inl (e, d2\<lparr>aranges := aranges d2 @ xs\<rparr>))"
    using xs(1) d2 by auto
qed

lemma pubnames_returns:
  assumes "pubnames d = Some (Inr (ps, d3))"
  shows "ps = pubnameUnits d3" "pubnamesh d3 = None"
        "pubnames (d3\<lparr>elf_io := rd\<rparr>) = Some (Inr (ps, d3\<lparr>elf_io := rd\<rparr>))"
        "pubnamesh d = Some sh
           \<Longrightarrow> \<exists>xs. section_elements DwarfPubnameUnit_init (section_reader d sh) xs
                  \<and> ps = pubnameUnits d @ map snd xs"
proof -
  have a: "ps = pubnameUnits d3 \<and> pubnamesh d3 = None"
    using assms by (auto simp: pubnames_def split: option.splits sum.splits)
  then show "ps = pubnameUnits d3" "pubnamesh d3 = None"
    "pubnames (d3\<lparr>elf_io := rd\<rparr>) = Some (Inr (ps, d3\<lparr>elf_io := rd\<rparr>))"
    by (simp_all add: pubnames_def)
  assume sh: "pubnamesh d = Some sh"
  then have "pubnames_loop (section_reader d sh) (pubnameUnits d) = Some (Inr ps)"
    using assms by (auto simp: pubnames_def split: option.splits sum.splits)
  then show "\<exists>xs. section_elements DwarfPubnameUnit_init (section_reader d sh) xs
                  \<and> ps = pubnameUnits d @ map snd xs"
    using pubnames_loop_returns by blast
qed

lemma pubnames_throws:
  assumes "pubnames d = Some (Inl (e, d3))"
  shows "pubnamesh d3 = pubnamesh d" "pubnamesh d \<noteq> None"
        "\<exists>xs. pubnameUnits d3 = pubnameUnits d @ xs
             \<and> pubnames d3 = Some (Inl (e, d3\<lparr>pubnameUnits := pubnameUnits d3 @ xs\<rparr>))"
proof -
  from assms obtain sh where sh: "pubnamesh d = Some sh"
    by (auto simp: pubnames_def split: option.splits)
  from assms sh obtain acc
    where l: "pubnames_loop (section_reader d sh) (pubnameUnits d) = Some (Inl (e, acc))"
      and d3: "d3 = d\<lparr>pubnameUnits := acc\<rparr>"
    by (auto simp: pubnames_def split: option.splits sum.splits)
  show "pubnamesh d3 = pubnamesh d" "pubnamesh d \<noteq> None" using sh d3 by simp_all
  from pubnames_loop_throws[OF l] obtain xs where xs: "acc = pubnameUnits d @ xs"
      "\<forall>acc2. pubnames_loop (section_reader d sh) acc2 = Some (Inl (e, acc2 @ xs))" by blast
  have "pubnames d3 = Some (Inl (e, d3\<lparr>pubnameUnits := pubnameUnits d3 @ xs\<rparr>))"
    using sh d3 xs(2) by (simp add: pubnames_def)
  then show "\<exists>xs. pubnameUnits d3 = pubnameUnits d @ xs
             \<and> pubnames d3 = Some (Inl (e, d3\<lparr>pubnameUnits := pubnameUnits d3 @ xs\<rparr>))"
    using xs(1) d3 by auto
qed

lemma units_returns:
  assumes "units d = Some (Inr (us, d1))"
  shows "us = unitsm d1" "info d1 = None"
        "units (d1\<lparr>elf_io := rd\<rparr>) = Some (Inr (us, d1\<lparr>elf_io := rd\<rparr>))"
        "info d = Some sh
           \<Longrightarrow> \<exists>xs. section_elements (DwarfUnit_init d) (section_reader d sh) xs
                  \<and> us = stored_units (sh_offset sh) xs (unitsm d)"
proof -
  have a: "us = unitsm d1 \<and> info d1 = None"
    using assms by (auto simp: units_def split: option.splits sum.splits)
  then show "us = unitsm d1" "info d1 = None"
    "units (d1\<lparr>elf_io := rd\<rparr>) = Some (Inr (us, d1\<lparr>elf_io := rd\<rparr>))"
    by (simp_all add: units_def)
  assume sh: "info d = Some sh"
  then have "units_loop d (sh_offset sh) (section_reader d sh) (unitsm d) = Some (Inr us)"
    using assms by (auto simp: units_def split: option.splits sum.splits)
  then show "\<exists>xs. section_elements (DwarfUnit_init d) (section_reader d sh) xs
                  \<and> us = stored_units (sh_offset sh) xs (unitsm d)"
    using units_loop_returns by blast
qed

lemma units_throws:
  assumes "units d = Some (Inl (e, d1))"
  shows "info d1 = info d" "info d \<noteq> None"
  using assms by (auto simp: units_def split: option.splits sum.splits)

text \<open>
  C9, as the claim states it, fails.  The file is cut off inside the second range
  set.  The first call of \<open>ranges()\<close> decodes the first set, stores it, and throws on
  the second; \<open>arangesh\<close> is still set.  The second call parses the section again
  from its start: it stores the first set a second time, and throws again.
\<close>

lemma truncated_image_at:
  "MemReader truncated_image a =
     (if unat a < 54 then
        Some ([0x2c, 0, 0, 0, 2, 0, 0, 0, 0, 0, 8, 0, 0, 0, 0, 0,
               0x00, 0x10, 0x40, 0, 0, 0, 0, 0, 0x00, 0x01, 0, 0, 0, 0, 0, 0,
               0, 0, 0, 0, 0, 0, 0, 0, 0, 0, 0, 0, 0, 0, 0, 0,
               0x2c, 0, 0, 0, 2, 0] ! unat a)
      else None)"
  by (simp add: MemReader_def truncated_image_def)

lemma truncated_arange_tuples:
  "arange_tuples 8 48
       \<lparr>off = 16, rend = 96, io = MemReader truncated_image, addrLen = 8, rversion = 2\<rparr> []
     = Some (Inr ([(0x401000, 0x100)],
          \<lparr>off = 48, rend = 96, io = MemReader truncated_image, addrLen = 8, rversion = 2\<rparr>))"
  apply (subst arange_tuples.simps)
  apply (simp add: rd_simps truncated_image_at)
  apply (subst arange_tuples.simps)
  apply (simp add: rd_simps truncated_image_at)
  done

lemma truncated_first_set:
  "DwarfARangeSet_init (mkDWARFReader (MemReader truncated_image) 2 0 96)
     = Some (Inr (example_arange_set,
          \<lparr>off = 48, rend = 96, io = MemReader truncated_image, addrLen = 8, rversion = 2\<rparr>))"
proof -
  have "DwarfARangeSet_header (mkDWARFReader (MemReader truncated_image) 2 0 96)
     = Inr (0x2c, 2, 0, 8, 0, 48,
            \<lparr>off = 16, rend = 96, io = MemReader truncated_image, addrLen = 8, rversion = 2\<rparr>)"
    by (simp add: DwarfARangeSet_header_def rd_simps truncated_image_at)
  then show ?thesis
    by (simp add: DwarfARangeSet_init_def truncated_arange_tuples example_arange_set_def)
qed

lemma truncated_second_set:
  "DwarfARangeSet_init
       \<lparr>off = 48, rend = 96, io = MemReader truncated_image, addrLen = 8, rversion = 2\<rparr>
     = Some (Inl Exception)"
  by (simp add: DwarfARangeSet_init_def DwarfARangeSet_header_def rd_simps truncated_image_at)

lemma truncated_ranges_loop:
  "ranges_loop (mkDWARFReader (MemReader truncated_image) 2 0 96) acc
     = Some (Inl (Exception, acc @ [example_arange_set]))"
  apply (subst ranges_loop.simps)
  apply (simp add: truncated_first_set)
  apply (simp add: empty_r_def mkDWARFReader_def)
  apply (subst ranges_loop.simps)
  apply (simp add: empty_r_def truncated_second_set)
  done

lemma truncated_info_fields:
  "elf_io truncated_info = MemReader truncated_image" "di_version truncated_info = 2"
  "arangesh truncated_info = Some \<lparr>sh_offset = 0, sh_size = 96\<rparr>"
  "pubnamesh truncated_info = Some \<lparr>sh_offset = 96, sh_size = 24\<rparr>"
  "info truncated_info = Some \<lparr>sh_offset = 139, sh_size = 53\<rparr>"
  "aranges truncated_info = []" "pubnameUnits truncated_info = []"
  "unitsm truncated_info = Map.empty"
  by (simp_all add: truncated_info_def)

theorem ranges_parses_again_counterexample:
  "ranges truncated_info
     = Some (Inl (Exception, truncated_info\<lparr>aranges := [example_arange_set]\<rparr>))
   \<and> arangesh (truncated_info\<lparr>aranges := [example_arange_set]\<rparr>)
     = Some \<lparr>sh_offset = 0, sh_size = 96\<rparr>
   \<and> ranges (truncated_info\<lparr>aranges := [example_arange_set]\<rparr>)
     = Some (Inl (Exception,
                  truncated_info\<lparr>aranges := [example_arange_set, example_arange_set]\<rparr>))"
  by (simp add: ranges_def truncated_info_fields truncated_ranges_loop)

text \<open>
  C9, amended: each of \<open>units()\<close>, \<open>ranges()\<close> and \<open>pubnames()\<close> parses its section
  at most once, provided its first call returns.  For each accessor, in this order:

  \<^item> When the section header is set and the section is a sequence of elements that
    the decoder decodes one after the other up to the section's end, the call
    returns: it has built the index, which is the container from before the call
    with these elements added in their order (each unit under the offset of its
    start in the section), and the header is null.
  \<^item> A call that returns leaves the section header null and returns the container
    the \<open>DwarfInfo\<close> holds; when the header was set before, the section is such a
    sequence and the container is built from it as said.  Every later call returns
    the same container and leaves the \<open>DwarfInfo\<close> as it is, whatever the file then
    contains: nothing is read again.
  \<^item> A call that ends in an exception leaves the section header set; for
    \<open>ranges()\<close> and \<open>pubnames()\<close> the elements decoded before the exception stay in
    the container, and the next call decodes them again, adds them again, and throws
    again.
\<close>

theorem lazy_indexes_after_return:
  "(\<forall>sh xs. info d = Some sh
        \<and> section_elements (DwarfUnit_init d) (section_reader d sh) xs
      \<longrightarrow> units d = Some (Inr (stored_units (sh_offset sh) xs (unitsm d),
                               d\<lparr>unitsm := stored_units (sh_offset sh) xs (unitsm d),
                                  info := None\<rparr>)))
   \<and> (units d = Some (Inr (us, d1)) \<longrightarrow>
      us = unitsm d1 \<and> info d1 = None
      \<and> (\<forall>rd. units (d1\<lparr>elf_io := rd\<rparr>) = Some (Inr (us, d1\<lparr>elf_io := rd\<rparr>)))
      \<and> (\<forall>sh. info d = Some sh \<longrightarrow>
            (\<exists>xs. section_elements (DwarfUnit_init d) (section_reader d sh) xs
                  \<and> us = stored_units (sh_offset sh) xs (unitsm d))))
   \<and> (units d = Some (Inl (e1, d1')) \<longrightarrow> info d1' = info d \<and> info d \<noteq> None)
   \<and> (\<forall>sh xs. arangesh d = Some sh
        \<and> section_elements DwarfARangeSet_init (section_reader d sh) xs
      \<longrightarrow> ranges d = Some (Inr (aranges d @ map snd xs,
                                d\<lparr>aranges := aranges d @ map snd xs, arangesh := None\<rparr>)))
   \<and> (ranges d = Some (Inr (rs, d2)) \<longrightarrow>
      rs = aranges d2 \<and> arangesh d2 = None
      \<and> (\<forall>rd. ranges (d2\<lparr>elf_io := rd\<rparr>) = Some (Inr (rs, d2\<lparr>elf_io := rd\<rparr>)))
      \<and> (\<forall>sh. arangesh d = Some sh \<longrightarrow>
            (\<exists>xs. section_elements DwarfARangeSet_init (section_reader d sh) xs
                  \<and> rs = aranges d @ map snd xs)))
   \<and> (ranges d = Some (Inl (e2, d2')) \<longrightarrow>
      arangesh d2' = arangesh d \<and> arangesh d \<noteq> None
      \<and> (\<exists>xs. aranges d2' = aranges d @ xs
               \<and> ranges d2' = Some (Inl (e2, d2'\<lparr>aranges := aranges d2' @ xs\<rparr>))))
   \<and> (\<forall>sh xs. pubnamesh d = Some sh
        \<and> section_elements DwarfPubnameUnit_init (section_reader d sh) xs
      \<longrightarrow> pubnames d = Some (Inr (pubnameUnits d @ map snd xs,
                                  d\<lparr>pubnameUnits := pubnameUnits d @ map snd xs,
                                     pubnamesh := None\<rparr>)))
   \<and> (pubnames d = Some (Inr (ps, d3)) \<longrightarrow>
      ps = pubnameUnits d3 \<and> pubnamesh d3 = None
      \<and> (\<forall>rd. pubnames (d3\<lparr>elf_io := rd\<rparr>) = Some (Inr (ps, d3\<lparr>elf_io := rd\<rparr>)))
      \<and> (\<forall>sh. pubnamesh d = Some sh \<longrightarrow>
            (\<exists>xs. section_elements DwarfPubnameUnit_init (section_reader d sh) xs
                  \<and> ps = pubnameUnits d @ map snd xs)))
   \<and> (pubnames d = Some (Inl (e3, d3')) \<longrightarrow>
      pubnamesh d3' = pubnamesh d \<and> pubnamesh d \<noteq> None
      \<and> (\<exists>xs. pubnameUnits d3' = pubnameUnits d @ xs
               \<and> pubnames d3' = Some (Inl (e3, d3'\<lparr>pubnameUnits := pubnameUnits d3' @ xs\<rparr>))))"
proof (intro conjI impI allI)
  fix sh xs
  assume "info d = Some sh \<and> section_elements (DwarfUnit_init d) (section_reader d sh) xs"
  then show "units d = Some (Inr (stored_units (sh_offset sh) xs (unitsm d),
                               d\<lparr>unitsm := stored_units (sh_offset sh) xs (unitsm d),
                                  info := None\<rparr>))"
    using units_decodes by blast
next
  assume a: "units d = Some (Inr (us, d1))"
  show "us = unitsm d1" "info d1 = None" using units_returns(1,2)[OF a] .
  show "units (d1\<lparr>elf_io := rd\<rparr>) = Some (Inr (us, d1\<lparr>elf_io := rd\<rparr>))" for rd
    using units_returns(3)[OF a] .
  show "\<exists>xs. section_elements (DwarfUnit_init d) (section_reader d sh) xs
             \<and> us = stored_units (sh_offset sh) xs (unitsm d)" if "info d = Some sh" for sh
    using units_returns(4)[OF a that] .
next
  assume a: "units d = Some (Inl (e1, d1'))"
  show "info d1' = info d" "info d \<noteq> None" using units_throws[OF a] .
next
  fix sh xs
  assume "arangesh d = Some sh
            \<and> section_elements DwarfARangeSet_init (section_reader d sh) xs"
  then show "ranges d = Some (Inr (aranges d @ map snd xs,
                                d\<lparr>aranges := aranges d @ map snd xs, arangesh := None\<rparr>))"
    using ranges_decodes by blast
next
  assume a: "ranges d = Some (Inr (rs, d2))"
  show "rs = aranges d2" "arangesh d2 = None" using ranges_returns(1,2)[OF a] .
  show "ranges (d2\<lparr>elf_io := rd\<rparr>) = Some (Inr (rs, d2\<lparr>elf_io := rd\<rparr>))" for rd
    using ranges_returns(3)[OF a] .
  show "\<exists>xs. section_elements DwarfARangeSet_init (section_reader d sh) xs
             \<and> rs = aranges d @ map snd xs" if "arangesh d = Some sh" for sh
    using ranges_returns(4)[OF a that] .
next
  assume a: "ranges d = Some (Inl (e2, d2'))"
  show "arangesh d2' = arangesh d" "arangesh d \<noteq> None"
    "\<exists>xs. aranges d2' = aranges d @ xs
         \<and> ranges d2' = Some (Inl (e2, d2'\<lparr>aranges := aranges d2' @ xs\<rparr>))"
    using ranges_throws[OF a] .
next
  fix sh xs
  assume "pubnamesh d = Some sh
            \<and> section_elements DwarfPubnameUnit_init (section_reader d sh) xs"
  then show "pubnames d = Some (Inr (pubnameUnits d @ map snd xs,
                                  d\<lparr>pubnameUnits := pubnameUnits d @ map snd xs,
                                     pubnamesh := None\<rparr>))"
    using pubnames_decodes by blast
next
  assume a: "pubnames d = Some (Inr (ps, d3))"
  show "ps = pubnameUnits d3" "pubnamesh d3 = None" using pubnames_returns(1,2)[OF a] .
  show "pubnames (d3\<lparr>elf_io := rd\<rparr>) = Some (Inr (ps, d3\<lparr>elf_io := rd\<rparr>))" for rd
    using pubnames_returns(3)[OF a] .
  show "\<exists>xs. section_elements DwarfPubnameUnit_init (section_reader d sh) xs
             \<and> ps = pubnameUnits d @ map snd xs" if "pubnamesh d = Some sh" for sh
    using pubnames_returns(4)[OF a that] .
next
  assume a: "pubnames d = Some (Inl (e3, d3'))"
  show "pubnamesh d3' = pubnamesh d" "pubnamesh d \<noteq> None"
    "\<exists>xs. pubnameUnits d3' = pubnameUnits d @ xs
         \<and> pubnames d3' = Some (Inl (e3, d3'\<lparr>pubnameUnits := pubnameUnits d3' @ xs\<rparr>))"
    using pubnames_throws[OF a] .
qed

text \<open>The example image: its three sections, element by element.\<close>

lemma example_image_at:
  "MemReader example_image a =
     (if unat a < 181 then
        Some ([0x2c, 0, 0, 0, 2, 0, 0, 0, 0, 0, 8, 0, 0, 0, 0, 0,
               0x00, 0x10, 0x40, 0, 0, 0, 0, 0, 0x00, 0x01, 0, 0, 0, 0, 0, 0,
               0, 0, 0, 0, 0, 0, 0, 0, 0, 0, 0, 0, 0, 0, 0, 0,
               0x14, 0, 0, 0, 2, 0, 0, 0, 0, 0, 0, 1, 0, 0,
               0x2a, 0, 0, 0, 0x66, 0, 0, 0, 0, 0,
               1, 0x11, 1, 3, 8, 0x10, 6, 0, 0,
               2, 0x2e, 0, 3, 8, 0x11, 1, 0, 0,
               0,
               0x1c, 0, 0, 0, 2, 0, 0, 0, 0, 0, 8,
               1, 0x61, 0x2e, 0x63, 0, 0, 0, 0, 0,
               2, 0x66, 0, 0x00, 0x10, 0x40, 0, 0, 0, 0, 0,
               0,
               0x11, 0, 0, 0, 2, 0, 0, 0, 0, 0, 8,
               1, 0x62, 0x2e, 0x63, 0, 0, 0, 0, 0,
               0,
               33, 0, 0, 0, 2, 0, 26, 0, 0, 0,
               1, 1, 0xfd, 12, 13,
               0, 1, 1, 1, 1, 0, 0, 0, 1, 0, 0, 1,
               0,
               0x61, 0x2e, 0x63, 0, 0, 0, 0,
               0,
               0x4e] ! unat a)
      else None)"
  by (simp add: MemReader_def example_image_def)

lemma example_info_fields:
  "elf_io example_info = MemReader example_image" "di_version example_info = 2"
  "info example_info = Some \<lparr>sh_offset = 91, sh_size = 53\<rparr>"
  "abbrev example_info = Some \<lparr>sh_offset = 72, sh_size = 19\<rparr>"
  "lineshdr example_info = Some \<lparr>sh_offset = 144, sh_size = 37\<rparr>"
  "pubnamesh example_info = Some \<lparr>sh_offset = 48, sh_size = 24\<rparr>"
  "arangesh example_info = Some \<lparr>sh_offset = 0, sh_size = 48\<rparr>"
  "unitsm example_info = Map.empty" "aranges example_info = []"
  "pubnameUnits example_info = []"
  by (simp_all add: example_info_def)

lemma example_arange_header:
  "DwarfARangeSet_header (mkDWARFReader (MemReader example_image) 2 0 48)
     = Inr (0x2c, 2, 0, 8, 0, 48,
            \<lparr>off = 16, rend = 48, io = MemReader example_image, addrLen = 8, rversion = 2\<rparr>)"
  by (simp add: DwarfARangeSet_header_def rd_simps example_image_at)

lemma example_arange_tuples:
  "arange_tuples 8 48
       \<lparr>off = 16, rend = 48, io = MemReader example_image, addrLen = 8, rversion = 2\<rparr> []
     = Some (Inr ([(0x401000, 0x100)],
          \<lparr>off = 48, rend = 48, io = MemReader example_image, addrLen = 8, rversion = 2\<rparr>))"
  apply (subst arange_tuples.simps)
  apply (simp add: rd_simps example_image_at)
  apply (subst arange_tuples.simps)
  apply (simp add: rd_simps example_image_at)
  done

lemma example_arange_set_init:
  "DwarfARangeSet_init (mkDWARFReader (MemReader example_image) 2 0 48)
     = Some (Inr (example_arange_set,
          \<lparr>off = 48, rend = 48, io = MemReader example_image, addrLen = 8, rversion = 2\<rparr>))"
  by (simp add: DwarfARangeSet_init_def example_arange_header example_arange_tuples
                example_arange_set_def)

lemma example_range_sets:
  "section_elements DwarfARangeSet_init (mkDWARFReader (MemReader example_image) 2 0 48)
     [(0, example_arange_set)]"
proof -
  let ?r = "mkDWARFReader (MemReader example_image) 2 0 48"
  let ?r' = "\<lparr>off = 48, rend = 48, io = MemReader example_image, addrLen = 8, rversion = 2\<rparr>"
  have "section_elements DwarfARangeSet_init ?r' []"
    by (rule section_end) (simp add: empty_r_def)
  then have "section_elements DwarfARangeSet_init ?r [(getOffset ?r, example_arange_set)]"
    using example_arange_set_init
    by (intro section_next[where r = ?r and r' = ?r']) (simp_all add: empty_r_def mkDWARFReader_def)
  then show ?thesis by (simp add: getOffset_def mkDWARFReader_def)
qed

lemma example_pubname_header:
  "DwarfPubnameUnit_header (mkDWARFReader (MemReader example_image) 2 48 24)
     = Inr (0x14, 2, 0, 0x100, 72,
            \<lparr>off = 62, rend = 72, io = MemReader example_image, addrLen = 8, rversion = 2\<rparr>)"
  by (simp add: DwarfPubnameUnit_header_def rd_simps example_image_at)

lemma example_getstring:
  "getstring \<lparr>off = 66, rend = 72, io = MemReader example_image, addrLen = 8, rversion = 2\<rparr>
     = Inr ([0x66],
            \<lparr>off = 68, rend = 72, io = MemReader example_image, addrLen = 8, rversion = 2\<rparr>)"
  by (simp add: getstring_def getstring_loop.simps example_image_at)

lemma example_pubname_entries:
  "pubname_entries 72
       \<lparr>off = 62, rend = 72, io = MemReader example_image, addrLen = 8, rversion = 2\<rparr> []
     = Some (Inr ([(0x2a, [0x66])],
          \<lparr>off = 72, rend = 72, io = MemReader example_image, addrLen = 8, rversion = 2\<rparr>))"
  apply (subst pubname_entries.simps)
  apply (simp add: rd_simps example_image_at example_getstring)
  apply (subst pubname_entries.simps)
  apply (simp add: rd_simps example_image_at)
  done

lemma example_pubname_unit_init:
  "DwarfPubnameUnit_init (mkDWARFReader (MemReader example_image) 2 48 24)
     = Some (Inr (example_pubname_unit,
          \<lparr>off = 72, rend = 72, io = MemReader example_image, addrLen = 8, rversion = 2\<rparr>))"
  by (simp add: DwarfPubnameUnit_init_def example_pubname_header example_pubname_entries
                example_pubname_unit_def)

lemma example_name_units:
  "section_elements DwarfPubnameUnit_init (mkDWARFReader (MemReader example_image) 2 48 24)
     [(48, example_pubname_unit)]"
proof -
  let ?r = "mkDWARFReader (MemReader example_image) 2 48 24"
  let ?r' = "\<lparr>off = 72, rend = 72, io = MemReader example_image, addrLen = 8, rversion = 2\<rparr>"
  have "section_elements DwarfPubnameUnit_init ?r' []"
    by (rule section_end) (simp add: empty_r_def)
  then have "section_elements DwarfPubnameUnit_init ?r [(getOffset ?r, example_pubname_unit)]"
    using example_pubname_unit_init
    by (intro section_next[where r = ?r and r' = ?r']) (simp_all add: empty_r_def mkDWARFReader_def)
  then show ?thesis by (simp add: getOffset_def mkDWARFReader_def)
qed

text \<open>The abbreviation table of the image.\<close>

lemma example_specs_1:
  "abbreviation_specs
       \<lparr>off = 75, rend = 91, io = MemReader example_image, addrLen = 8, rversion = 2\<rparr> []
     = Some (Inr (ab_specs example_abbreviation_1,
          \<lparr>off = 81, rend = 91, io = MemReader example_image, addrLen = 8, rversion = 2\<rparr>))"
  apply (subst abbreviation_specs.simps)
  apply (simp add: leb_simps example_image_at)
  apply (subst abbreviation_specs.simps)
  apply (simp add: leb_simps example_image_at)
  apply (subst abbreviation_specs.simps)
  apply (simp add: leb_simps example_image_at example_abbreviation_1_def)
  done

lemma example_specs_2:
  "abbreviation_specs
       \<lparr>off = 84, rend = 91, io = MemReader example_image, addrLen = 8, rversion = 2\<rparr> []
     = Some (Inr (ab_specs example_abbreviation_2,
          \<lparr>off = 90, rend = 91, io = MemReader example_image, addrLen = 8, rversion = 2\<rparr>))"
  apply (subst abbreviation_specs.simps)
  apply (simp add: leb_simps example_image_at)
  apply (subst abbreviation_specs.simps)
  apply (simp add: leb_simps example_image_at)
  apply (subst abbreviation_specs.simps)
  apply (simp add: leb_simps example_image_at example_abbreviation_2_def)
  done

lemma example_abbreviations:
  "abbreviations_loop (mkDWARFReader (MemReader example_image) 2 72 19) Map.empty
     = Some (Inr ([1 \<mapsto> example_abbreviation_1, 2 \<mapsto> example_abbreviation_2],
          \<lparr>off = 91, rend = 91, io = MemReader example_image, addrLen = 8, rversion = 2\<rparr>))"
  apply (subst abbreviations_loop.simps)
  apply (simp add: leb_simps example_image_at mkDWARFReader_def DwarfAbbreviation_init_def
                   getu8_def example_specs_1)
  apply (subst abbreviations_loop.simps)
  apply (simp add: leb_simps example_image_at mkDWARFReader_def DwarfAbbreviation_init_def
                   getu8_def example_specs_2)
  apply (subst abbreviations_loop.simps)
  apply (simp add: leb_simps example_image_at example_abbreviation_1_def
                   example_abbreviation_2_def)
  done

lemmas DW_FORM_defs = DW_FORM_addr_def DW_FORM_block2_def DW_FORM_block4_def DW_FORM_data2_def
  DW_FORM_data4_def DW_FORM_data8_def DW_FORM_string_def DW_FORM_block_def DW_FORM_block1_def
  DW_FORM_data1_def DW_FORM_flag_def DW_FORM_sdata_def DW_FORM_strp_def DW_FORM_udata_def
  DW_FORM_ref_addr_def DW_FORM_ref2_def DW_FORM_ref4_def DW_FORM_ref8_def

text \<open>The line table of the image, which both compile units have at offset 0.\<close>

lemma example_prologue:
  "build_prologue 8 (mkDWARFReader (MemReader example_image) 2 144 37)
     = Inr (181, 180, scenario_header,
            \<lparr>off = 171, rend = 181, io = MemReader example_image, addrLen = 8, rversion = 2\<rparr>)"
  by (simp add: build_prologue_def rd_simps gets8_def example_image_at
                scenario_header_def read_opcode_lengths_numeral)

lemma example_directories:
  "read_directories
      \<lparr>off = 171, rend = 181, io = MemReader example_image, addrLen = 8, rversion = 2\<rparr>
      [bytes_of ''(compiler CWD)'']
     = Some (Inr ([bytes_of ''(compiler CWD)''],
           \<lparr>off = 172, rend = 181, io = MemReader example_image, addrLen = 8, rversion = 2\<rparr>))"
  apply (subst read_directories.simps)
  apply (simp add: getstring_def getstring_loop.simps example_image_at)
  done

lemma example_file:
  "DwarfFileEntry_init [bytes_of ''(compiler CWD)'']
      \<lparr>off = 172, rend = 181, io = MemReader example_image, addrLen = 8, rversion = 2\<rparr>
     = Inr (\<lparr>fe_name = [0x61, 0x2e, 0x63], fe_directory = bytes_of ''(compiler CWD)'',
              lastMod = 0, fe_length = 0\<rparr>,
           \<lparr>off = 179, rend = 181, io = MemReader example_image, addrLen = 8, rversion = 2\<rparr>)"
  by (simp add: DwarfFileEntry_init_def getstring_def getstring_loop.simps
                example_image_at leb_simps)

lemma example_files:
  "read_files [bytes_of ''(compiler CWD)'']
      \<lparr>off = 172, rend = 181, io = MemReader example_image, addrLen = 8, rversion = 2\<rparr>
      [\<lparr>fe_name = bytes_of ''unknown'', fe_directory = bytes_of ''unknown'',
         lastMod = 0, fe_length = 0\<rparr>]
     = Some (Inr (files example_lines,
           \<lparr>off = 180, rend = 181, io = MemReader example_image, addrLen = 8, rversion = 2\<rparr>))"
  apply (subst read_files.simps)
  apply (simp add: getOffset_def example_image_at example_file)
  apply (subst read_files.simps)
  apply (simp add: getOffset_def example_image_at getu8_def example_lines_def)
  done

lemma example_opcode:
  "build_step scenario_header
      (\<lparr>off = 180, rend = 181, io = MemReader example_image, addrLen = 8, rversion = 2\<rparr>,
       reset scenario_header, [])
     = Inr (\<lparr>off = 181, rend = 181, io = MemReader example_image, addrLen = 8, rversion = 2\<rparr>,
            \<lparr>addr = 5, file' = 1, line = 3, column = 0, is_stmt = True, basic_block = False,
              end_sequence = False\<rparr>,
            matrix_of example_lines)"
proof -
  have a: "(scast ((ucast (0x4e :: 8 word) - ucast (13 :: 8 word) :: 32 word)
                     div ucast (12 :: 8 word) * ucast (1 :: 8 word)) :: 64 word) = 5"
    using special_arith(2)[of 13 "0x4e" 12 1] by simp
  have b: "(ucast (0x4e :: 8 word) - ucast (13 :: 8 word) :: 32 word) mod ucast (12 :: 8 word)
             + scast (0xfd :: 8 word) = 2"
    using special_arith(3)[of 13 "0x4e" 12 "0xfd"] by simp
  show ?thesis
    by (simp add: build_step_def getu8_def example_image_at special_opcode_def Let_def
                  dwarfStateAddRow_def scenario_header_def reset_def example_lines_def a b)
qed

lemma example_build:
  "build_from [] [] [] (mkDWARFReader (MemReader example_image) 2 144 37) 8
     = Some (Inr (example_lines,
           \<lparr>off = 181, rend = 181, io = MemReader example_image, addrLen = 8, rversion = 2\<rparr>))"
proof -
  have loop: "build_loop scenario_header 181
       (\<lparr>off = 180, rend = 181, io = MemReader example_image, addrLen = 8, rversion = 2\<rparr>,
        reset scenario_header, [])
     = Some (Inr (\<lparr>off = 181, rend = 181, io = MemReader example_image, addrLen = 8,
                    rversion = 2\<rparr>,
                  \<lparr>addr = 5, file' = 1, line = 3, column = 0, is_stmt = True,
                    basic_block = False, end_sequence = False\<rparr>,
                  matrix_of example_lines))"
    apply (subst build_loop.simps)
    apply (simp add: example_opcode getOffset_def)
    apply (subst build_loop.simps)
    apply (simp add: getOffset_def)
    done
  show ?thesis
    by (simp add: build_from_def example_prologue example_directories example_files
                  getOffset_def loop)
       (simp add: example_lines_def)
qed

text \<open>The first unit: the compile unit \<open>a.c\<close> and its child \<open>f\<close>.\<close>

lemma example_header_1:
  "DwarfUnit_header example_info (mkDWARFReader (MemReader example_image) 2 91 53)
     = Inr (0x1c, 123, 2, mkDWARFReader (MemReader example_image) 2 72 19, 8,
            \<lparr>off = 102, rend = 144, io = MemReader example_image, addrLen = 8, rversion = 2\<rparr>)"
  by (simp add: DwarfUnit_header_def rd_simps example_image_at example_info_fields)

lemma example_entry_f:
  "DwarfEntry_init example_info
       \<lparr>off = 112, rend = 123, io = MemReader example_image, addrLen = 8, rversion = 2\<rparr> 2
       (example_unit_0 l ls)
     = Some (Inr (example_abbreviation_2,
          [3 \<mapsto> \<lparr>at_spec = \<lparr>as_name = 3, as_form = 8\<rparr>, at_value = V_string [0x66]\<rparr>,
           0x11 \<mapsto> \<lparr>at_spec = \<lparr>as_name = 0x11, as_form = 1\<rparr>, at_value = V_addr 0x401000\<rparr>],
          \<lparr>off = 122, rend = 123, io = MemReader example_image, addrLen = 8, rversion = 2\<rparr>,
          example_unit_0 l ls))"
  by (simp add: DwarfEntry_init_def example_unit_0_def example_abbreviation_2_def
                DwarfAttribute_init_def DW_FORM_defs DW_TAG_compile_unit_def rd_simps
                getstring_def getstring_loop.simps example_image_at)

lemma example_attributes_a:
  "DwarfEntry_attributes example_info (example_unit_0 l None)
       (ab_specs example_abbreviation_1)
       \<lparr>off = 103, rend = 123, io = MemReader example_image, addrLen = 8, rversion = 2\<rparr>
       Map.empty
     = Inr ([3 \<mapsto> \<lparr>at_spec = \<lparr>as_name = 3, as_form = 8\<rparr>,
                     at_value = V_string [0x61, 0x2e, 0x63]\<rparr>,
             0x10 \<mapsto> \<lparr>at_spec = \<lparr>as_name = 0x10, as_form = 6\<rparr>, at_value = V_data4 0\<rparr>],
            \<lparr>off = 111, rend = 123, io = MemReader example_image, addrLen = 8, rversion = 2\<rparr>)"
  by (simp add: example_abbreviation_1_def DwarfAttribute_init_def DW_FORM_defs rd_simps
                getstring_def getstring_loop.simps example_image_at)

lemma example_entry_a:
  "DwarfEntry_init example_info
       \<lparr>off = 103, rend = 123, io = MemReader example_image, addrLen = 8, rversion = 2\<rparr> 1
       (example_unit_0 l None)
     = Some (Inr (example_abbreviation_1,
          [3 \<mapsto> \<lparr>at_spec = \<lparr>as_name = 3, as_form = 8\<rparr>,
                 at_value = V_string [0x61, 0x2e, 0x63]\<rparr>,
           0x10 \<mapsto> \<lparr>at_spec = \<lparr>as_name = 0x10, as_form = 6\<rparr>, at_value = V_data4 0\<rparr>],
          \<lparr>off = 111, rend = 123, io = MemReader example_image, addrLen = 8, rversion = 2\<rparr>,
          example_unit_0 l (Some example_lines)))"
proof -
  have a: "abbreviations (example_unit_0 l None) 1 = Some example_abbreviation_1"
    by (simp add: example_unit_0_def)
  have t: "ab_tag example_abbreviation_1 = DW_TAG_compile_unit"
    by (simp add: example_abbreviation_1_def DW_TAG_compile_unit_def)
  have u: "lines (example_unit_0 l None) = None" "du_addrlen (example_unit_0 l None) = 8"
    "(example_unit_0 l None)\<lparr>lines := Some example_lines\<rparr> = example_unit_0 l (Some example_lines)"
    by (simp_all add: example_unit_0_def)
  show ?thesis
    by (simp add: DwarfEntry_init_def a t u example_attributes_a example_info_fields
                  dwarfAttr2Int_def DW_AT_stmt_list_def DW_FORM_defs example_build)
qed

lemma example_children_1:
  "decodeEntries example_info
       \<lparr>off = 111, rend = 123, io = MemReader example_image, addrLen = 8, rversion = 2\<rparr>
       (example_unit_0 l ls) []
     = Some (Inr ([DwarfEntry example_abbreviation_2
            [3 \<mapsto> \<lparr>at_spec = \<lparr>as_name = 3, as_form = 8\<rparr>, at_value = V_string [0x66]\<rparr>,
             0x11 \<mapsto> \<lparr>at_spec = \<lparr>as_name = 0x11, as_form = 1\<rparr>,
                      at_value = V_addr 0x401000\<rparr>] []],
          \<lparr>off = 123, rend = 123, io = MemReader example_image, addrLen = 8, rversion = 2\<rparr>,
          example_unit_0 l ls))"
  apply (subst decodeEntries.simps)
  apply (simp add: empty_r_def leb_simps example_image_at example_entry_f)
  apply (simp add: example_abbreviation_2_def)
  apply (subst decodeEntries.simps)
  apply (simp add: empty_r_def leb_simps example_image_at)
  done

lemma example_entries_1:
  "decodeEntries example_info (mkDWARFReader (MemReader example_image) 2 102 21)
       (example_unit_0 l None) []
     = Some (Inr (entries example_unit_1,
          \<lparr>off = 123, rend = 123, io = MemReader example_image, addrLen = 8, rversion = 2\<rparr>,
          example_unit_0 l (Some example_lines)))"
  apply (subst decodeEntries.simps)
  apply (simp add: empty_r_def mkDWARFReader_def leb_simps example_image_at example_entry_a)
  apply (simp add: example_abbreviation_1_def example_children_1)
  apply (subst decodeEntries.simps)
  apply (simp add: empty_r_def example_unit_1_def example_abbreviation_1_def)
  done

lemma example_unit_1_init:
  "DwarfUnit_init example_info (mkDWARFReader (MemReader example_image) 2 91 53)
     = Some (Inr (example_unit_1,
          \<lparr>off = 123, rend = 144, io = MemReader example_image, addrLen = 8, rversion = 2\<rparr>))"
  using example_entries_1[of "0x1c"]
  by (simp add: DwarfUnit_init_def example_header_1 example_abbreviations getOffset_def
                getLimit_def setOffset_def example_info_fields example_unit_0_def
                example_unit_1_def)

text \<open>The second unit: the compile unit \<open>b.c\<close>, whose list of children is empty.\<close>

lemma example_header_2:
  "DwarfUnit_header example_info
       \<lparr>off = 123, rend = 144, io = MemReader example_image, addrLen = 8, rversion = 2\<rparr>
     = Inr (0x11, 144, 2, mkDWARFReader (MemReader example_image) 2 72 19, 8,
            \<lparr>off = 134, rend = 144, io = MemReader example_image, addrLen = 8, rversion = 2\<rparr>)"
  by (simp add: DwarfUnit_header_def rd_simps example_image_at example_info_fields)

lemma example_attributes_b:
  "DwarfEntry_attributes example_info (example_unit_0 l None)
       (ab_specs example_abbreviation_1)
       \<lparr>off = 135, rend = 144, io = MemReader example_image, addrLen = 8, rversion = 2\<rparr>
       Map.empty
     = Inr ([3 \<mapsto> \<lparr>at_spec = \<lparr>as_name = 3, as_form = 8\<rparr>,
                     at_value = V_string [0x62, 0x2e, 0x63]\<rparr>,
             0x10 \<mapsto> \<lparr>at_spec = \<lparr>as_name = 0x10, as_form = 6\<rparr>, at_value = V_data4 0\<rparr>],
            \<lparr>off = 143, rend = 144, io = MemReader example_image, addrLen = 8, rversion = 2\<rparr>)"
  by (simp add: example_abbreviation_1_def DwarfAttribute_init_def DW_FORM_defs rd_simps
                getstring_def getstring_loop.simps example_image_at)

lemma example_entry_b:
  "DwarfEntry_init example_info
       \<lparr>off = 135, rend = 144, io = MemReader example_image, addrLen = 8, rversion = 2\<rparr> 1
       (example_unit_0 l None)
     = Some (Inr (example_abbreviation_1,
          [3 \<mapsto> \<lparr>at_spec = \<lparr>as_name = 3, as_form = 8\<rparr>,
                 at_value = V_string [0x62, 0x2e, 0x63]\<rparr>,
           0x10 \<mapsto> \<lparr>at_spec = \<lparr>as_name = 0x10, as_form = 6\<rparr>, at_value = V_data4 0\<rparr>],
          \<lparr>off = 143, rend = 144, io = MemReader example_image, addrLen = 8, rversion = 2\<rparr>,
          example_unit_0 l (Some example_lines)))"
proof -
  have a: "abbreviations (example_unit_0 l None) 1 = Some example_abbreviation_1"
    by (simp add: example_unit_0_def)
  have t: "ab_tag example_abbreviation_1 = DW_TAG_compile_unit"
    by (simp add: example_abbreviation_1_def DW_TAG_compile_unit_def)
  have u: "lines (example_unit_0 l None) = None" "du_addrlen (example_unit_0 l None) = 8"
    "(example_unit_0 l None)\<lparr>lines := Some example_lines\<rparr> = example_unit_0 l (Some example_lines)"
    by (simp_all add: example_unit_0_def)
  show ?thesis
    by (simp add: DwarfEntry_init_def a t u example_attributes_b example_info_fields
                  dwarfAttr2Int_def DW_AT_stmt_list_def DW_FORM_defs example_build)
qed

lemma example_children_2:
  "decodeEntries example_info
       \<lparr>off = 143, rend = 144, io = MemReader example_image, addrLen = 8, rversion = 2\<rparr>
       (example_unit_0 l ls) []
     = Some (Inr ([],
          \<lparr>off = 144, rend = 144, io = MemReader example_image, addrLen = 8, rversion = 2\<rparr>,
          example_unit_0 l ls))"
  apply (subst decodeEntries.simps)
  apply (simp add: empty_r_def leb_simps example_image_at)
  done

lemma example_entries_2:
  "decodeEntries example_info (mkDWARFReader (MemReader example_image) 2 134 10)
       (example_unit_0 l None) []
     = Some (Inr (entries example_unit_2,
          \<lparr>off = 144, rend = 144, io = MemReader example_image, addrLen = 8, rversion = 2\<rparr>,
          example_unit_0 l (Some example_lines)))"
  apply (subst decodeEntries.simps)
  apply (simp add: empty_r_def mkDWARFReader_def leb_simps example_image_at example_entry_b)
  apply (simp add: example_abbreviation_1_def example_children_2)
  apply (subst decodeEntries.simps)
  apply (simp add: empty_r_def example_unit_2_def example_abbreviation_1_def)
  done

lemma example_unit_2_init:
  "DwarfUnit_init example_info
       \<lparr>off = 123, rend = 144, io = MemReader example_image, addrLen = 8, rversion = 2\<rparr>
     = Some (Inr (example_unit_2,
          \<lparr>off = 144, rend = 144, io = MemReader example_image, addrLen = 8, rversion = 2\<rparr>))"
  using example_entries_2[of "0x11"]
  by (simp add: DwarfUnit_init_def example_header_2 example_abbreviations getOffset_def
                getLimit_def setOffset_def example_info_fields example_unit_0_def
                example_unit_2_def)

lemma example_units:
  "section_elements (DwarfUnit_init example_info)
     (mkDWARFReader (MemReader example_image) 2 91 53)
     [(91, example_unit_1), (123, example_unit_2)]"
proof -
  let ?r = "mkDWARFReader (MemReader example_image) 2 91 53"
  let ?r1 = "\<lparr>off = 123, rend = 144, io = MemReader example_image, addrLen = 8, rversion = 2\<rparr>"
  let ?r2 = "\<lparr>off = 144, rend = 144, io = MemReader example_image, addrLen = 8, rversion = 2\<rparr>"
  have "section_elements (DwarfUnit_init example_info) ?r2 []"
    by (rule section_end) (simp add: empty_r_def)
  then have "section_elements (DwarfUnit_init example_info) ?r1 [(getOffset ?r1, example_unit_2)]"
    using example_unit_2_init
    by (intro section_next[where r = ?r1 and r' = ?r2]) (simp_all add: empty_r_def)
  then have "section_elements (DwarfUnit_init example_info) ?r
               [(getOffset ?r, example_unit_1), (getOffset ?r1, example_unit_2)]"
    using example_unit_1_init
    by (intro section_next[where r = ?r and r' = ?r1]) (simp_all add: empty_r_def mkDWARFReader_def)
  then show ?thesis by (simp add: getOffset_def mkDWARFReader_def)
qed

text \<open>On the file that was cut off, \<open>pubnames()\<close> and \<open>units()\<close> throw at once.\<close>

lemma truncated_pubnames:
  "pubnames truncated_info = Some (Inl (Exception, truncated_info\<lparr>pubnameUnits := []\<rparr>))"
  apply (simp add: pubnames_def truncated_info_fields)
  apply (subst pubnames_loop.simps)
  apply (simp add: empty_r_def mkDWARFReader_def DwarfPubnameUnit_init_def
                   DwarfPubnameUnit_header_def bindE_def getu32_def readObj_numeral
                   truncated_image_at)
  done

lemma truncated_units:
  "units truncated_info = Some (Inl (Exception, truncated_info\<lparr>unitsm := Map.empty\<rparr>))"
  apply (simp add: units_def truncated_info_fields)
  apply (subst units_loop.simps)
  apply (simp add: empty_r_def mkDWARFReader_def DwarfUnit_init_def DwarfUnit_header_def
                   bindE_def getlength_def getu32_def readObj_numeral truncated_image_at
                   truncated_info_fields)
  done

text \<open>
  Witness for C9.  The sections of the example image are made of two compilation
  units with their entries, one range set, and one unit of names; so the first call
  of each accessor returns the index of these, and a second call returns the same
  container and the same \<open>DwarfInfo\<close>.
  On the file that was cut off each first call throws and leaves its section header
  set, and the second call of \<open>ranges()\<close> stores the first set again.
\<close>

theorem lazy_indexes_after_return_witness:
  "units example_info
     = Some (Inr ([0 \<mapsto> example_unit_1, 32 \<mapsto> example_unit_2],
                  example_info\<lparr>unitsm := [0 \<mapsto> example_unit_1, 32 \<mapsto> example_unit_2],
                                 info := None\<rparr>))
   \<and> units (example_info\<lparr>unitsm := [0 \<mapsto> example_unit_1, 32 \<mapsto> example_unit_2],
                           info := None\<rparr>)
     = Some (Inr ([0 \<mapsto> example_unit_1, 32 \<mapsto> example_unit_2],
                  example_info\<lparr>unitsm := [0 \<mapsto> example_unit_1, 32 \<mapsto> example_unit_2],
                                 info := None\<rparr>))
   \<and> ranges example_info
     = Some (Inr ([example_arange_set],
                  example_info\<lparr>aranges := [example_arange_set], arangesh := None\<rparr>))
   \<and> ranges (example_info\<lparr>aranges := [example_arange_set], arangesh := None\<rparr>)
     = Some (Inr ([example_arange_set],
                  example_info\<lparr>aranges := [example_arange_set], arangesh := None\<rparr>))
   \<and> pubnames example_info
     = Some (Inr ([example_pubname_unit],
                  example_info\<lparr>pubnameUnits := [example_pubname_unit], pubnamesh := None\<rparr>))
   \<and> pubnames (example_info\<lparr>pubnameUnits := [example_pubname_unit], pubnamesh := None\<rparr>)
     = Some (Inr ([example_pubname_unit],
                  example_info\<lparr>pubnameUnits := [example_pubname_unit], pubnamesh := None\<rparr>))
   \<and> units truncated_info = Some (Inl (Exception, truncated_info\<lparr>unitsm := Map.empty\<rparr>))
   \<and> info (truncated_info\<lparr>unitsm := Map.empty\<rparr>) = Some \<lparr>sh_offset = 139, sh_size = 53\<rparr>
   \<and> pubnames truncated_info = Some (Inl (Exception, truncated_info\<lparr>pubnameUnits := []\<rparr>))
   \<and> pubnamesh (truncated_info\<lparr>pubnameUnits := []\<rparr>) = Some \<lparr>sh_offset = 96, sh_size = 24\<rparr>
   \<and> ranges truncated_info
     = Some (Inl (Exception, truncated_info\<lparr>aranges := [example_arange_set]\<rparr>))
   \<and> arangesh (truncated_info\<lparr>aranges := [example_arange_set]\<rparr>)
     = Some \<lparr>sh_offset = 0, sh_size = 96\<rparr>
   \<and> ranges (truncated_info\<lparr>aranges := [example_arange_set]\<rparr>)
     = Some (Inl (Exception,
                  truncated_info\<lparr>aranges := [example_arange_set, example_arange_set]\<rparr>))"
proof -
  let ?m = "[0 \<mapsto> example_unit_1, 32 \<mapsto> example_unit_2]"
  let ?d1 = "example_info\<lparr>unitsm := ?m, info := None\<rparr>"
  let ?d2 = "example_info\<lparr>aranges := [example_arange_set], arangesh := None\<rparr>"
  let ?d3 = "example_info\<lparr>pubnameUnits := [example_pubname_unit], pubnamesh := None\<rparr>"
  let ?t1 = "truncated_info\<lparr>unitsm := Map.empty\<rparr>"
  let ?t2 = "truncated_info\<lparr>aranges := [example_arange_set]\<rparr>"
  let ?t3 = "truncated_info\<lparr>pubnameUnits := []\<rparr>"
  note c2 = conjunct2
  note t = lazy_indexes_after_return[where d = example_info and us = ?m and ?d1.0 = ?d1
              and rs = "[example_arange_set]" and ?d2.0 = ?d2
              and ps = "[example_pubname_unit]" and ?d3.0 = ?d3]
  note u = lazy_indexes_after_return[where d = truncated_info and ?e1.0 = Exception
              and d1' = ?t1 and ?e2.0 = Exception and d2' = ?t2 and ?e3.0 = Exception
              and d3' = ?t3]
  have su: "info example_info = Some \<lparr>sh_offset = 91, sh_size = 53\<rparr>
            \<and> section_elements (DwarfUnit_init example_info)
                 (section_reader example_info \<lparr>sh_offset = 91, sh_size = 53\<rparr>)
                 [(91, example_unit_1), (123, example_unit_2)]"
    using example_units by (simp add: example_info_fields)
  have sr: "arangesh example_info = Some \<lparr>sh_offset = 0, sh_size = 48\<rparr>
            \<and> section_elements DwarfARangeSet_init
                 (section_reader example_info \<lparr>sh_offset = 0, sh_size = 48\<rparr>)
                 [(0, example_arange_set)]"
    using example_range_sets by (simp add: example_info_fields)
  have sp: "pubnamesh example_info = Some \<lparr>sh_offset = 48, sh_size = 24\<rparr>
            \<and> section_elements DwarfPubnameUnit_init
                 (section_reader example_info \<lparr>sh_offset = 48, sh_size = 24\<rparr>)
                 [(48, example_pubname_unit)]"
    using example_name_units by (simp add: example_info_fields)
  have fu: "units example_info = Some (Inr (?m, ?d1))"
    using t[THEN conjunct1, THEN spec, THEN spec, THEN mp, OF su]
    by (simp add: example_info_fields)
  have fr: "ranges example_info = Some (Inr ([example_arange_set], ?d2))"
    using t[THEN c2, THEN c2, THEN c2, THEN conjunct1, THEN spec, THEN spec, THEN mp, OF sr]
    by (simp add: example_info_fields)
  have fp: "pubnames example_info = Some (Inr ([example_pubname_unit], ?d3))"
    using t[THEN c2, THEN c2, THEN c2, THEN c2, THEN c2, THEN c2, THEN conjunct1,
            THEN spec, THEN spec, THEN mp, OF sp]
    by (simp add: example_info_fields)
  have r: "ranges truncated_info = Some (Inl (Exception, ?t2))"
    by (simp add: ranges_def truncated_info_fields truncated_ranges_loop)
  have 1: "units (?d1\<lparr>elf_io := elf_io ?d1\<rparr>) = Some (Inr (?m, ?d1\<lparr>elf_io := elf_io ?d1\<rparr>))"
    using t[THEN c2, THEN conjunct1, THEN mp, OF fu] by blast
  have 2: "ranges (?d2\<lparr>elf_io := elf_io ?d2\<rparr>)
             = Some (Inr ([example_arange_set], ?d2\<lparr>elf_io := elf_io ?d2\<rparr>))"
    using t[THEN c2, THEN c2, THEN c2, THEN c2, THEN conjunct1, THEN mp, OF fr] by blast
  have 3: "pubnames (?d3\<lparr>elf_io := elf_io ?d3\<rparr>)
             = Some (Inr ([example_pubname_unit], ?d3\<lparr>elf_io := elf_io ?d3\<rparr>))"
    using t[THEN c2, THEN c2, THEN c2, THEN c2, THEN c2, THEN c2, THEN c2, THEN conjunct1,
            THEN mp, OF fp]
    by blast
  have 4: "info ?t1 = info truncated_info"
    using u[THEN c2, THEN c2, THEN conjunct1, THEN mp, OF truncated_units] by blast
  have 5: "pubnamesh ?t3 = pubnamesh truncated_info"
    using u[THEN c2, THEN c2, THEN c2, THEN c2, THEN c2, THEN c2, THEN c2, THEN c2, THEN mp,
            OF truncated_pubnames]
    by blast
  have 6: "arangesh ?t2 = arangesh truncated_info
           \<and> (\<exists>xs. aranges ?t2 = aranges truncated_info @ xs
                  \<and> ranges ?t2 = Some (Inl (Exception, ?t2\<lparr>aranges := aranges ?t2 @ xs\<rparr>)))"
    using u[THEN c2, THEN c2, THEN c2, THEN c2, THEN c2, THEN conjunct1, THEN mp, OF r] by blast
  then have 7: "ranges ?t2
     = Some (Inl (Exception,
                  truncated_info\<lparr>aranges := [example_arange_set, example_arange_set]\<rparr>))"
    by (auto simp: truncated_info_fields)
  have 8: "units ?d1 = Some (Inr (?m, ?d1))" using 1 by simp
  have 9: "ranges ?d2 = Some (Inr ([example_arange_set], ?d2))" using 2 by simp
  have 10: "pubnames ?d3 = Some (Inr ([example_pubname_unit], ?d3))" using 3 by simp
  have 11: "info ?t1 = Some \<lparr>sh_offset = 139, sh_size = 53\<rparr>"
    using 4 by (simp add: truncated_info_fields)
  have 12: "pubnamesh ?t3 = Some \<lparr>sh_offset = 96, sh_size = 24\<rparr>"
    using 5 by (simp add: truncated_info_fields)
  have 13: "arangesh ?t2 = Some \<lparr>sh_offset = 0, sh_size = 96\<rparr>"
    using 6 by (simp add: truncated_info_fields)
  show ?thesis
    by (intro conjI fu 8 fr 9 fp 10 truncated_units 11 truncated_pubnames 12 r 13 7)
qed

end
